theory Spec2Isabelle
  imports Complex_Main "HOL-Library.Monad_Syntax"
begin

section \<open>Dense matrices and vectors\<close>

text \<open>
  The controller computes with Eigen's dynamically sized \<^verbatim>\<open>MatrixXd\<close> and
  \<^verbatim>\<open>VectorXd\<close>.  A matrix is its two dimensions and its coefficients; a vector is a
  matrix with one column, as in Eigen.  Scalars are idealised as reals.  Every operation
  below is the Eigen operation of the same name on operands whose dimensions agree (where
  they do not, Eigen itself stops with an assertion).
\<close>

record mat =
  rows :: nat
  cols :: nat
  coeff :: "nat \<Rightarrow> nat \<Rightarrow> real"

definition MatrixXd_Zero :: "nat \<Rightarrow> nat \<Rightarrow> mat" where
  "MatrixXd_Zero r c = \<lparr>rows = r, cols = c, coeff = (\<lambda>i j. 0)\<rparr>"

definition VectorXd_Zero :: "nat \<Rightarrow> mat" where
  "VectorXd_Zero n = MatrixXd_Zero n 1"

definition MatrixXd_Identity :: "nat \<Rightarrow> nat \<Rightarrow> mat" where
  "MatrixXd_Identity r c = \<lparr>rows = r, cols = c, coeff = (\<lambda>i j. if i = j then 1 else 0)\<rparr>"

definition VectorXd_Constant :: "nat \<Rightarrow> real \<Rightarrow> mat" where
  "VectorXd_Constant n v = \<lparr>rows = n, cols = 1, coeff = (\<lambda>i j. v)\<rparr>"

text \<open>
  \<^verbatim>\<open>MatrixXd m(r, c)\<close> and \<^verbatim>\<open>m.resize(r, c)\<close> leave the coefficients
  uninitialised: the model gives them no specified value.
\<close>

definition MatrixXd_uninit :: "nat \<Rightarrow> nat \<Rightarrow> mat" where
  "MatrixXd_uninit r c = \<lparr>rows = r, cols = c, coeff = undefined\<rparr>"

definition mat_resize :: "nat \<Rightarrow> nat \<Rightarrow> mat \<Rightarrow> mat" where
  "mat_resize r c m = MatrixXd_uninit r c"

definition setZero :: "mat \<Rightarrow> mat" where
  "setZero m = m\<lparr>coeff := (\<lambda>i j. 0)\<rparr>"

definition mat_block :: "mat \<Rightarrow> nat \<Rightarrow> nat \<Rightarrow> nat \<Rightarrow> nat \<Rightarrow> mat" where
  "mat_block m i0 j0 h w = \<lparr>rows = h, cols = w, coeff = (\<lambda>i j. coeff m (i0 + i) (j0 + j))\<rparr>"

text \<open>\<^verbatim>\<open>m.block(i0, j0, h, w) = src\<close>\<close>

definition mat_set_block :: "mat \<Rightarrow> nat \<Rightarrow> nat \<Rightarrow> nat \<Rightarrow> nat \<Rightarrow> mat \<Rightarrow> mat" where
  "mat_set_block m i0 j0 h w src =
     m\<lparr>coeff := (\<lambda>i j. if i0 \<le> i \<and> i < i0 + h \<and> j0 \<le> j \<and> j < j0 + w
                         then coeff src (i - i0) (j - j0) else coeff m i j)\<rparr>"

definition topRows :: "nat \<Rightarrow> mat \<Rightarrow> mat" where
  "topRows n m = mat_block m 0 0 n (cols m)"

definition bottomRows :: "nat \<Rightarrow> mat \<Rightarrow> mat" where
  "bottomRows n m = mat_block m (rows m - n) 0 n (cols m)"

definition vec_head :: "nat \<Rightarrow> mat \<Rightarrow> mat" where
  "vec_head n v = mat_block v 0 0 n 1"

definition vec_tail :: "nat \<Rightarrow> mat \<Rightarrow> mat" where
  "vec_tail n v = mat_block v (rows v - n) 0 n 1"

definition segment :: "mat \<Rightarrow> nat \<Rightarrow> nat \<Rightarrow> mat" where
  "segment v i0 n = mat_block v i0 0 n 1"

definition set_segment :: "mat \<Rightarrow> nat \<Rightarrow> nat \<Rightarrow> mat \<Rightarrow> mat" where
  "set_segment v i0 n src = mat_set_block v i0 0 n 1 src"

definition mat_transpose :: "mat \<Rightarrow> mat" where
  "mat_transpose m = \<lparr>rows = cols m, cols = rows m, coeff = (\<lambda>i j. coeff m j i)\<rparr>"

definition mat_mul :: "mat \<Rightarrow> mat \<Rightarrow> mat" where
  "mat_mul a b = \<lparr>rows = rows a, cols = cols b,
                   coeff = (\<lambda>i j. \<Sum>k<cols a. coeff a i k * coeff b k j)\<rparr>"

definition mat_add :: "mat \<Rightarrow> mat \<Rightarrow> mat" where
  "mat_add a b = \<lparr>rows = rows a, cols = cols a, coeff = (\<lambda>i j. coeff a i j + coeff b i j)\<rparr>"

definition mat_sub :: "mat \<Rightarrow> mat \<Rightarrow> mat" where
  "mat_sub a b = \<lparr>rows = rows a, cols = cols a, coeff = (\<lambda>i j. coeff a i j - coeff b i j)\<rparr>"

definition mat_neg :: "mat \<Rightarrow> mat" where
  "mat_neg a = a\<lparr>coeff := (\<lambda>i j. - coeff a i j)\<rparr>"

definition mat_scale :: "real \<Rightarrow> mat \<Rightarrow> mat" where
  "mat_scale s a = a\<lparr>coeff := (\<lambda>i j. s * coeff a i j)\<rparr>"

text \<open>\<^verbatim>\<open>v[i] += x\<close> on a vector.\<close>

definition vec_add_at :: "mat \<Rightarrow> nat \<Rightarrow> real \<Rightarrow> mat" where
  "vec_add_at v i x = v\<lparr>coeff := (\<lambda>k j. if k = i \<and> j = 0 then coeff v k j + x else coeff v k j)\<rparr>"

text \<open>\<^verbatim>\<open>a.cross(b)\<close> on 3-vectors.\<close>

definition cross :: "mat \<Rightarrow> mat \<Rightarrow> mat" where
  "cross a b = \<lparr>rows = 3, cols = 1,
     coeff = (\<lambda>i j. if i = 0 then coeff a 1 0 * coeff b 2 0 - coeff a 2 0 * coeff b 1 0
                     else if i = 1 then coeff a 2 0 * coeff b 0 0 - coeff a 0 0 * coeff b 2 0
                     else coeff a 0 0 * coeff b 1 0 - coeff a 1 0 * coeff b 0 0)\<rparr>"

text \<open>
  \<^verbatim>\<open>m.isZero(prec)\<close>: every coefficient is at most \<open>prec\<close> in absolute value.
\<close>

definition isZero :: "real \<Rightarrow> mat \<Rightarrow> bool" where
  "isZero prec m = list_all (\<lambda>i. list_all (\<lambda>j. \<bar>coeff m i j\<bar> \<le> prec) [0..<cols m]) [0..<rows m]"

text \<open>Stacking two vectors, the first on top.\<close>

definition vconcat :: "mat \<Rightarrow> mat \<Rightarrow> mat" where
  "vconcat a b = \<lparr>rows = rows a + rows b, cols = 1,
     coeff = (\<lambda>i j. if i < rows a then coeff a i j else coeff b (i - rows a) j)\<rparr>"

text \<open>\<^verbatim>\<open>std::vector::resize(n)\<close> with \<open>d\<close> the value of a new element.\<close>

definition resize_vec :: "nat \<Rightarrow> 'a \<Rightarrow> 'a list \<Rightarrow> 'a list" where
  "resize_vec n d xs = take n xs @ replicate (n - length xs) d"

text \<open>
  A \<^verbatim>\<open>for\<close> loop over the indices \<open>is\<close> whose body can stop the program: the loop
  stops with it.
\<close>

fun foldM :: "(nat \<Rightarrow> 's \<Rightarrow> 's option) \<Rightarrow> nat list \<Rightarrow> 's \<Rightarrow> 's option" where
  "foldM f [] s = Some s"
| "foldM f (i # is) s = (case f i s of None \<Rightarrow> None | Some s' \<Rightarrow> foldM f is s')"

section \<open>Robot model, state and controller input\<close>

type_synonym RigidBody = string

record RigidBodyActuator =
  effort_limit_min_' :: real
  effort_limit_max_' :: real

record RigidBodyTree =
  number_of_velocities :: nat
  actuators :: "RigidBodyActuator list"
  tree_B :: mat
  getMass :: real
  a_grav :: mat

record ContactInformation =
  ci_body :: RigidBody
  ci_name :: string
  contact_points :: "mat list"
  ci_num_basis :: nat

text \<open>
  Modelled from the spec: \<^verbatim>\<open>ContactInformation::num_contact_points\<close> is declared in
  \<^verbatim>\<open>qp_controller.h\<close>, which is not among the sources; the spec gives a contact its
  ordered sequence of contact points with force dimension three times the point count.
\<close>

definition num_contact_points :: "ContactInformation \<Rightarrow> nat" where
  "num_contact_points c = length (contact_points c)"

record DesiredBodyAcceleration =
  dba_body :: RigidBody
  dba_name :: string
  dba_acceleration :: mat
  dba_weight :: real

text \<open>
  Modelled from the spec: the kinematics and dynamics provider
  (\<^verbatim>\<open>ComputeBasisMatrix\<close>, \<^verbatim>\<open>ComputeJacobianAtContactPoints\<close>,
  \<^verbatim>\<open>ComputeJacobianDotTimesVAtContactPoints\<close>,
  \<^verbatim>\<open>ComputeContactPointsAndWrenchReferencePoint\<close>, \<^verbatim>\<open>GetTaskSpaceJacobian\<close>,
  \<^verbatim>\<open>GetTaskSpaceJacobianDotTimesV\<close>) is an external collaborator whose code is not
  among the sources.  What it answers for the robot and the kinematics cache of the current
  cycle is a parameter: the cache is the table of these answers.
\<close>

record KinematicsCache =
  ComputeBasisMatrix :: "ContactInformation \<Rightarrow> mat"
  ComputeJacobianAtContactPoints :: "ContactInformation \<Rightarrow> mat"
  ComputeJacobianDotTimesVAtContactPoints :: "ContactInformation \<Rightarrow> mat"
  ComputeContactPointsAndWrenchReferencePoint :: "ContactInformation \<Rightarrow> mat \<Rightarrow> mat list \<times> mat"
  GetTaskSpaceJacobian :: "RigidBody \<Rightarrow> mat \<Rightarrow> mat"
  GetTaskSpaceJacobianDotTimesV :: "RigidBody \<Rightarrow> mat \<Rightarrow> mat"

record HumanoidStatus =
  rs_robot :: RigidBodyTree
  cache :: KinematicsCache
  rs_M :: mat
  bias_term :: mat
  J_com :: mat
  Jdot_times_v_com :: mat
  centroidal_momentum_matrix :: mat
  centroidal_momentum_matrix_dot_times_v :: mat
  com :: mat

record QPInput =
  contact_info :: "ContactInformation list"
  desired_body_accelerations :: "DesiredBodyAcceleration list"
  desired_vd :: mat
  desired_comdd :: mat
  w_com :: real
  w_vd :: real
  w_basis_reg :: real

text \<open>
  Modelled from the spec: \<^verbatim>\<open>QPInput::is_valid\<close> is defined in \<^verbatim>\<open>qp_controller.h\<close>,
  which is not among the sources.  The spec gives its test: the dimension of the desired
  generalized-acceleration regularization target equals the model's velocity count.
\<close>

definition QPInput_is_valid :: "QPInput \<Rightarrow> nat \<Rightarrow> bool" where
  "QPInput_is_valid input num_vd \<longleftrightarrow> rows (desired_vd input) = num_vd"

section \<open>The optimization program\<close>

text \<open>
  Modelled from the spec: \<^verbatim>\<open>MathematicalProgram\<close>, its decision-variable views,
  constraints and bindings live in \<^verbatim>\<open>drake/solvers\<close>, which is not among the sources.
  Following the spec, the program holds two contiguous blocks of decision variables, found
  by name, and a registry of constraint and cost records; the constraint handles the
  controller stores (shared pointers in the code) are indices into that registry, and a
  null or dangling handle stops the program when it is dereferenced.  The field
  \<open>insertion_order\<close> records the order of the declaring calls.
\<close>

record DecisionVariableView =
  dv_index :: nat
  dv_size :: nat

record LinearConstraint =
  lc_A :: mat
  lc_lower_bound :: mat
  lc_upper_bound :: mat
  lc_description :: string

record QuadraticConstraint =
  qc_Q :: mat
  qc_b :: mat
  qc_description :: string

record 'c Binding =
  constraint :: 'c
  variable_list :: "DecisionVariableView list"

datatype decl = LinearEqualityDecl nat | LinearDecl nat | QuadraticCostDecl nat

record MathematicalProgram =
  num_vars :: nat
  variable_views :: "(string \<times> DecisionVariableView) list"
  linear_equality_constraints :: "LinearConstraint Binding list"
  linear_constraints :: "LinearConstraint Binding list"
  quadratic_costs :: "QuadraticConstraint Binding list"
  prog_solution :: mat
  insertion_order :: "decl list"

type_synonym handle = "nat option"

definition MathematicalProgram_new :: MathematicalProgram where
  "MathematicalProgram_new =
     \<lparr>num_vars = 0, variable_views = [], linear_equality_constraints = [],
      linear_constraints = [], quadratic_costs = [], prog_solution = VectorXd_Zero 0,
      insertion_order = []\<rparr>"

definition AddContinuousVariables ::
  "nat \<Rightarrow> string \<Rightarrow> MathematicalProgram \<Rightarrow> DecisionVariableView \<times> MathematicalProgram" where
  "AddContinuousVariables n name prog =
     (let v = \<lparr>dv_index = num_vars prog, dv_size = n\<rparr>
      in (v, prog\<lparr>num_vars := num_vars prog + n,
                  variable_views := variable_views prog @ [(name, v)]\<rparr>))"

definition GetVariable :: "MathematicalProgram \<Rightarrow> string \<Rightarrow> DecisionVariableView option" where
  "GetVariable prog name = map_of (variable_views prog) name"

definition AddLinearEqualityConstraint ::
  "mat \<Rightarrow> mat \<Rightarrow> DecisionVariableView list \<Rightarrow> MathematicalProgram \<Rightarrow> handle \<times> MathematicalProgram" where
  "AddLinearEqualityConstraint Aeq beq vars prog =
     (let k = length (linear_equality_constraints prog);
          c = \<lparr>lc_A = Aeq, lc_lower_bound = beq, lc_upper_bound = beq, lc_description = []\<rparr>
      in (Some k, prog\<lparr>linear_equality_constraints :=
                          linear_equality_constraints prog @ [\<lparr>constraint = c, variable_list = vars\<rparr>],
                        insertion_order := insertion_order prog @ [LinearEqualityDecl k]\<rparr>))"

definition AddLinearConstraint ::
  "mat \<Rightarrow> mat \<Rightarrow> mat \<Rightarrow> DecisionVariableView list \<Rightarrow> MathematicalProgram \<Rightarrow> handle \<times> MathematicalProgram" where
  "AddLinearConstraint Ain lb ub vars prog =
     (let k = length (linear_constraints prog);
          c = \<lparr>lc_A = Ain, lc_lower_bound = lb, lc_upper_bound = ub, lc_description = []\<rparr>
      in (Some k, prog\<lparr>linear_constraints :=
                          linear_constraints prog @ [\<lparr>constraint = c, variable_list = vars\<rparr>],
                        insertion_order := insertion_order prog @ [LinearDecl k]\<rparr>))"

definition AddQuadraticCost ::
  "mat \<Rightarrow> mat \<Rightarrow> DecisionVariableView list \<Rightarrow> MathematicalProgram \<Rightarrow> handle \<times> MathematicalProgram" where
  "AddQuadraticCost Qc bc vars prog =
     (let k = length (quadratic_costs prog);
          c = \<lparr>qc_Q = Qc, qc_b = bc, qc_description = []\<rparr>
      in (Some k, prog\<lparr>quadratic_costs :=
                          quadratic_costs prog @ [\<lparr>constraint = c, variable_list = vars\<rparr>],
                        insertion_order := insertion_order prog @ [QuadraticCostDecl k]\<rparr>))"

text \<open>Applying \<open>f\<close> to the constraint a handle points to (\<^verbatim>\<open>h->...\<close>).\<close>

definition through :: "handle \<Rightarrow> ('c \<Rightarrow> 'c) \<Rightarrow> 'c Binding list \<Rightarrow> 'c Binding list option" where
  "through h f bs =
     (case h of
        None \<Rightarrow> None
      | Some k \<Rightarrow> if k < length bs
                  then Some (bs[k := (bs ! k)\<lparr>constraint := f (constraint (bs ! k))\<rparr>])
                  else None)"

definition eq_through :: "handle \<Rightarrow> (LinearConstraint \<Rightarrow> LinearConstraint) \<Rightarrow> MathematicalProgram \<Rightarrow> MathematicalProgram option" where
  "eq_through h f prog =
     map_option (\<lambda>bs. prog\<lparr>linear_equality_constraints := bs\<rparr>)
       (through h f (linear_equality_constraints prog))"

definition ineq_through :: "handle \<Rightarrow> (LinearConstraint \<Rightarrow> LinearConstraint) \<Rightarrow> MathematicalProgram \<Rightarrow> MathematicalProgram option" where
  "ineq_through h f prog =
     map_option (\<lambda>bs. prog\<lparr>linear_constraints := bs\<rparr>)
       (through h f (linear_constraints prog))"

definition cost_through :: "handle \<Rightarrow> (QuadraticConstraint \<Rightarrow> QuadraticConstraint) \<Rightarrow> MathematicalProgram \<Rightarrow> MathematicalProgram option" where
  "cost_through h f prog =
     map_option (\<lambda>bs. prog\<lparr>quadratic_costs := bs\<rparr>)
       (through h f (quadratic_costs prog))"

text \<open>
  \<^verbatim>\<open>UpdateConstraint\<close> overwrites the coefficients of a declared constraint or cost; the
  topology of the program is not changed.
\<close>

definition UpdateEquality :: "mat \<Rightarrow> mat \<Rightarrow> LinearConstraint \<Rightarrow> LinearConstraint" where
  "UpdateEquality Aeq beq c = c\<lparr>lc_A := Aeq, lc_lower_bound := beq, lc_upper_bound := beq\<rparr>"

definition UpdateLinear :: "mat \<Rightarrow> mat \<Rightarrow> mat \<Rightarrow> LinearConstraint \<Rightarrow> LinearConstraint" where
  "UpdateLinear Ain lb ub c = c\<lparr>lc_A := Ain, lc_lower_bound := lb, lc_upper_bound := ub\<rparr>"

definition UpdateQuadratic :: "mat \<Rightarrow> mat \<Rightarrow> QuadraticConstraint \<Rightarrow> QuadraticConstraint" where
  "UpdateQuadratic Qc bc c = c\<lparr>qc_Q := Qc, qc_b := bc\<rparr>"

text \<open>The value of a view and of a binding's variable list in the stored solution.\<close>

definition dv_value :: "MathematicalProgram \<Rightarrow> DecisionVariableView \<Rightarrow> mat" where
  "dv_value prog v = segment (prog_solution prog) (dv_index v) (dv_size v)"

definition VariableListToVectorXd :: "MathematicalProgram \<Rightarrow> DecisionVariableView list \<Rightarrow> mat" where
  "VariableListToVectorXd prog vars = foldl (\<lambda>acc v. vconcat acc (dv_value prog v)) (VectorXd_Zero 0) vars"

definition GetSolution :: "MathematicalProgram \<Rightarrow> mat" where
  "GetSolution prog = prog_solution prog"

section \<open>The controller\<close>

text \<open>
  The members of \<^verbatim>\<open>QPController\<close> that \<^verbatim>\<open>ResizeQP\<close> and \<^verbatim>\<open>Control\<close> read and
  write.  A member \<^verbatim>\<open>x_\<close> of the class is the field \<open>x_'\<close>.  The counts are container
  sizes held in \<^verbatim>\<open>int\<close>; they are natural numbers here (no container of the model
  reaches the range of \<^verbatim>\<open>int\<close>).
\<close>

record QPController =
  num_contact_body_' :: nat
  num_vd_' :: nat
  num_basis_' :: nat
  num_point_force_' :: nat
  num_torque_' :: nat
  num_variable_' :: nat
  num_body_acceleration_' :: nat
  prog_' :: MathematicalProgram
  stacked_contact_jacobians_' :: mat
  basis_to_force_matrix_' :: mat
  stacked_contact_jacobians_dot_times_v_' :: mat
  torque_linear_' :: mat
  dynamics_linear_' :: mat
  eq_dynamics_' :: handle
  eq_contacts_' :: "handle list"
  ineq_contact_wrench_' :: handle
  ineq_torque_limit_' :: handle
  cost_comdd_' :: handle
  cost_body_accelerations_' :: "handle list"
  cost_vd_reg_' :: handle
  cost_basis_reg_' :: handle
  body_Jdv_' :: "mat list"
  body_J_' :: "mat list"
  JB_' :: mat
  torque_constant_' :: mat
  dynamics_constant_' :: mat
  inequality_linear_' :: mat
  inequality_upper_bound_' :: mat
  inequality_lower_bound_' :: mat
  point_forces_' :: mat

definition set_lc_description :: "string \<Rightarrow> LinearConstraint \<Rightarrow> LinearConstraint" where
  "set_lc_description d c = c\<lparr>lc_description := d\<rparr>"

definition set_qc_description :: "string \<Rightarrow> QuadraticConstraint \<Rightarrow> QuadraticConstraint" where
  "set_qc_description d c = c\<lparr>qc_description := d\<rparr>"

subsection \<open>ResizeQP\<close>

text \<open>The loop that counts point forces and basis coefficients over the contacts.\<close>

definition topology_counts :: "ContactInformation list \<Rightarrow> nat \<times> nat" where
  "topology_counts all_supports =
     foldl (\<lambda>(num_point_force, num_basis) s.
              (num_point_force + length (contact_points s), num_basis + ci_num_basis s))
       (0, 0) all_supports"

text \<open>The body of the loop that declares one contact equality per contact body.\<close>

definition ResizeQP_contact_eq ::
  "ContactInformation list \<Rightarrow> nat \<Rightarrow> DecisionVariableView \<Rightarrow> nat \<Rightarrow>
   MathematicalProgram \<times> handle list \<Rightarrow> (MathematicalProgram \<times> handle list) option" where
  "ResizeQP_contact_eq all_supports num_vd vd i = (\<lambda>(prog, eq_contacts). do {
     let n = 3 * length (contact_points (all_supports ! i));
     let (h, prog) = AddLinearEqualityConstraint (MatrixXd_Zero n num_vd) (VectorXd_Zero n) [vd] prog;
     let eq_contacts = eq_contacts[i := h];
     prog \<leftarrow> eq_through (eq_contacts ! i)
               (set_lc_description (ci_name (all_supports ! i) @ '' contact eq'')) prog;
     Some (prog, eq_contacts)
   })"

text \<open>The body of the loop that declares one tracking cost per tracked body motion.\<close>

definition ResizeQP_body_cost ::
  "DesiredBodyAcceleration list \<Rightarrow> mat \<Rightarrow> mat \<Rightarrow> DecisionVariableView \<Rightarrow> nat \<Rightarrow>
   MathematicalProgram \<times> handle list \<Rightarrow> (MathematicalProgram \<times> handle list) option" where
  "ResizeQP_body_cost all_body_accelerations tmp_matrix_vd tmp_vector_vd vd i =
   (\<lambda>(prog, cost_body_accelerations). do {
     let (h, prog) = AddQuadraticCost tmp_matrix_vd tmp_vector_vd [vd] prog;
     let cost_body_accelerations = cost_body_accelerations[i := h];
     prog \<leftarrow> cost_through (cost_body_accelerations ! i)
               (set_qc_description (dba_name (all_body_accelerations ! i) @ '' cost'')) prog;
     Some (prog, cost_body_accelerations)
   })"

text \<open>
  Everything after the early return: the stored topology is overwritten, the program is
  replaced by a new one, the scratch buffers are resized and every constraint and cost
  is declared.
\<close>

definition ResizeQP_rebuild ::
  "ContactInformation list \<Rightarrow> DesiredBodyAcceleration list \<Rightarrow>
   nat \<Rightarrow> nat \<Rightarrow> nat \<Rightarrow> nat \<Rightarrow> nat \<Rightarrow> nat \<Rightarrow> QPController \<Rightarrow> QPController option" where
  "ResizeQP_rebuild all_supports all_body_accelerations
       num_contact_body num_vd num_basis num_point_force num_torque num_variable st = do {
     let st = st\<lparr>num_contact_body_' := num_contact_body, num_vd_' := num_vd,
                 num_basis_' := num_basis, num_point_force_' := num_point_force,
                 num_torque_' := num_torque, num_variable_' := num_variable,
                 num_body_acceleration_' := length all_body_accelerations\<rparr>;
     let prog = MathematicalProgram_new;
     let (vd, prog) = AddContinuousVariables (num_vd_' st) ''vd'' prog;
     let (basis, prog) = AddContinuousVariables (num_basis_' st) ''basis'' prog;
     let st = st\<lparr>
       stacked_contact_jacobians_' :=
         mat_resize (3 * num_point_force_' st) (num_vd_' st) (stacked_contact_jacobians_' st),
       basis_to_force_matrix_' :=
         mat_resize (3 * num_point_force_' st) (num_basis_' st) (basis_to_force_matrix_' st),
       stacked_contact_jacobians_dot_times_v_' :=
         mat_resize (3 * num_point_force_' st) 1 (stacked_contact_jacobians_dot_times_v_' st),
       torque_linear_' := mat_resize (num_torque_' st) (num_variable_' st) (torque_linear_' st),
       dynamics_linear_' := mat_resize 6 (num_variable_' st) (dynamics_linear_' st)\<rparr>;
     let (h, prog) = AddLinearEqualityConstraint
                       (MatrixXd_Zero 6 (num_variable_' st)) (VectorXd_Zero 6) [vd, basis] prog;
     let st = st\<lparr>eq_dynamics_' := h\<rparr>;
     prog \<leftarrow> eq_through (eq_dynamics_' st) (set_lc_description ''dynamics eq'') prog;
     (prog, eq_contacts) \<leftarrow>
        foldM (ResizeQP_contact_eq all_supports (num_vd_' st) vd) [0..<num_contact_body_' st]
          (prog, resize_vec (num_contact_body_' st) None (eq_contacts_' st));
     let st = st\<lparr>eq_contacts_' := eq_contacts\<rparr>;
     let (h, prog) = AddLinearConstraint
                       (MatrixXd_Identity (num_basis_' st) (num_basis_' st))
                       (VectorXd_Zero (num_basis_' st))
                       (VectorXd_Constant (num_basis_' st) 1000) [basis] prog;
     let st = st\<lparr>ineq_contact_wrench_' := h\<rparr>;
     prog \<leftarrow> ineq_through (ineq_contact_wrench_' st)
               (set_lc_description ''contact force basis ineq'') prog;
     let (h, prog) = AddLinearConstraint
                       (MatrixXd_Zero (num_torque_' st) (num_variable_' st))
                       (VectorXd_Zero (num_torque_' st))
                       (VectorXd_Zero (num_torque_' st)) [vd, basis] prog;
     let st = st\<lparr>ineq_torque_limit_' := h\<rparr>;
     prog \<leftarrow> ineq_through (ineq_torque_limit_' st) (set_lc_description ''torque limit ineq'') prog;
     let tmp_matrix_vd = MatrixXd_uninit (num_vd_' st) (num_vd_' st);
     let tmp_vector_vd = MatrixXd_uninit (num_vd_' st) 1;
     let (h, prog) = AddQuadraticCost tmp_matrix_vd tmp_vector_vd [vd] prog;
     let st = st\<lparr>cost_comdd_' := h\<rparr>;
     prog \<leftarrow> cost_through (cost_comdd_' st) (set_qc_description ''com cost'') prog;
     let st = st\<lparr>
       body_Jdv_' := resize_vec (length all_body_accelerations) (MatrixXd_uninit 0 0) (body_Jdv_' st),
       body_J_' := resize_vec (length all_body_accelerations) (MatrixXd_uninit 0 0) (body_J_' st)\<rparr>;
     (prog, cost_body_accelerations) \<leftarrow>
        foldM (ResizeQP_body_cost all_body_accelerations tmp_matrix_vd tmp_vector_vd vd)
          [0..<length all_body_accelerations]
          (prog, resize_vec (length all_body_accelerations) None (cost_body_accelerations_' st));
     let st = st\<lparr>cost_body_accelerations_' := cost_body_accelerations\<rparr>;
     let (h, prog) = AddQuadraticCost tmp_matrix_vd tmp_vector_vd [vd] prog;
     let st = st\<lparr>cost_vd_reg_' := h\<rparr>;
     prog \<leftarrow> cost_through (cost_vd_reg_' st) (set_qc_description ''vd reg cost'') prog;
     let (h, prog) = AddQuadraticCost
                       (MatrixXd_Identity (num_basis_' st) (num_basis_' st))
                       (VectorXd_Zero (num_basis_' st)) [basis] prog;
     let st = st\<lparr>cost_basis_reg_' := h\<rparr>;
     prog \<leftarrow> cost_through (cost_basis_reg_' st) (set_qc_description ''basis reg cost'') prog;
     Some (st\<lparr>prog_' := prog\<rparr>)
   }"

definition ResizeQP ::
  "RigidBodyTree \<Rightarrow> ContactInformation list \<Rightarrow> DesiredBodyAcceleration list \<Rightarrow>
   QPController \<Rightarrow> QPController option" where
  "ResizeQP robot all_supports all_body_accelerations st =
     (let num_contact_body = length all_supports;
          num_vd = number_of_velocities robot;
          (num_point_force, num_basis) = topology_counts all_supports;
          num_torque = length (actuators robot);
          num_variable = num_vd + num_basis
      in if num_contact_body = num_contact_body_' st \<and> num_vd = num_vd_' st \<and>
            num_basis = num_basis_' st \<and> num_point_force = num_point_force_' st \<and>
            num_torque = num_torque_' st \<and> num_variable = num_variable_' st \<and>
            length all_body_accelerations = num_body_acceleration_' st
         then Some st
         else ResizeQP_rebuild all_supports all_body_accelerations
                num_contact_body num_vd num_basis num_point_force num_torque num_variable st)"

subsection \<open>Controller output and the environment of a cycle\<close>

record ResolvedContact =
  rc_body :: RigidBody
  rc_basis :: mat
  rc_contact_points :: "mat list"
  rc_reference_point :: mat
  equivalent_wrench :: mat
  point_forces :: "mat list"

record BodyAcceleration =
  ba_body :: RigidBody
  ba_acceleration :: mat

record QPOutput =
  out_vd :: mat
  out_comdd :: mat
  out_joint_torque :: mat
  out_resolved_contacts :: "ResolvedContact list"
  out_body_accelerations :: "BodyAcceleration list"
  out_costs :: "(string \<times> real) list"

text \<open>The constructors \<^verbatim>\<open>ResolvedContact(body)\<close> and \<^verbatim>\<open>BodyAcceleration(body)\<close>.\<close>

definition ResolvedContact_new :: "RigidBody \<Rightarrow> ResolvedContact" where
  "ResolvedContact_new b =
     \<lparr>rc_body = b, rc_basis = MatrixXd_uninit 0 1, rc_contact_points = [],
      rc_reference_point = MatrixXd_uninit 3 1, equivalent_wrench = MatrixXd_uninit 6 1,
      point_forces = []\<rparr>"

definition BodyAcceleration_new :: "RigidBody \<Rightarrow> BodyAcceleration" where
  "BodyAcceleration_new b = \<lparr>ba_body = b, ba_acceleration = MatrixXd_uninit 6 1\<rparr>"

text \<open>
  Modelled from the spec: the constants, macros and collaborators that \<^verbatim>\<open>Control\<close> uses
  and whose code is not among the sources are parameters of a cycle.
  \<^item> \<open>kDrakeAssertIsArmed\<close>: whether \<^verbatim>\<open>DRAKE_ASSERT\<close> is compiled in; an armed assertion
    that fails stops the program (the spec's fatal internal-consistency failure), a
    disarmed one checks nothing.
  \<^item> \<open>EPSILON\<close>: the tolerance of the validation.
  \<^item> \<open>solver_available\<close>, \<open>solver_Solve\<close>: the solver backend, a black box that reports
    availability and, for the assembled program, a result code and a vector of values for
    the decision variables, which it stores in the program.
  \<^item> \<open>QuadraticConstraint_Eval\<close>: the value of a cost term at a vector.
  \<^item> \<open>ComputeWrenchMatrix\<close>: the wrench-mapping operator of a contact.
  \<^item> \<open>QPOutput_is_valid\<close>: the structural-validity check of the output.
  \<^item> \<open>dbl_product\<close>, \<open>dbl_sum\<close>, \<open>dbl_difference\<close>, \<open>dbl_scaled\<close>, \<open>dbl_cross\<close>,
    \<open>dbl_plus\<close>, \<open>dbl_minus\<close>: the operators \<^verbatim>\<open>a * b\<close>, \<^verbatim>\<open>a + b\<close>, \<^verbatim>\<open>a - b\<close>,
    \<^verbatim>\<open>s * a\<close> and \<^verbatim>\<open>a.cross(b)\<close> of the matrix library on matrices of doubles, and
    \<^verbatim>\<open>+\<close> and \<^verbatim>\<open>-\<close> on doubles, as the result validator evaluates them.  Everywhere
    else the scalars are idealised as reals.  In the validator a computed value is compared
    with a tolerance and the rounding of each operation can decide the comparison, so there
    the operations are those of the environment, whatever they round to.
\<close>

datatype SolutionResult = kSolutionFound | kSolutionNotFound

record Environment =
  kDrakeAssertIsArmed :: bool
  EPSILON :: real
  solver_available :: bool
  solver_Solve :: "MathematicalProgram \<Rightarrow> SolutionResult \<times> mat"
  QuadraticConstraint_Eval :: "QuadraticConstraint \<Rightarrow> mat \<Rightarrow> mat"
  ComputeWrenchMatrix :: "ContactInformation \<Rightarrow> mat list \<Rightarrow> mat \<Rightarrow> mat"
  QPOutput_is_valid :: "QPOutput \<Rightarrow> nat \<Rightarrow> nat \<Rightarrow> bool"
  dbl_product :: "mat \<Rightarrow> mat \<Rightarrow> mat"
  dbl_sum :: "mat \<Rightarrow> mat \<Rightarrow> mat"
  dbl_difference :: "mat \<Rightarrow> mat \<Rightarrow> mat"
  dbl_scaled :: "real \<Rightarrow> mat \<Rightarrow> mat"
  dbl_cross :: "mat \<Rightarrow> mat \<Rightarrow> mat"
  dbl_plus :: "real \<Rightarrow> real \<Rightarrow> real"
  dbl_minus :: "real \<Rightarrow> real \<Rightarrow> real"

definition DRAKE_ASSERT :: "Environment \<Rightarrow> bool \<Rightarrow> unit option" where
  "DRAKE_ASSERT env c = (if kDrakeAssertIsArmed env \<and> \<not> c then None else Some ())"

text \<open>
  Modelled from the spec: \<^verbatim>\<open>SetTempMatricesToZero\<close> is defined in
  \<^verbatim>\<open>qp_controller.h\<close>, which is not among the sources.  After the spec, the per-cycle
  scratch buffers that \<^verbatim>\<open>ResizeQP\<close> sizes are zero-filled at the start of each cycle.
\<close>

definition SetTempMatricesToZero :: "QPController \<Rightarrow> QPController" where
  "SetTempMatricesToZero st =
     st\<lparr>stacked_contact_jacobians_' := setZero (stacked_contact_jacobians_' st),
        basis_to_force_matrix_' := setZero (basis_to_force_matrix_' st),
        stacked_contact_jacobians_dot_times_v_' := setZero (stacked_contact_jacobians_dot_times_v_' st),
        torque_linear_' := setZero (torque_linear_' st),
        dynamics_linear_' := setZero (dynamics_linear_' st)\<rparr>"

text \<open>
  What a call of \<^verbatim>\<open>Control\<close> that returns leaves behind: the returned code, the lines
  written to \<^verbatim>\<open>std::cerr\<close>, the controller, the output object, and how often the solver
  was asked to solve.  A call that does not return (a failed armed assertion, a variable
  that is not found, a null or dangling handle, an index out of range) is \<open>None\<close>.
\<close>

record ControlResult =
  ret :: int
  cerr :: "string list"
  ctrl :: QPController
  outp :: QPOutput
  solve_calls :: nat

subsection \<open>Control: formulation\<close>

text \<open>Stacking the contact Jacobians and basis matrices, one contact body per step.\<close>

definition Control_stack_contact ::
  "HumanoidStatus \<Rightarrow> QPInput \<Rightarrow> nat \<Rightarrow> QPController \<times> nat \<times> nat \<Rightarrow> (QPController \<times> nat \<times> nat) option" where
  "Control_stack_contact rs input b = (\<lambda>(st, rowIdx, colIdx).
     if b < length (contact_info input) then
       (let support = contact_info input ! b;
            force_dim = 3 * length (contact_points support);
            basis_dim = ci_num_basis support;
            st = st\<lparr>basis_to_force_matrix_' :=
                      mat_set_block (basis_to_force_matrix_' st) rowIdx colIdx force_dim basis_dim
                        (ComputeBasisMatrix (cache rs) support)\<rparr>;
            st = st\<lparr>stacked_contact_jacobians_' :=
                      mat_set_block (stacked_contact_jacobians_' st) rowIdx 0 force_dim (num_vd_' st)
                        (ComputeJacobianAtContactPoints (cache rs) support)\<rparr>;
            st = st\<lparr>stacked_contact_jacobians_dot_times_v_' :=
                      set_segment (stacked_contact_jacobians_dot_times_v_' st) rowIdx force_dim
                        (ComputeJacobianDotTimesVAtContactPoints (cache rs) support)\<rparr>
        in Some (st, rowIdx + force_dim, colIdx + basis_dim))
     else None)"

text \<open>Updating the contact equalities, three rows per contact point.\<close>

definition Control_contact_eq ::
  "QPInput \<Rightarrow> nat \<Rightarrow> QPController \<times> nat \<Rightarrow> (QPController \<times> nat) option" where
  "Control_contact_eq input i = (\<lambda>(st, rowIdx).
     if i < length (contact_info input) \<and> i < length (eq_contacts_' st) then do {
       let force_dim = 3 * length (contact_points (contact_info input ! i));
       prog \<leftarrow> eq_through (eq_contacts_' st ! i)
                 (UpdateEquality
                    (mat_block (stacked_contact_jacobians_' st) rowIdx 0 force_dim (num_vd_' st))
                    (mat_neg (segment (stacked_contact_jacobians_dot_times_v_' st) rowIdx force_dim)))
                 (prog_' st);
       Some (st\<lparr>prog_' := prog\<rparr>, rowIdx + force_dim)
     } else None)"

text \<open>Adding the effort limits of actuator \<open>i\<close> to the bounds.\<close>

definition Control_effort_limit :: "HumanoidStatus \<Rightarrow> QPController \<Rightarrow> nat \<Rightarrow> QPController" where
  "Control_effort_limit rs st i =
     st\<lparr>inequality_lower_bound_' :=
          vec_add_at (inequality_lower_bound_' st) i
            (effort_limit_min_' (actuators (rs_robot rs) ! i)),
        inequality_upper_bound_' :=
          vec_add_at (inequality_upper_bound_' st) i
            (effort_limit_max_' (actuators (rs_robot rs) ! i))\<rparr>"

text \<open>Updating the tracking cost of tracked body motion \<open>i\<close>.\<close>

definition Control_body_cost ::
  "HumanoidStatus \<Rightarrow> DesiredBodyAcceleration list \<Rightarrow> nat \<Rightarrow> QPController \<Rightarrow> QPController option" where
  "Control_body_cost rs body_motions_d i st =
     (if i < length (body_J_' st) \<and> i < length (body_Jdv_' st) \<and>
         i < length (cost_body_accelerations_' st) then do {
        let body_motion_d = body_motions_d ! i;
        let st = st\<lparr>body_J_' := (body_J_' st)
                      [i := GetTaskSpaceJacobian (cache rs) (dba_body body_motion_d) (VectorXd_Zero 3)]\<rparr>;
        let st = st\<lparr>body_Jdv_' := (body_Jdv_' st)
                      [i := GetTaskSpaceJacobianDotTimesV (cache rs) (dba_body body_motion_d) (VectorXd_Zero 3)]\<rparr>;
        prog \<leftarrow> cost_through (cost_body_accelerations_' st ! i)
                  (UpdateQuadratic
                     (mat_mul (mat_scale (dba_weight body_motion_d) (mat_transpose (body_J_' st ! i)))
                        (body_J_' st ! i))
                     (mat_mul (mat_scale (dba_weight body_motion_d) (mat_transpose (body_J_' st ! i)))
                        (mat_sub (body_Jdv_' st ! i) (dba_acceleration body_motion_d))))
                  (prog_' st);
        Some (st\<lparr>prog_' := prog\<rparr>)
      } else None)"

text \<open>
  The formulation step of \<^verbatim>\<open>Control\<close>: from the variable offsets to the last cost update.
\<close>

definition Control_formulate ::
  "Environment \<Rightarrow> HumanoidStatus \<Rightarrow> QPInput \<Rightarrow> DecisionVariableView \<Rightarrow> DecisionVariableView \<Rightarrow>
   QPController \<Rightarrow> QPController option" where
  "Control_formulate env rs input vd basis st = do {
     let basis_start = dv_index basis;
     let vd_start = dv_index vd;
     (st, rowIdx, colIdx) \<leftarrow>
        foldM (Control_stack_contact rs input) [0..<num_contact_body_' st] (st, 0, 0);
     let st = st\<lparr>JB_' := mat_mul (mat_transpose (stacked_contact_jacobians_' st))
                              (basis_to_force_matrix_' st)\<rparr>;
     DRAKE_ASSERT env (rowIdx = num_point_force_' st * 3);
     DRAKE_ASSERT env (colIdx = num_basis_' st);
     let st = st\<lparr>torque_linear_' :=
                   mat_set_block (torque_linear_' st) 0 vd_start (num_torque_' st) (num_vd_' st)
                     (bottomRows (num_torque_' st) (rs_M rs))\<rparr>;
     let st = st\<lparr>torque_linear_' :=
                   mat_set_block (torque_linear_' st) 0 basis_start (num_torque_' st) (num_basis_' st)
                     (mat_neg (bottomRows (num_torque_' st) (JB_' st)))\<rparr>;
     let st = st\<lparr>torque_constant_' := vec_tail (num_torque_' st) (bias_term rs)\<rparr>;
     let st = st\<lparr>dynamics_linear_' :=
                   mat_set_block (dynamics_linear_' st) 0 vd_start 6 (num_vd_' st)
                     (topRows 6 (rs_M rs))\<rparr>;
     let st = st\<lparr>dynamics_linear_' :=
                   mat_set_block (dynamics_linear_' st) 0 basis_start 6 (num_basis_' st)
                     (mat_neg (topRows 6 (JB_' st)))\<rparr>;
     let st = st\<lparr>dynamics_constant_' := mat_neg (vec_head 6 (bias_term rs))\<rparr>;
     prog \<leftarrow> eq_through (eq_dynamics_' st)
               (UpdateEquality (dynamics_linear_' st) (dynamics_constant_' st)) (prog_' st);
     let st = st\<lparr>prog_' := prog\<rparr>;
     (st, rowIdx) \<leftarrow> foldM (Control_contact_eq input) [0..<num_contact_body_' st] (st, 0);
     DRAKE_ASSERT env (rowIdx = num_point_force_' st * 3);
     let st = st\<lparr>inequality_linear_' :=
                   mat_mul (mat_transpose (bottomRows (num_torque_' st) (tree_B (rs_robot rs))))
                     (torque_linear_' st)\<rparr>;
     let st = st\<lparr>inequality_lower_bound_' :=
                   mat_mul (mat_neg (mat_transpose (bottomRows (num_torque_' st) (tree_B (rs_robot rs)))))
                     (torque_constant_' st)\<rparr>;
     let st = st\<lparr>inequality_upper_bound_' := inequality_lower_bound_' st\<rparr>;
     let st = foldl (Control_effort_limit rs) st [0..<length (actuators (rs_robot rs))];
     prog \<leftarrow> ineq_through (ineq_torque_limit_' st)
               (UpdateLinear (inequality_linear_' st) (inequality_lower_bound_' st)
                  (inequality_upper_bound_' st)) (prog_' st);
     let st = st\<lparr>prog_' := prog\<rparr>;
     prog \<leftarrow> cost_through (cost_comdd_' st)
               (UpdateQuadratic
                  (mat_mul (mat_scale (w_com input) (mat_transpose (J_com rs))) (J_com rs))
                  (mat_mul (mat_scale (w_com input) (mat_transpose (J_com rs)))
                     (mat_sub (Jdot_times_v_com rs) (desired_comdd input)))) (prog_' st);
     let st = st\<lparr>prog_' := prog\<rparr>;
     let body_motions_d = desired_body_accelerations input;
     st \<leftarrow> foldM (Control_body_cost rs body_motions_d) [0..<length body_motions_d] st;
     prog \<leftarrow> cost_through (cost_vd_reg_' st)
               (UpdateQuadratic
                  (mat_scale (w_vd input) (MatrixXd_Identity (num_vd_' st) (num_vd_' st)))
                  (mat_scale (w_vd input) (mat_neg (desired_vd input)))) (prog_' st);
     let st = st\<lparr>prog_' := prog\<rparr>;
     prog \<leftarrow> cost_through (cost_basis_reg_' st)
               (UpdateQuadratic
                  (mat_scale (w_basis_reg input) (MatrixXd_Identity (num_basis_' st) (num_basis_' st)))
                  (VectorXd_Zero (num_basis_' st))) (prog_' st);
     Some (st\<lparr>prog_' := prog\<rparr>)
   }"

subsection \<open>Control: result decomposition and validation\<close>

text \<open>Recording the value of one cost term under its description.\<close>

definition Control_record_cost ::
  "Environment \<Rightarrow> MathematicalProgram \<Rightarrow> QPOutput \<times> nat \<Rightarrow> QuadraticConstraint Binding \<Rightarrow> QPOutput \<times> nat" where
  "Control_record_cost env prog = (\<lambda>(out, ctr) cost_b.
     (let cost = constraint cost_b;
          val = QuadraticConstraint_Eval env cost (VariableListToVectorXd prog (variable_list cost_b))
      in (out\<lparr>out_costs := (out_costs out)[ctr := (qc_description cost, coeff val 0 0)]\<rparr>, ctr + 1)))"

text \<open>
  The bodies of the two validation loops over the declared constraints, as predicates: the
  condition of the assertion on one equality, and the conjunction of the conditions of the
  assertions on the rows of one inequality.  The products, the residual and the bounds
  extended by the tolerance are computed with the validator's arithmetic.
\<close>

definition equality_satisfied :: "Environment \<Rightarrow> MathematicalProgram \<Rightarrow> LinearConstraint Binding \<Rightarrow> bool" where
  "equality_satisfied env prog eq_b =
     (let eq = constraint eq_b;
          X = VariableListToVectorXd prog (variable_list eq_b)
      in isZero (EPSILON env) (dbl_difference env (dbl_product env (lc_A eq) X) (lc_lower_bound eq)))"

definition inequality_satisfied :: "Environment \<Rightarrow> MathematicalProgram \<Rightarrow> LinearConstraint Binding \<Rightarrow> bool" where
  "inequality_satisfied env prog ineq_b =
     (let ineq = constraint ineq_b;
          X = VariableListToVectorXd prog (variable_list ineq_b);
          X = dbl_product env (lc_A ineq) X
      in list_all (\<lambda>i. coeff X i 0 \<ge> dbl_minus env (coeff (lc_lower_bound ineq) i 0) (EPSILON env) \<and>
                        coeff X i 0 \<le> dbl_plus env (coeff (lc_upper_bound ineq) i 0) (EPSILON env))
           [0..<rows X])"

text \<open>Copying the point forces of one contact, three coefficients per point.\<close>

definition Control_copy_point_force ::
  "mat \<Rightarrow> ResolvedContact \<times> nat \<Rightarrow> nat \<Rightarrow> ResolvedContact \<times> nat" where
  "Control_copy_point_force point_forces_m = (\<lambda>(resolved_contact, point_force_index) j.
     (resolved_contact\<lparr>point_forces :=
        (point_forces resolved_contact)[j := segment point_forces_m point_force_index 3]\<rparr>,
      point_force_index + 3))"

text \<open>
  Resolving one contact: a new \<^verbatim>\<open>ResolvedContact\<close> is appended to the output and filled
  in (the code appends it first and fills it in place).
\<close>

definition Control_resolve_contact ::
  "Environment \<Rightarrow> HumanoidStatus \<Rightarrow> mat \<Rightarrow> mat \<Rightarrow> QPOutput \<times> nat \<times> nat \<Rightarrow> ContactInformation \<Rightarrow>
   QPOutput \<times> nat \<times> nat" where
  "Control_resolve_contact env rs basis_value point_forces_m =
   (\<lambda>(out, basis_index, point_force_index) contact_info_i.
     (let resolved_contact = ResolvedContact_new (ci_body contact_info_i);
          resolved_contact = resolved_contact\<lparr>rc_basis :=
            segment basis_value basis_index (ci_num_basis contact_info_i)\<rparr>;
          basis_index = basis_index + ci_num_basis contact_info_i;
          (pts, ref) = ComputeContactPointsAndWrenchReferencePoint (cache rs) contact_info_i
                         (VectorXd_Zero 3);
          resolved_contact = resolved_contact\<lparr>rc_contact_points := pts, rc_reference_point := ref\<rparr>;
          resolved_contact = resolved_contact\<lparr>equivalent_wrench :=
            mat_mul (ComputeWrenchMatrix env contact_info_i (rc_contact_points resolved_contact)
                       (rc_reference_point resolved_contact))
              (segment point_forces_m point_force_index (3 * num_contact_points contact_info_i))\<rparr>;
          resolved_contact = resolved_contact\<lparr>point_forces :=
            resize_vec (num_contact_points contact_info_i) (MatrixXd_uninit 3 1)
              (point_forces resolved_contact)\<rparr>;
          (resolved_contact, point_force_index) =
            foldl (Control_copy_point_force point_forces_m) (resolved_contact, point_force_index)
              [0..<num_contact_points contact_info_i]
      in (out\<lparr>out_resolved_contacts := out_resolved_contacts out @ [resolved_contact]\<rparr>,
          basis_index, point_force_index)))"

text \<open>The output acceleration of tracked body motion \<open>i\<close>.\<close>

definition Control_body_acceleration ::
  "QPInput \<Rightarrow> QPController \<Rightarrow> nat \<Rightarrow> QPOutput \<Rightarrow> QPOutput option" where
  "Control_body_acceleration input st i out =
     (if i < length (desired_body_accelerations input) \<and> i < length (body_J_' st) \<and>
         i < length (body_Jdv_' st) then
        Some (out\<lparr>out_body_accelerations := out_body_accelerations out @
               [(BodyAcceleration_new (dba_body (desired_body_accelerations input ! i)))
                  \<lparr>ba_acceleration := mat_add (mat_mul (body_J_' st ! i) (out_vd out)) (body_Jdv_' st ! i)\<rparr>]\<rparr>)
      else None)"

text \<open>
  Adding the wrench of resolved contact \<open>i\<close> to the net wrench, moment about the center of
  mass, with the validator's arithmetic.
\<close>

definition Control_add_wrench ::
  "Environment \<Rightarrow> HumanoidStatus \<Rightarrow> QPOutput \<Rightarrow> nat \<Rightarrow> mat \<Rightarrow> mat option" where
  "Control_add_wrench env rs out i net_wrench =
     (if i < length (out_resolved_contacts out) then
        (let contact_wrench = equivalent_wrench (out_resolved_contacts out ! i);
             ref_point = rc_reference_point (out_resolved_contacts out ! i);
             net_wrench = dbl_sum env net_wrench contact_wrench;
             net_wrench = set_segment net_wrench 0 3
               (dbl_sum env (segment net_wrench 0 3)
                  (dbl_cross env (dbl_difference env ref_point (com rs)) (segment contact_wrench 3 3)))
         in Some net_wrench)
      else None)"

text \<open>
  The step of \<^verbatim>\<open>Control\<close> after a solution was found: from reading the solution to the
  returned code.
\<close>

definition Control_decompose ::
  "Environment \<Rightarrow> HumanoidStatus \<Rightarrow> QPInput \<Rightarrow> DecisionVariableView \<Rightarrow> DecisionVariableView \<Rightarrow>
   QPController \<Rightarrow> QPOutput \<Rightarrow> ControlResult option" where
  "Control_decompose env rs input vd basis st out = do {
     let solution = GetSolution (prog_' st);
     let costs = quadratic_costs (prog_' st);
     let eqs = linear_equality_constraints (prog_' st);
     let ineqs = linear_constraints (prog_' st);
     let out = out\<lparr>out_costs := resize_vec (length costs) ([], 0) (out_costs out)\<rparr>;
     let (out, ctr) = foldl (Control_record_cost env (prog_' st)) (out, 0) costs;
     DRAKE_ASSERT env (list_all (equality_satisfied env (prog_' st)) eqs);
     DRAKE_ASSERT env (list_all (inequality_satisfied env (prog_' st)) ineqs);
     let st = st\<lparr>point_forces_' := mat_mul (basis_to_force_matrix_' st) (dv_value (prog_' st) basis)\<rparr>;
     let out = out\<lparr>out_resolved_contacts := []\<rparr>;
     let (out, basis_index, point_force_index) =
           foldl (Control_resolve_contact env rs (dv_value (prog_' st) basis) (point_forces_' st))
             (out, 0, 0) (contact_info input);
     let out = out\<lparr>out_vd := dv_value (prog_' st) vd\<rparr>;
     let out = out\<lparr>out_comdd := mat_add (mat_mul (J_com rs) (out_vd out)) (Jdot_times_v_com rs)\<rparr>;
     let out = out\<lparr>out_body_accelerations := []\<rparr>;
     out \<leftarrow> foldM (Control_body_acceleration input st)
              [0..<length (desired_body_accelerations input)] out;
     let out = out\<lparr>out_joint_torque :=
                     mat_add (mat_mul (torque_linear_' st) solution) (torque_constant_' st)\<rparr>;
     let Ld = dbl_sum env (dbl_product env (centroidal_momentum_matrix rs) (out_vd out))
                (centroidal_momentum_matrix_dot_times_v rs);
     let net_wrench = dbl_scaled env (getMass (rs_robot rs)) (a_grav (rs_robot rs));
     net_wrench \<leftarrow> foldM (Control_add_wrench env rs out) [0..<num_contact_body_' st] net_wrench;
     DRAKE_ASSERT env (isZero (EPSILON env) (dbl_difference env net_wrench Ld));
     if \<not> QPOutput_is_valid env out (number_of_velocities (rs_robot rs))
            (length (actuators (rs_robot rs)))
     then Some \<lparr>ret = -1, cerr = [''output is invalid\<newline>''], ctrl = st, outp = out, solve_calls = 1\<rparr>
     else Some \<lparr>ret = 0, cerr = [], ctrl = st, outp = out, solve_calls = 1\<rparr>
   }"

subsection \<open>Control\<close>

definition Control ::
  "Environment \<Rightarrow> HumanoidStatus \<Rightarrow> QPInput \<Rightarrow> QPController \<Rightarrow> QPOutput \<Rightarrow> ControlResult option" where
  "Control env rs input st output =
     (if \<not> QPInput_is_valid input (number_of_velocities (rs_robot rs))
      then Some \<lparr>ret = -1, cerr = [''input is invalid\<newline>''], ctrl = st, outp = output,
                 solve_calls = 0\<rparr>
      else do {
        st \<leftarrow> ResizeQP (rs_robot rs) (contact_info input) (desired_body_accelerations input) st;
        let st = SetTempMatricesToZero st;
        vd \<leftarrow> GetVariable (prog_' st) ''vd'';
        basis \<leftarrow> GetVariable (prog_' st) ''basis'';
        st \<leftarrow> Control_formulate env rs input vd basis st;
        if \<not> solver_available env
        then Some \<lparr>ret = -1, cerr = [''Solver not available.\<newline>''], ctrl = st, outp = output,
                   solve_calls = 0\<rparr>
        else do {
          let (result, x) = solver_Solve env (prog_' st);
          let st = st\<lparr>prog_' := (prog_' st)\<lparr>prog_solution := x\<rparr>\<rparr>;
          if result \<noteq> kSolutionFound
          then Some \<lparr>ret = -1, cerr = [''solution not found\<newline>''], ctrl = st, outp = output,
                     solve_calls = 1\<rparr>
          else Control_decompose env rs input vd basis st output
        }
      })"

section \<open>Closed forms, invariants and example data\<close>

text \<open>
  The contact equality that \<^verbatim>\<open>ResizeQP\<close> declares for contact body \<open>i\<close>: three zero rows per contact point, over \<open>vd\<close>.
\<close>

definition contact_eq_decl :: "ContactInformation list \<Rightarrow> nat \<Rightarrow> DecisionVariableView \<Rightarrow> nat \<Rightarrow> LinearConstraint Binding" where
  "contact_eq_decl all_supports num_vd vd i =
     \<lparr>constraint = \<lparr>lc_A = MatrixXd_Zero (3 * length (contact_points (all_supports ! i))) num_vd,
                    lc_lower_bound = VectorXd_Zero (3 * length (contact_points (all_supports ! i))),
                    lc_upper_bound = VectorXd_Zero (3 * length (contact_points (all_supports ! i))),
                    lc_description = ci_name (all_supports ! i) @ '' contact eq''\<rparr>,
      variable_list = [vd]\<rparr>"

text \<open>
  The tracking cost that \<^verbatim>\<open>ResizeQP\<close> declares for tracked body motion \<open>i\<close>, over \<open>vd\<close>, with the coefficient buffers it is handed.
\<close>

definition body_cost_decl :: "DesiredBodyAcceleration list \<Rightarrow> mat \<Rightarrow> mat \<Rightarrow> DecisionVariableView \<Rightarrow> nat \<Rightarrow> QuadraticConstraint Binding" where
  "body_cost_decl all_body_accelerations Q0 b0 vd i =
     \<lparr>constraint = \<lparr>qc_Q = Q0, qc_b = b0,
                    qc_description = dba_name (all_body_accelerations ! i) @ '' cost''\<rparr>,
      variable_list = [vd]\<rparr>"

text \<open>
  The program a rebuild of \<^verbatim>\<open>ResizeQP\<close> leaves in \<^verbatim>\<open>prog_\<close>: two variable blocks, the constraints and costs with
  their placeholder coefficients, and the order of the declaring calls.  The coefficient
  buffers of the costs over \<open>vd\<close> are resized and never written, hence uninitialised.
\<close>

definition declared_program ::
  "ContactInformation list \<Rightarrow> DesiredBodyAcceleration list \<Rightarrow> nat \<Rightarrow> nat \<Rightarrow> nat \<Rightarrow> nat \<Rightarrow> MathematicalProgram" where
  "declared_program all_supports accs num_vd num_basis num_torque num_variable =
    (let vd = \<lparr>dv_index = 0, dv_size = num_vd\<rparr>; basis = \<lparr>dv_index = num_vd, dv_size = num_basis\<rparr> in
     \<lparr>num_vars = num_vd + num_basis,
      variable_views = [(''vd'', vd), (''basis'', basis)],
      linear_equality_constraints =
        \<lparr>constraint = \<lparr>lc_A = MatrixXd_Zero 6 num_variable, lc_lower_bound = VectorXd_Zero 6,
                       lc_upper_bound = VectorXd_Zero 6, lc_description = ''dynamics eq''\<rparr>,
         variable_list = [vd, basis]\<rparr> #
        map (contact_eq_decl all_supports num_vd vd) [0..<length all_supports],
      linear_constraints =
        [\<lparr>constraint = \<lparr>lc_A = MatrixXd_Identity num_basis num_basis, lc_lower_bound = VectorXd_Zero num_basis,
                       lc_upper_bound = VectorXd_Constant num_basis 1000,
                       lc_description = ''contact force basis ineq''\<rparr>,
          variable_list = [basis]\<rparr>,
         \<lparr>constraint = \<lparr>lc_A = MatrixXd_Zero num_torque num_variable, lc_lower_bound = VectorXd_Zero num_torque,
                       lc_upper_bound = VectorXd_Zero num_torque,
                       lc_description = ''torque limit ineq''\<rparr>,
          variable_list = [vd, basis]\<rparr>],
      quadratic_costs =
        \<lparr>constraint = \<lparr>qc_Q = MatrixXd_uninit num_vd num_vd, qc_b = MatrixXd_uninit num_vd 1,
                       qc_description = ''com cost''\<rparr>, variable_list = [vd]\<rparr> #
        map (body_cost_decl accs (MatrixXd_uninit num_vd num_vd) (MatrixXd_uninit num_vd 1) vd) [0..<length accs] @
        [\<lparr>constraint = \<lparr>qc_Q = MatrixXd_uninit num_vd num_vd, qc_b = MatrixXd_uninit num_vd 1,
                       qc_description = ''vd reg cost''\<rparr>, variable_list = [vd]\<rparr>,
         \<lparr>constraint = \<lparr>qc_Q = MatrixXd_Identity num_basis num_basis, qc_b = VectorXd_Zero num_basis,
                       qc_description = ''basis reg cost''\<rparr>, variable_list = [basis]\<rparr>],
      prog_solution = VectorXd_Zero 0,
      insertion_order =
        LinearEqualityDecl 0 # map (\<lambda>i. LinearEqualityDecl (Suc i)) [0..<length all_supports] @
        [LinearDecl 0, LinearDecl 1, QuadraticCostDecl 0] @
        map (\<lambda>i. QuadraticCostDecl (Suc i)) [0..<length accs] @
        [QuadraticCostDecl (Suc (length accs)), QuadraticCostDecl (Suc (Suc (length accs)))]\<rparr>)"

text \<open>
  The values of \<^verbatim>\<open>rowIdx\<close> and \<^verbatim>\<open>colIdx\<close> in the stacking loop of \<^verbatim>\<open>Control\<close> after \<open>n\<close> contact bodies.
\<close>

definition row_offset :: "ContactInformation list \<Rightarrow> nat \<Rightarrow> nat" where
  "row_offset cs n = sum_list (map (\<lambda>s. 3 * length (contact_points s)) (take n cs))"

definition col_offset :: "ContactInformation list \<Rightarrow> nat \<Rightarrow> nat" where
  "col_offset cs n = sum_list (map ci_num_basis (take n cs))"

text \<open>
  The three stacked buffers after \<open>n\<close> steps of the stacking loop.
\<close>

primrec stack_basis :: "KinematicsCache \<Rightarrow> ContactInformation list \<Rightarrow> mat \<Rightarrow> nat \<Rightarrow> mat" where
  "stack_basis kc cs m 0 = m"
| "stack_basis kc cs m (Suc n) =
     mat_set_block (stack_basis kc cs m n) (row_offset cs n) (col_offset cs n)
       (3 * length (contact_points (cs ! n))) (ci_num_basis (cs ! n)) (ComputeBasisMatrix kc (cs ! n))"

primrec stack_jacobians :: "KinematicsCache \<Rightarrow> ContactInformation list \<Rightarrow> nat \<Rightarrow> mat \<Rightarrow> nat \<Rightarrow> mat" where
  "stack_jacobians kc cs num_vd m 0 = m"
| "stack_jacobians kc cs num_vd m (Suc n) =
     mat_set_block (stack_jacobians kc cs num_vd m n) (row_offset cs n) 0
       (3 * length (contact_points (cs ! n))) num_vd (ComputeJacobianAtContactPoints kc (cs ! n))"

primrec stack_jdv :: "KinematicsCache \<Rightarrow> ContactInformation list \<Rightarrow> mat \<Rightarrow> nat \<Rightarrow> mat" where
  "stack_jdv kc cs m 0 = m"
| "stack_jdv kc cs m (Suc n) =
     set_segment (stack_jdv kc cs m n) (row_offset cs n)
       (3 * length (contact_points (cs ! n))) (ComputeJacobianDotTimesVAtContactPoints kc (cs ! n))"

text \<open>
  The equality constraints after the contact equalities of the first \<open>n\<close> contact bodies are updated:
  the rows of the stacked Jacobian as matrix, the negated rows of the stacked \<open>Jdot v\<close> as right-hand side.
\<close>

primrec update_contact_eqs ::
  "ContactInformation list \<Rightarrow> mat \<Rightarrow> mat \<Rightarrow> nat \<Rightarrow> LinearConstraint Binding list \<Rightarrow> nat \<Rightarrow> LinearConstraint Binding list" where
  "update_contact_eqs cs J Jdv num_vd eqs 0 = eqs"
| "update_contact_eqs cs J Jdv num_vd eqs (Suc n) =
     (let eqs' = update_contact_eqs cs J Jdv num_vd eqs n
      in eqs'[Suc n := (eqs' ! Suc n)\<lparr>constraint :=
           UpdateEquality (mat_block J (row_offset cs n) 0 (3 * length (contact_points (cs ! n))) num_vd)
             (mat_neg (segment Jdv (row_offset cs n) (3 * length (contact_points (cs ! n)))))
             (constraint (eqs' ! Suc n))\<rparr>])"

text \<open>
  A bound vector after the effort limits of the first \<open>n\<close> actuators are added to it.
\<close>

primrec add_limits :: "(RigidBodyActuator \<Rightarrow> real) \<Rightarrow> RigidBodyActuator list \<Rightarrow> mat \<Rightarrow> nat \<Rightarrow> mat" where
  "add_limits f acts v 0 = v"
| "add_limits f acts v (Suc n) = vec_add_at (add_limits f acts v n) n (f (acts ! n))"

text \<open>
  The costs, and the buffers of task-space Jacobians, after the first \<open>n\<close> tracked body motions.
\<close>

primrec update_body_costs ::
  "KinematicsCache \<Rightarrow> DesiredBodyAcceleration list \<Rightarrow> QuadraticConstraint Binding list \<Rightarrow> nat \<Rightarrow> QuadraticConstraint Binding list" where
  "update_body_costs kc accs cs 0 = cs"
| "update_body_costs kc accs cs (Suc n) =
     (let cs' = update_body_costs kc accs cs n;
          J = GetTaskSpaceJacobian kc (dba_body (accs ! n)) (VectorXd_Zero 3);
          Jdv = GetTaskSpaceJacobianDotTimesV kc (dba_body (accs ! n)) (VectorXd_Zero 3)
      in cs'[Suc n := (cs' ! Suc n)\<lparr>constraint :=
           UpdateQuadratic (mat_mul (mat_scale (dba_weight (accs ! n)) (mat_transpose J)) J)
             (mat_mul (mat_scale (dba_weight (accs ! n)) (mat_transpose J))
                (mat_sub Jdv (dba_acceleration (accs ! n))))
             (constraint (cs' ! Suc n))\<rparr>])"

primrec update_body_J :: "KinematicsCache \<Rightarrow> DesiredBodyAcceleration list \<Rightarrow> mat list \<Rightarrow> nat \<Rightarrow> mat list" where
  "update_body_J kc accs Js 0 = Js"
| "update_body_J kc accs Js (Suc n) =
     (update_body_J kc accs Js n)[n := GetTaskSpaceJacobian kc (dba_body (accs ! n)) (VectorXd_Zero 3)]"

primrec update_body_Jdv :: "KinematicsCache \<Rightarrow> DesiredBodyAcceleration list \<Rightarrow> mat list \<Rightarrow> nat \<Rightarrow> mat list" where
  "update_body_Jdv kc accs Js 0 = Js"
| "update_body_Jdv kc accs Js (Suc n) =
     (update_body_Jdv kc accs Js n)[n := GetTaskSpaceJacobianDotTimesV kc (dba_body (accs ! n)) (VectorXd_Zero 3)]"

text \<open>
  The test of \<^verbatim>\<open>ResizeQP\<close>: the seven stored counts equal the counts of the current descriptors.
\<close>

definition topology_unchanged ::
  "RigidBodyTree \<Rightarrow> ContactInformation list \<Rightarrow> DesiredBodyAcceleration list \<Rightarrow> QPController \<Rightarrow> bool" where
  "topology_unchanged tree supports accs st \<longleftrightarrow>
     num_contact_body_' st = length supports \<and>
     num_vd_' st = number_of_velocities tree \<and>
     num_basis_' st = sum_list (map ci_num_basis supports) \<and>
     num_point_force_' st = sum_list (map (\<lambda>s. length (contact_points s)) supports) \<and>
     num_torque_' st = length (actuators tree) \<and>
     num_variable_' st = number_of_velocities tree + sum_list (map ci_num_basis supports) \<and>
     num_body_acceleration_' st = length accs"

text \<open>
  The layout a rebuild of \<^verbatim>\<open>ResizeQP\<close> establishes and \<^verbatim>\<open>Control\<close> keeps: the two variable blocks are
  registered with the stored sizes, every handle points to the declaration made for it, and
  the per-body buffers have one entry per tracked body motion.  A controller that was last
  touched by \<^verbatim>\<open>ResizeQP\<close> or \<^verbatim>\<open>Control\<close> satisfies it; a blank one does not, and is rebuilt as soon as
  a count differs.
\<close>

definition QP_inv :: "QPController \<Rightarrow> bool" where
  "QP_inv st \<longleftrightarrow>
     GetVariable (prog_' st) ''vd'' = Some \<lparr>dv_index = 0, dv_size = num_vd_' st\<rparr> \<and>
     GetVariable (prog_' st) ''basis'' = Some \<lparr>dv_index = num_vd_' st, dv_size = num_basis_' st\<rparr> \<and>
     eq_dynamics_' st = Some 0 \<and>
     eq_contacts_' st = map (\<lambda>i. Some (Suc i)) [0..<num_contact_body_' st] \<and>
     length (linear_equality_constraints (prog_' st)) = Suc (num_contact_body_' st) \<and>
     ineq_contact_wrench_' st = Some 0 \<and>
     ineq_torque_limit_' st = Some 1 \<and>
     length (linear_constraints (prog_' st)) = 2 \<and>
     cost_comdd_' st = Some 0 \<and>
     cost_body_accelerations_' st = map (\<lambda>i. Some (Suc i)) [0..<num_body_acceleration_' st] \<and>
     cost_vd_reg_' st = Some (Suc (num_body_acceleration_' st)) \<and>
     cost_basis_reg_' st = Some (Suc (Suc (num_body_acceleration_' st))) \<and>
     length (quadratic_costs (prog_' st)) = num_body_acceleration_' st + 3 \<and>
     length (body_J_' st) = num_body_acceleration_' st \<and>
     length (body_Jdv_' st) = num_body_acceleration_' st"

text \<open>
  The controller after the formulation step of \<^verbatim>\<open>Control\<close>, with every loop in closed form.
\<close>

definition formulated :: "HumanoidStatus \<Rightarrow> QPInput \<Rightarrow> QPController \<Rightarrow> QPController" where
  "formulated rs input st =
    (let cs = contact_info input;
         accs = desired_body_accelerations input;
         acts = actuators (rs_robot rs);
         nv = num_vd_' st; nb = num_basis_' st; nt = num_torque_' st;
         nba = num_body_acceleration_' st;
         st = st\<lparr>basis_to_force_matrix_' := stack_basis (cache rs) cs (basis_to_force_matrix_' st) (length cs),
                 stacked_contact_jacobians_' := stack_jacobians (cache rs) cs nv (stacked_contact_jacobians_' st) (length cs),
                 stacked_contact_jacobians_dot_times_v_' := stack_jdv (cache rs) cs (stacked_contact_jacobians_dot_times_v_' st) (length cs)\<rparr>;
         st = st\<lparr>JB_' := mat_mul (mat_transpose (stacked_contact_jacobians_' st)) (basis_to_force_matrix_' st)\<rparr>;
         st = st\<lparr>torque_linear_' :=
                   mat_set_block (mat_set_block (torque_linear_' st) 0 0 nt nv (bottomRows nt (rs_M rs)))
                     0 nv nt nb (mat_neg (bottomRows nt (JB_' st))),
                 torque_constant_' := vec_tail nt (bias_term rs),
                 dynamics_linear_' :=
                   mat_set_block (mat_set_block (dynamics_linear_' st) 0 0 6 nv (topRows 6 (rs_M rs)))
                     0 nv 6 nb (mat_neg (topRows 6 (JB_' st))),
                 dynamics_constant_' := mat_neg (vec_head 6 (bias_term rs))\<rparr>;
         eqs = linear_equality_constraints (prog_' st);
         eqs = eqs[0 := (eqs ! 0)\<lparr>constraint :=
                 UpdateEquality (dynamics_linear_' st) (dynamics_constant_' st) (constraint (eqs ! 0))\<rparr>];
         eqs = update_contact_eqs cs (stacked_contact_jacobians_' st)
                 (stacked_contact_jacobians_dot_times_v_' st) nv eqs (length cs);
         lb0 = mat_mul (mat_neg (mat_transpose (bottomRows nt (tree_B (rs_robot rs))))) (torque_constant_' st);
         st = st\<lparr>inequality_linear_' :=
                   mat_mul (mat_transpose (bottomRows nt (tree_B (rs_robot rs)))) (torque_linear_' st),
                 inequality_lower_bound_' := add_limits effort_limit_min_' acts lb0 (length acts),
                 inequality_upper_bound_' := add_limits effort_limit_max_' acts lb0 (length acts)\<rparr>;
         ineqs = linear_constraints (prog_' st);
         ineqs = ineqs[1 := (ineqs ! 1)\<lparr>constraint :=
                   UpdateLinear (inequality_linear_' st) (inequality_lower_bound_' st)
                     (inequality_upper_bound_' st) (constraint (ineqs ! 1))\<rparr>];
         costs = quadratic_costs (prog_' st);
         costs = costs[0 := (costs ! 0)\<lparr>constraint :=
                   UpdateQuadratic
                     (mat_mul (mat_scale (w_com input) (mat_transpose (J_com rs))) (J_com rs))
                     (mat_mul (mat_scale (w_com input) (mat_transpose (J_com rs)))
                        (mat_sub (Jdot_times_v_com rs) (desired_comdd input)))
                     (constraint (costs ! 0))\<rparr>];
         costs = update_body_costs (cache rs) accs costs (length accs);
         costs = costs[Suc nba := (costs ! Suc nba)\<lparr>constraint :=
                   UpdateQuadratic (mat_scale (w_vd input) (MatrixXd_Identity nv nv))
                     (mat_scale (w_vd input) (mat_neg (desired_vd input)))
                     (constraint (costs ! Suc nba))\<rparr>];
         costs = costs[Suc (Suc nba) := (costs ! Suc (Suc nba))\<lparr>constraint :=
                   UpdateQuadratic (mat_scale (w_basis_reg input) (MatrixXd_Identity nb nb))
                     (VectorXd_Zero nb) (constraint (costs ! Suc (Suc nba)))\<rparr>]
     in st\<lparr>prog_' := (prog_' st)\<lparr>linear_equality_constraints := eqs,
                                  linear_constraints := ineqs, quadratic_costs := costs\<rparr>,
           body_J_' := update_body_J (cache rs) accs (body_J_' st) (length accs),
           body_Jdv_' := update_body_Jdv (cache rs) accs (body_Jdv_' st) (length accs)\<rparr>)"

text \<open>
  One step of the net-wrench loop as a total function, for indices in range.
\<close>

definition add_wrench :: "Environment \<Rightarrow> HumanoidStatus \<Rightarrow> QPOutput \<Rightarrow> mat \<Rightarrow> nat \<Rightarrow> mat" where
  "add_wrench env rs out net_wrench i =
     (let contact_wrench = equivalent_wrench (out_resolved_contacts out ! i);
          ref_point = rc_reference_point (out_resolved_contacts out ! i);
          net_wrench = dbl_sum env net_wrench contact_wrench
      in set_segment net_wrench 0 3
           (dbl_sum env (segment net_wrench 0 3)
              (dbl_cross env (dbl_difference env ref_point (com rs)) (segment contact_wrench 3 3))))"

text \<open>
  What the result validator asserts of a cycle, with its own arithmetic: every declared
  linear equality and inequality holds on the stored solution within the tolerance, and the
  net wrench over the resolved contacts of the output balances the rate of change of the
  centroidal momentum within the tolerance.
\<close>

definition constraints_validated :: "Environment \<Rightarrow> MathematicalProgram \<Rightarrow> bool" where
  "constraints_validated env prog \<longleftrightarrow>
     list_all (equality_satisfied env prog) (linear_equality_constraints prog) \<and>
     list_all (inequality_satisfied env prog) (linear_constraints prog)"

definition wrench_balanced :: "Environment \<Rightarrow> HumanoidStatus \<Rightarrow> QPOutput \<Rightarrow> bool" where
  "wrench_balanced env rs out \<longleftrightarrow>
     (case foldM (Control_add_wrench env rs out) [0..<length (out_resolved_contacts out)]
             (dbl_scaled env (getMass (rs_robot rs)) (a_grav (rs_robot rs))) of
        None \<Rightarrow> False
      | Some net_wrench \<Rightarrow>
          isZero (EPSILON env)
            (dbl_difference env net_wrench
               (dbl_sum env (dbl_product env (centroidal_momentum_matrix rs) (out_vd out))
                  (centroidal_momentum_matrix_dot_times_v rs))))"

text \<open>
  The entry written to \<^verbatim>\<open>output->body_accelerations()\<close> for tracked body motion \<open>i\<close>.
\<close>

definition body_acceleration_out :: "QPInput \<Rightarrow> mat list \<Rightarrow> mat list \<Rightarrow> mat \<Rightarrow> nat \<Rightarrow> BodyAcceleration" where
  "body_acceleration_out input Js Jdvs v i =
     (BodyAcceleration_new (dba_body (desired_body_accelerations input ! i)))
       \<lparr>ba_acceleration := mat_add (mat_mul (Js ! i) v) (Jdvs ! i)\<rparr>"

text \<open>The output object after the decomposition, before the validation of the wrench.\<close>

definition decomposed :: "Environment \<Rightarrow> HumanoidStatus \<Rightarrow> QPInput \<Rightarrow> DecisionVariableView \<Rightarrow>
    DecisionVariableView \<Rightarrow> QPController \<Rightarrow> QPOutput \<Rightarrow> QPOutput" where
  "decomposed env rs input vd basis st out =
    (let costs = quadratic_costs (prog_' st);
         out = out\<lparr>out_costs := resize_vec (length costs) ([], 0) (out_costs out)\<rparr>;
         out = fst (foldl (Control_record_cost env (prog_' st)) (out, 0) costs);
         out = out\<lparr>out_resolved_contacts := []\<rparr>;
         out = fst (foldl (Control_resolve_contact env rs (dv_value (prog_' st) basis)
                      (mat_mul (basis_to_force_matrix_' st) (dv_value (prog_' st) basis)))
                 (out, 0, 0) (contact_info input));
         out = out\<lparr>out_vd := dv_value (prog_' st) vd\<rparr>;
         out = out\<lparr>out_comdd := mat_add (mat_mul (J_com rs) (out_vd out)) (Jdot_times_v_com rs)\<rparr>;
         out = out\<lparr>out_body_accelerations :=
                 map (body_acceleration_out input (body_J_' st) (body_Jdv_' st) (out_vd out)) [0..<length (desired_body_accelerations input)]\<rparr>
     in out\<lparr>out_joint_torque :=
               mat_add (mat_mul (torque_linear_' st) (GetSolution (prog_' st))) (torque_constant_' st)\<rparr>)"

text \<open>
  Example data: a robot with seven velocities, the last one actuated with effort limits
  \<open>-10\<close> and \<open>10\<close>, one foot in contact at one point with a four-sided friction pyramid, and
  one tracked body motion for the pelvis.
\<close>

definition ex_robot :: RigidBodyTree where
  "ex_robot = \<lparr>number_of_velocities = 7,
     actuators = [\<lparr>effort_limit_min_' = -10, effort_limit_max_' = 10\<rparr>],
     tree_B = \<lparr>rows = 7, cols = 1, coeff = (\<lambda>i j. if i = 6 \<and> j = 0 then 1 else 0)\<rparr>,
     getMass = 1, a_grav = MatrixXd_Zero 6 1\<rparr>"

definition ex_foot :: ContactInformation where
  "ex_foot = \<lparr>ci_body = ''foot'', ci_name = ''foot'', contact_points = [MatrixXd_Zero 3 1],
     ci_num_basis = 4\<rparr>"

definition ex_pelvis :: DesiredBodyAcceleration where
  "ex_pelvis = \<lparr>dba_body = ''pelvis'', dba_name = ''pelvis'', dba_acceleration = MatrixXd_Zero 6 1,
     dba_weight = 1\<rparr>"

definition ex_cache :: KinematicsCache where
  "ex_cache = \<lparr>
     ComputeBasisMatrix = (\<lambda>c. \<lparr>rows = 3, cols = 4,
        coeff = (\<lambda>i j. if i = 2 then 1
                       else if i = 0 \<and> j = 0 then 1 / 2 else if i = 0 \<and> j = 1 then - 1 / 2
                       else if i = 1 \<and> j = 2 then 1 / 2 else if i = 1 \<and> j = 3 then - 1 / 2
                       else 0)\<rparr>),
     ComputeJacobianAtContactPoints = (\<lambda>c. MatrixXd_Zero 3 7),
     ComputeJacobianDotTimesVAtContactPoints = (\<lambda>c. MatrixXd_Zero 3 1),
     ComputeContactPointsAndWrenchReferencePoint = (\<lambda>c offset. ([MatrixXd_Zero 3 1], MatrixXd_Zero 3 1)),
     GetTaskSpaceJacobian = (\<lambda>b p. MatrixXd_Zero 6 7),
     GetTaskSpaceJacobianDotTimesV = (\<lambda>b p. MatrixXd_Zero 6 1)\<rparr>"

definition ex_rs :: HumanoidStatus where
  "ex_rs = \<lparr>rs_robot = ex_robot, cache = ex_cache, rs_M = MatrixXd_Identity 7 7,
     bias_term = MatrixXd_Zero 7 1, J_com = MatrixXd_Zero 3 7, Jdot_times_v_com = MatrixXd_Zero 3 1,
     centroidal_momentum_matrix = MatrixXd_Identity 6 7,
     centroidal_momentum_matrix_dot_times_v = MatrixXd_Zero 6 1, com = MatrixXd_Zero 3 1\<rparr>"

definition ex_input :: QPInput where
  "ex_input = \<lparr>contact_info = [ex_foot], desired_body_accelerations = [ex_pelvis],
     desired_vd = MatrixXd_Zero 7 1, desired_comdd = MatrixXd_Zero 3 1,
     w_com = 1, w_vd = 1, w_basis_reg = 1\<rparr>"

text \<open>
  The environment of the example: assertions armed, a solver that answers with the zero
  vector, the availability and the solution result being arguments, and an arithmetic
  without rounding.  The example has small integers and halves only, on which the operations
  of the validator are exact; the one exception is the extension of a bound by the
  tolerance, which decides no comparison of the example.
\<close>

definition ex_env :: "bool \<Rightarrow> SolutionResult \<Rightarrow> Environment" where
  "ex_env avail res = \<lparr>kDrakeAssertIsArmed = True, EPSILON = 1 / 100000000,
     solver_available = avail,
     solver_Solve = (\<lambda>prog. (res, VectorXd_Zero (num_vars prog))),
     QuadraticConstraint_Eval = (\<lambda>c x. mat_add (mat_scale (1/2) (mat_mul (mat_mul (mat_transpose x) (qc_Q c)) x))
                                     (mat_mul (mat_transpose (qc_b c)) x)),
     ComputeWrenchMatrix = (\<lambda>c pts ref. \<lparr>rows = 6, cols = 3 * length pts, coeff = (\<lambda>i j. if i = j + 3 then 1 else 0)\<rparr>),
     QPOutput_is_valid = (\<lambda>out nv nt. rows (out_vd out) = nv \<and> rows (out_joint_torque out) = nt),
     dbl_product = mat_mul, dbl_sum = mat_add, dbl_difference = mat_sub, dbl_scaled = mat_scale,
     dbl_cross = cross, dbl_plus = (+), dbl_minus = (-)\<rparr>"

text \<open>
  A controller with no problem declared yet, and an empty output object.
\<close>

definition ex_controller :: QPController where
  "ex_controller = \<lparr>num_contact_body_' = 0, num_vd_' = 0, num_basis_' = 0, num_point_force_' = 0,
     num_torque_' = 0, num_variable_' = 0, num_body_acceleration_' = 0,
     prog_' = MathematicalProgram_new,
     stacked_contact_jacobians_' = MatrixXd_Zero 0 0, basis_to_force_matrix_' = MatrixXd_Zero 0 0,
     stacked_contact_jacobians_dot_times_v_' = MatrixXd_Zero 0 1,
     torque_linear_' = MatrixXd_Zero 0 0, dynamics_linear_' = MatrixXd_Zero 0 0,
     eq_dynamics_' = None, eq_contacts_' = [], ineq_contact_wrench_' = None, ineq_torque_limit_' = None,
     cost_comdd_' = None, cost_body_accelerations_' = [], cost_vd_reg_' = None, cost_basis_reg_' = None,
     body_Jdv_' = [], body_J_' = [], JB_' = MatrixXd_Zero 0 0, torque_constant_' = MatrixXd_Zero 0 1,
     dynamics_constant_' = MatrixXd_Zero 0 1, inequality_linear_' = MatrixXd_Zero 0 0,
     inequality_upper_bound_' = MatrixXd_Zero 0 1, inequality_lower_bound_' = MatrixXd_Zero 0 1,
     point_forces_' = MatrixXd_Zero 0 1\<rparr>"

definition ex_output :: QPOutput where
  "ex_output = \<lparr>out_vd = MatrixXd_Zero 0 1, out_comdd = MatrixXd_Zero 3 1,
     out_joint_torque = MatrixXd_Zero 0 1, out_resolved_contacts = [], out_body_accelerations = [],
     out_costs = []\<rparr>"

text \<open>
  The example controller after \<^verbatim>\<open>ResizeQP\<close>.
\<close>

definition ex_st1 :: QPController where
  "ex_st1 = the (ResizeQP (rs_robot ex_rs) (contact_info ex_input) (desired_body_accelerations ex_input) ex_controller)"

text \<open>
  The example controller after the formulation, with the zero vector stored as solution.
\<close>

definition ex_st4 :: QPController where
  "ex_st4 = (let st3 = formulated ex_rs ex_input (SetTempMatricesToZero ex_st1)
             in st3\<lparr>prog_' := (prog_' st3)\<lparr>prog_solution := VectorXd_Zero (num_vars (prog_' st3))\<rparr>\<rparr>)"

text \<open>
  The description of the constraint or cost a declaration refers to.
\<close>

definition decl_description :: "MathematicalProgram \<Rightarrow> decl \<Rightarrow> string" where
  "decl_description prog d =
     (case d of
        LinearEqualityDecl k \<Rightarrow> lc_description (constraint (linear_equality_constraints prog ! k))
      | LinearDecl k \<Rightarrow> lc_description (constraint (linear_constraints prog ! k))
      | QuadraticCostDecl k \<Rightarrow> qc_description (constraint (quadratic_costs prog ! k)))"

text \<open>
  The controller holds the formulation of the current cycle: the stored topology is that of
  the current descriptors, the scratch buffers hold the stacked contact quantities and the
  torque and dynamics maps of the current robot state, and every declared constraint and
  cost carries the coefficients computed from them.
\<close>

definition formulation_current :: "HumanoidStatus \<Rightarrow> QPInput \<Rightarrow> QPController \<Rightarrow> bool" where
  "formulation_current rs input st \<longleftrightarrow>
    (let cs = contact_info input;
         accs = desired_body_accelerations input;
         acts = actuators (rs_robot rs);
         kc = cache rs;
         nv = number_of_velocities (rs_robot rs);
         nb = sum_list (map ci_num_basis cs);
         nt = length acts;
         eqs = linear_equality_constraints (prog_' st);
         ineqs = linear_constraints (prog_' st);
         costs = quadratic_costs (prog_' st);
         P = mat_transpose (bottomRows nt (tree_B (rs_robot rs)))
     in topology_unchanged (rs_robot rs) cs accs st \<and>
        length eqs = Suc (length cs) \<and> length ineqs = 2 \<and> length costs = length accs + 3 \<and>
        (\<forall>k<length cs. \<forall>i<3 * length (contact_points (cs ! k)).
           (\<forall>j<nv. coeff (stacked_contact_jacobians_' st) (row_offset cs k + i) j =
                     coeff (ComputeJacobianAtContactPoints kc (cs ! k)) i j) \<and>
           (\<forall>j<ci_num_basis (cs ! k).
                     coeff (basis_to_force_matrix_' st) (row_offset cs k + i) (col_offset cs k + j) =
                     coeff (ComputeBasisMatrix kc (cs ! k)) i j) \<and>
           coeff (stacked_contact_jacobians_dot_times_v_' st) (row_offset cs k + i) 0 =
             coeff (ComputeJacobianDotTimesVAtContactPoints kc (cs ! k)) i 0) \<and>
        JB_' st = mat_mul (mat_transpose (stacked_contact_jacobians_' st)) (basis_to_force_matrix_' st) \<and>
        torque_constant_' st = vec_tail nt (bias_term rs) \<and>
        dynamics_constant_' st = mat_neg (vec_head 6 (bias_term rs)) \<and>
        (\<forall>i<nt. (\<forall>j<nv. coeff (torque_linear_' st) i j = coeff (bottomRows nt (rs_M rs)) i j) \<and>
                 (\<forall>j<nb. coeff (torque_linear_' st) i (nv + j) = - coeff (bottomRows nt (JB_' st)) i j)) \<and>
        (\<forall>i<6. (\<forall>j<nv. coeff (dynamics_linear_' st) i j = coeff (topRows 6 (rs_M rs)) i j) \<and>
                (\<forall>j<nb. coeff (dynamics_linear_' st) i (nv + j) = - coeff (topRows 6 (JB_' st)) i j)) \<and>
        lc_A (constraint (eqs ! 0)) = dynamics_linear_' st \<and>
        lc_lower_bound (constraint (eqs ! 0)) = dynamics_constant_' st \<and>
        lc_upper_bound (constraint (eqs ! 0)) = dynamics_constant_' st \<and>
        (\<forall>k<length cs.
           lc_A (constraint (eqs ! Suc k)) =
             mat_block (stacked_contact_jacobians_' st) (row_offset cs k) 0
               (3 * length (contact_points (cs ! k))) nv \<and>
           lc_lower_bound (constraint (eqs ! Suc k)) =
             mat_neg (segment (stacked_contact_jacobians_dot_times_v_' st) (row_offset cs k)
                        (3 * length (contact_points (cs ! k)))) \<and>
           lc_upper_bound (constraint (eqs ! Suc k)) = lc_lower_bound (constraint (eqs ! Suc k))) \<and>
        lc_A (constraint (ineqs ! 1)) = mat_mul P (torque_linear_' st) \<and>
        (\<forall>i<nt. coeff (lc_lower_bound (constraint (ineqs ! 1))) i 0 =
                   effort_limit_min_' (acts ! i) - coeff (mat_mul P (torque_constant_' st)) i 0 \<and>
                 coeff (lc_upper_bound (constraint (ineqs ! 1))) i 0 =
                   effort_limit_max_' (acts ! i) - coeff (mat_mul P (torque_constant_' st)) i 0) \<and>
        qc_Q (constraint (costs ! 0)) =
          mat_mul (mat_scale (w_com input) (mat_transpose (J_com rs))) (J_com rs) \<and>
        qc_b (constraint (costs ! 0)) =
          mat_mul (mat_scale (w_com input) (mat_transpose (J_com rs)))
            (mat_sub (Jdot_times_v_com rs) (desired_comdd input)) \<and>
        (\<forall>k<length accs.
           body_J_' st ! k = GetTaskSpaceJacobian kc (dba_body (accs ! k)) (VectorXd_Zero 3) \<and>
           body_Jdv_' st ! k = GetTaskSpaceJacobianDotTimesV kc (dba_body (accs ! k)) (VectorXd_Zero 3) \<and>
           qc_Q (constraint (costs ! Suc k)) =
             mat_mul (mat_scale (dba_weight (accs ! k)) (mat_transpose (body_J_' st ! k))) (body_J_' st ! k) \<and>
           qc_b (constraint (costs ! Suc k)) =
             mat_mul (mat_scale (dba_weight (accs ! k)) (mat_transpose (body_J_' st ! k)))
               (mat_sub (body_Jdv_' st ! k) (dba_acceleration (accs ! k)))) \<and>
        qc_Q (constraint (costs ! Suc (length accs))) = mat_scale (w_vd input) (MatrixXd_Identity nv nv) \<and>
        qc_b (constraint (costs ! Suc (length accs))) = mat_scale (w_vd input) (mat_neg (desired_vd input)) \<and>
        qc_Q (constraint (costs ! Suc (Suc (length accs)))) =
          mat_scale (w_basis_reg input) (MatrixXd_Identity nb nb) \<and>
        qc_b (constraint (costs ! Suc (Suc (length accs)))) = VectorXd_Zero nb)"

text \<open>
  The example input with a regularization target of the wrong dimension.
\<close>

definition ex_bad_input :: QPInput where
  "ex_bad_input = ex_input\<lparr>desired_vd := MatrixXd_Zero 3 1\<rparr>"

text \<open>
  A release build with a solver that reports a solution it has not found: assertions
  disarmed, and the solver answers \<open>kSolutionFound\<close> with the first unit vector, that is
  a generalized acceleration of \<open>1\<close> in the first coordinate and no contact force.
\<close>

definition ex_e0 :: "nat \<Rightarrow> mat" where
  "ex_e0 n = \<lparr>rows = n, cols = 1, coeff = (\<lambda>i j. if i = 0 \<and> j = 0 then 1 else 0)\<rparr>"

definition ex_env_disarmed :: Environment where
  "ex_env_disarmed = (ex_env True kSolutionFound)
     \<lparr>kDrakeAssertIsArmed := False,
      solver_Solve := (\<lambda>prog. (kSolutionFound, ex_e0 (num_vars prog)))\<rparr>"

text \<open>
  The example controller after the formulation, with the first unit vector stored as solution.
\<close>

definition ex_st5 :: QPController where
  "ex_st5 = (let st3 = formulated ex_rs ex_input (SetTempMatricesToZero ex_st1)
             in st3\<lparr>prog_' := (prog_' st3)\<lparr>prog_solution := ex_e0 (num_vars (prog_' st3))\<rparr>\<rparr>)"

section \<open>Properties of the model\<close>

subsection \<open>The loops of ResizeQP in closed form\<close>

lemma foldM_append:
  "foldM f (xs @ ys) s = (case foldM f xs s of None \<Rightarrow> None | Some s' \<Rightarrow> foldM f ys s')"
  by (induction xs arbitrary: s) (auto split: option.splits)

lemma foldM_upt_Suc:
  "foldM f [0..<Suc n] s = (case foldM f [0..<n] s of None \<Rightarrow> None | Some s' \<Rightarrow> f n s')"
  by (simp add: foldM_append split: option.splits)

lemma topology_counts_foldl:
  "foldl (\<lambda>(num_point_force, num_basis) s.
              (num_point_force + length (contact_points s), num_basis + ci_num_basis s))
       (a, b) xs = (a + sum_list (map (\<lambda>s. length (contact_points s)) xs), b + sum_list (map ci_num_basis xs))"
  by (induction xs arbitrary: a b) auto

lemma topology_counts_sum:
  "topology_counts xs = (sum_list (map (\<lambda>s. length (contact_points s)) xs), sum_list (map ci_num_basis xs))"
  by (simp add: topology_counts_def topology_counts_foldl)

lemma through_Some:
  "k < length bs \<Longrightarrow> through (Some k) f bs = Some (bs[k := (bs ! k)\<lparr>constraint := f (constraint (bs ! k))\<rparr>])"
  by (simp add: through_def)

lemma through_length: "through h f bs = Some bs' \<Longrightarrow> length bs' = length bs"
  by (auto simp: through_def split: option.splits if_splits)

lemma drop_update_0:
  "n < length ys \<Longrightarrow> (drop n ys)[0 := h] = h # drop (Suc n) ys"
  by (simp add: Cons_nth_drop_Suc[symmetric])

lemma ResizeQP_contact_loop:
  assumes "n \<le> length ecs"
  shows "foldM (ResizeQP_contact_eq all_supports num_vd vd) [0..<n] (prog, ecs) =
    Some (prog\<lparr>linear_equality_constraints := linear_equality_constraints prog @
                   map (contact_eq_decl all_supports num_vd vd) [0..<n],
               insertion_order := insertion_order prog @
                   map (\<lambda>i. LinearEqualityDecl (length (linear_equality_constraints prog) + i)) [0..<n]\<rparr>,
          map (\<lambda>i. Some (length (linear_equality_constraints prog) + i)) [0..<n] @ drop n ecs)"
  using assms
proof (induction n)
  case 0
  then show ?case by simp
next
  case (Suc n)
  then have n: "n < length ecs" by simp
  from Suc have IH: "foldM (ResizeQP_contact_eq all_supports num_vd vd) [0..<n] (prog, ecs) =
    Some (prog\<lparr>linear_equality_constraints := linear_equality_constraints prog @
                   map (contact_eq_decl all_supports num_vd vd) [0..<n],
               insertion_order := insertion_order prog @
                   map (\<lambda>i. LinearEqualityDecl (length (linear_equality_constraints prog) + i)) [0..<n]\<rparr>,
          map (\<lambda>i. Some (length (linear_equality_constraints prog) + i)) [0..<n] @ drop n ecs)" by simp
  show ?case
    using n
    apply (simp only: foldM_upt_Suc IH option.case)
    apply (simp add: ResizeQP_contact_eq_def AddLinearEqualityConstraint_def Let_def eq_through_def
        drop_update_0 nth_append through_Some contact_eq_decl_def set_lc_description_def list_update_append)
    done
qed

lemma ResizeQP_body_loop:
  assumes "n \<le> length cs"
  shows "foldM (ResizeQP_body_cost accs Q0 b0 vd) [0..<n] (prog, cs) =
    Some (prog\<lparr>quadratic_costs := quadratic_costs prog @ map (body_cost_decl accs Q0 b0 vd) [0..<n],
               insertion_order := insertion_order prog @
                   map (\<lambda>i. QuadraticCostDecl (length (quadratic_costs prog) + i)) [0..<n]\<rparr>,
          map (\<lambda>i. Some (length (quadratic_costs prog) + i)) [0..<n] @ drop n cs)"
  using assms
proof (induction n)
  case 0
  then show ?case by simp
next
  case (Suc n)
  then have n: "n < length cs" by simp
  from Suc have IH: "foldM (ResizeQP_body_cost accs Q0 b0 vd) [0..<n] (prog, cs) =
    Some (prog\<lparr>quadratic_costs := quadratic_costs prog @ map (body_cost_decl accs Q0 b0 vd) [0..<n],
               insertion_order := insertion_order prog @
                   map (\<lambda>i. QuadraticCostDecl (length (quadratic_costs prog) + i)) [0..<n]\<rparr>,
          map (\<lambda>i. Some (length (quadratic_costs prog) + i)) [0..<n] @ drop n cs)" by simp
  show ?case
    using n
    apply (simp only: foldM_upt_Suc IH option.case)
    apply (simp add: ResizeQP_body_cost_def AddQuadraticCost_def Let_def cost_through_def
        drop_update_0 nth_append through_Some body_cost_decl_def set_qc_description_def list_update_append)
    done
qed

lemma length_resize_vec [simp]: "length (resize_vec n d xs) = n"
  by (simp add: resize_vec_def)

lemma ResizeQP_rebuild_result:
  "ResizeQP_rebuild all_supports accs (length all_supports) num_vd num_basis num_point_force num_torque num_variable st =
   Some (st\<lparr>num_contact_body_' := length all_supports, num_vd_' := num_vd,
            num_basis_' := num_basis, num_point_force_' := num_point_force,
            num_torque_' := num_torque, num_variable_' := num_variable,
            num_body_acceleration_' := length accs,
            prog_' := declared_program all_supports accs num_vd num_basis num_torque num_variable,
            stacked_contact_jacobians_' := MatrixXd_uninit (3 * num_point_force) num_vd,
            basis_to_force_matrix_' := MatrixXd_uninit (3 * num_point_force) num_basis,
            stacked_contact_jacobians_dot_times_v_' := MatrixXd_uninit (3 * num_point_force) 1,
            torque_linear_' := MatrixXd_uninit num_torque num_variable,
            dynamics_linear_' := MatrixXd_uninit 6 num_variable,
            eq_dynamics_' := Some 0,
            eq_contacts_' := map (\<lambda>i. Some (Suc i)) [0..<length all_supports],
            ineq_contact_wrench_' := Some 0,
            ineq_torque_limit_' := Some 1,
            cost_comdd_' := Some 0,
            cost_body_accelerations_' := map (\<lambda>i. Some (Suc i)) [0..<length accs],
            cost_vd_reg_' := Some (Suc (length accs)),
            cost_basis_reg_' := Some (Suc (Suc (length accs))),
            body_Jdv_' := resize_vec (length accs) (MatrixXd_uninit 0 0) (body_Jdv_' st),
            body_J_' := resize_vec (length accs) (MatrixXd_uninit 0 0) (body_J_' st)\<rparr>)"
  apply (simp add: ResizeQP_rebuild_def Let_def AddContinuousVariables_def MathematicalProgram_new_def
       AddLinearEqualityConstraint_def eq_through_def through_Some set_lc_description_def
       ResizeQP_contact_loop mat_resize_def)
  apply (simp add: AddLinearConstraint_def ineq_through_def through_Some set_lc_description_def Let_def
       AddQuadraticCost_def cost_through_def set_qc_description_def ResizeQP_body_loop nth_append
       declared_program_def list_update_append)
  done

subsection \<open>The loops of the formulation in closed form\<close>

lemma row_offset_0 [simp]: "row_offset cs 0 = 0" by (simp add: row_offset_def)

lemma col_offset_0 [simp]: "col_offset cs 0 = 0" by (simp add: col_offset_def)

lemma row_offset_Suc: "n < length cs \<Longrightarrow> row_offset cs (Suc n) = row_offset cs n + 3 * length (contact_points (cs ! n))"
  by (simp add: row_offset_def take_Suc_conv_app_nth)

lemma col_offset_Suc: "n < length cs \<Longrightarrow> col_offset cs (Suc n) = col_offset cs n + ci_num_basis (cs ! n)"
  by (simp add: col_offset_def take_Suc_conv_app_nth)

lemma Control_stack_loop:
  assumes "n \<le> length (contact_info input)"
  shows "foldM (Control_stack_contact rs input) [0..<n] (st, 0, 0) =
    Some (st\<lparr>basis_to_force_matrix_' := stack_basis (cache rs) (contact_info input) (basis_to_force_matrix_' st) n,
             stacked_contact_jacobians_' := stack_jacobians (cache rs) (contact_info input) (num_vd_' st) (stacked_contact_jacobians_' st) n,
             stacked_contact_jacobians_dot_times_v_' := stack_jdv (cache rs) (contact_info input) (stacked_contact_jacobians_dot_times_v_' st) n\<rparr>,
          row_offset (contact_info input) n, col_offset (contact_info input) n)"
  using assms
proof (induction n)
  case 0
  then show ?case by simp
next
  case (Suc n)
  then have n: "n < length (contact_info input)" by simp
  from Suc have IH: "foldM (Control_stack_contact rs input) [0..<n] (st, 0, 0) =
    Some (st\<lparr>basis_to_force_matrix_' := stack_basis (cache rs) (contact_info input) (basis_to_force_matrix_' st) n,
             stacked_contact_jacobians_' := stack_jacobians (cache rs) (contact_info input) (num_vd_' st) (stacked_contact_jacobians_' st) n,
             stacked_contact_jacobians_dot_times_v_' := stack_jdv (cache rs) (contact_info input) (stacked_contact_jacobians_dot_times_v_' st) n\<rparr>,
          row_offset (contact_info input) n, col_offset (contact_info input) n)" by simp
  show ?case
    using n
    apply (simp only: foldM_upt_Suc IH option.case)
    apply (simp add: Control_stack_contact_def Let_def row_offset_Suc col_offset_Suc)
    done
qed

lemma length_update_contact_eqs [simp]:
  "length (update_contact_eqs cs J Jdv num_vd eqs n) = length eqs"
  by (induction n) (simp_all add: Let_def)

lemma Control_contact_eq_loop:
  assumes "n \<le> length (contact_info input)" "n \<le> N"
    and "eq_contacts_' st = map (\<lambda>i. Some (Suc i)) [0..<N]"
    and "length (linear_equality_constraints (prog_' st)) = Suc N"
  shows "foldM (Control_contact_eq input) [0..<n] (st, 0) =
    Some (st\<lparr>prog_' := (prog_' st)\<lparr>linear_equality_constraints :=
               update_contact_eqs (contact_info input) (stacked_contact_jacobians_' st)
                 (stacked_contact_jacobians_dot_times_v_' st) (num_vd_' st)
                 (linear_equality_constraints (prog_' st)) n\<rparr>\<rparr>,
          row_offset (contact_info input) n)"
  using assms
proof (induction n)
  case 0
  then show ?case by simp
next
  case (Suc n)
  then have n: "n < length (contact_info input)" "n < N" by simp_all
  from Suc have IH: "foldM (Control_contact_eq input) [0..<n] (st, 0) =
    Some (st\<lparr>prog_' := (prog_' st)\<lparr>linear_equality_constraints :=
               update_contact_eqs (contact_info input) (stacked_contact_jacobians_' st)
                 (stacked_contact_jacobians_dot_times_v_' st) (num_vd_' st)
                 (linear_equality_constraints (prog_' st)) n\<rparr>\<rparr>,
          row_offset (contact_info input) n)" by simp
  show ?case
    using n Suc.prems(3,4)
    apply (simp only: foldM_upt_Suc IH option.case)
    apply (simp add: Control_contact_eq_def Let_def row_offset_Suc eq_through_def through_Some)
    done
qed

lemma Control_effort_loop:
  "foldl (Control_effort_limit rs) st [0..<n] =
     st\<lparr>inequality_lower_bound_' := add_limits effort_limit_min_' (actuators (rs_robot rs)) (inequality_lower_bound_' st) n,
        inequality_upper_bound_' := add_limits effort_limit_max_' (actuators (rs_robot rs)) (inequality_upper_bound_' st) n\<rparr>"
  by (induction n) (simp_all add: Control_effort_limit_def)

lemma coeff_add_limits:
  "coeff (add_limits f acts v n) i j = (if i < n \<and> j = 0 then coeff v i j + f (acts ! i) else coeff v i j)"
  by (induction n) (auto simp: vec_add_at_def less_Suc_eq)

lemma rows_add_limits [simp]: "rows (add_limits f acts v n) = rows v"
  by (induction n) (simp_all add: vec_add_at_def)

lemma cols_add_limits [simp]: "cols (add_limits f acts v n) = cols v"
  by (induction n) (simp_all add: vec_add_at_def)

lemma length_update_body_costs [simp]: "length (update_body_costs kc accs cs n) = length cs"
  by (induction n) (simp_all add: Let_def)

lemma length_update_body_J [simp]: "length (update_body_J kc accs Js n) = length Js"
  by (induction n) simp_all

lemma length_update_body_Jdv [simp]: "length (update_body_Jdv kc accs Js n) = length Js"
  by (induction n) simp_all

lemma Control_body_cost_loop:
  assumes "n \<le> N" "length (body_J_' st) = N" "length (body_Jdv_' st) = N"
    and "cost_body_accelerations_' st = map (\<lambda>i. Some (Suc i)) [0..<N]"
    and "Suc N < length (quadratic_costs (prog_' st))"
  shows "foldM (Control_body_cost rs accs) [0..<n] st =
    Some (st\<lparr>prog_' := (prog_' st)\<lparr>quadratic_costs :=
               update_body_costs (cache rs) accs (quadratic_costs (prog_' st)) n\<rparr>,
             body_J_' := update_body_J (cache rs) accs (body_J_' st) n,
             body_Jdv_' := update_body_Jdv (cache rs) accs (body_Jdv_' st) n\<rparr>)"
  using assms
proof (induction n)
  case 0
  then show ?case by simp
next
  case (Suc n)
  then have n: "n < N" by simp
  from Suc have IH: "foldM (Control_body_cost rs accs) [0..<n] st =
    Some (st\<lparr>prog_' := (prog_' st)\<lparr>quadratic_costs :=
               update_body_costs (cache rs) accs (quadratic_costs (prog_' st)) n\<rparr>,
             body_J_' := update_body_J (cache rs) accs (body_J_' st) n,
             body_Jdv_' := update_body_Jdv (cache rs) accs (body_Jdv_' st) n\<rparr>)" by simp
  show ?case
    using n Suc.prems(2-)
    apply (simp only: foldM_upt_Suc IH option.case)
    apply (simp add: Control_body_cost_def Let_def cost_through_def through_Some)
    done
qed

subsection \<open>ResizeQP and the layout invariant\<close>

lemma ResizeQP_unchanged:
  "topology_unchanged tree supports accs st \<Longrightarrow> ResizeQP tree supports accs st = Some st"
  by (simp add: ResizeQP_def topology_unchanged_def topology_counts_sum Let_def)

lemma ResizeQP_changed:
  "\<not> topology_unchanged tree supports accs st \<Longrightarrow>
   ResizeQP tree supports accs st =
     ResizeQP_rebuild supports accs (length supports) (number_of_velocities tree)
       (sum_list (map ci_num_basis supports)) (sum_list (map (\<lambda>s. length (contact_points s)) supports))
       (length (actuators tree)) (number_of_velocities tree + sum_list (map ci_num_basis supports)) st"
  by (auto simp add: ResizeQP_def topology_unchanged_def topology_counts_sum Let_def)

lemma ResizeQP_establishes:
  assumes "QP_inv st \<or> \<not> topology_unchanged tree supports accs st"
  shows "\<exists>st1. ResizeQP tree supports accs st = Some st1 \<and> QP_inv st1 \<and>
               topology_unchanged tree supports accs st1"
proof (cases "topology_unchanged tree supports accs st")
  case True
  with assms show ?thesis by (simp add: ResizeQP_unchanged)
next
  case False
  show ?thesis
    unfolding ResizeQP_changed[OF False] ResizeQP_rebuild_result
    by (simp add: QP_inv_def topology_unchanged_def declared_program_def GetVariable_def Let_def)
qed

lemma SetTempMatricesToZero_inv:
  "QP_inv (SetTempMatricesToZero st) = QP_inv st"
  "topology_unchanged tree supports accs (SetTempMatricesToZero st) = topology_unchanged tree supports accs st"
  by (simp_all add: QP_inv_def topology_unchanged_def SetTempMatricesToZero_def)

lemma row_offset_full:
  "row_offset cs (length cs) = sum_list (map (\<lambda>s. length (contact_points s)) cs) * 3"
  by (induction cs) (simp_all add: row_offset_def)

lemma col_offset_full: "col_offset cs (length cs) = sum_list (map ci_num_basis cs)"
  by (simp add: col_offset_def)

lemma Control_contact_eq_loop_all:
  assumes "eq_contacts_' st = map (\<lambda>i. Some (Suc i)) [0..<length (contact_info input)]"
    and "length (linear_equality_constraints (prog_' st)) = Suc (length (contact_info input))"
  shows "foldM (Control_contact_eq input) [0..<length (contact_info input)] (st, 0) =
    Some (st\<lparr>prog_' := (prog_' st)\<lparr>linear_equality_constraints :=
               update_contact_eqs (contact_info input) (stacked_contact_jacobians_' st)
                 (stacked_contact_jacobians_dot_times_v_' st) (num_vd_' st)
                 (linear_equality_constraints (prog_' st)) (length (contact_info input))\<rparr>\<rparr>,
          row_offset (contact_info input) (length (contact_info input)))"
  using Control_contact_eq_loop[OF le_refl le_refl assms] .

lemma Control_body_cost_loop_all:
  assumes "length (body_J_' st) = length accs" "length (body_Jdv_' st) = length accs"
    and "cost_body_accelerations_' st = map (\<lambda>i. Some (Suc i)) [0..<length accs]"
    and "Suc (length accs) < length (quadratic_costs (prog_' st))"
  shows "foldM (Control_body_cost rs accs) [0..<length accs] st =
    Some (st\<lparr>prog_' := (prog_' st)\<lparr>quadratic_costs :=
               update_body_costs (cache rs) accs (quadratic_costs (prog_' st)) (length accs)\<rparr>,
             body_J_' := update_body_J (cache rs) accs (body_J_' st) (length accs),
             body_Jdv_' := update_body_Jdv (cache rs) accs (body_Jdv_' st) (length accs)\<rparr>)"
  using Control_body_cost_loop[OF le_refl assms] .

lemma Control_formulate_closed:
  assumes "QP_inv st"
    and "topology_unchanged (rs_robot rs) (contact_info input) (desired_body_accelerations input) st"
  shows "Control_formulate env rs input \<lparr>dv_index = 0, dv_size = num_vd_' st\<rparr>
           \<lparr>dv_index = num_vd_' st, dv_size = num_basis_' st\<rparr> st = Some (formulated rs input st)"
  using assms
  apply (clarsimp simp add: QP_inv_def topology_unchanged_def)
  apply (simp add: Control_formulate_def Control_stack_loop Let_def DRAKE_ASSERT_def
      row_offset_full col_offset_full eq_through_def through_Some)
  apply (simp add: Control_contact_eq_loop_all Control_effort_loop row_offset_full ineq_through_def through_Some Let_def)
  apply (simp add: cost_through_def through_Some Control_body_cost_loop_all Let_def)
  apply (simp add: formulated_def Let_def)
  done

subsection \<open>The result validation\<close>

lemma Control_body_acceleration_frame:
  "foldM (Control_body_acceleration input st) is out = Some out' \<Longrightarrow>
     out_vd out' = out_vd out \<and> out_resolved_contacts out' = out_resolved_contacts out"
proof (induction "is" arbitrary: out)
  case Nil
  then show ?case by simp
next
  case (Cons i "is")
  then show ?case
    by (auto simp: Control_body_acceleration_def split: option.splits if_splits)
qed

lemma Control_decompose_result:
  assumes "Control_decompose env rs input vd basis st out = Some r"
  shows "ctrl r = st\<lparr>point_forces_' := mat_mul (basis_to_force_matrix_' st) (dv_value (prog_' st) basis)\<rparr>"
    and "solve_calls r = 1"
    and "(ret r = 0 \<and> cerr r = []) \<or> (ret r = -1 \<and> cerr r = [''output is invalid\<newline>''])"
    and "out_joint_torque (outp r) =
           mat_add (mat_mul (torque_linear_' st) (prog_solution (prog_' st))) (torque_constant_' st)"
    and "out_vd (outp r) = dv_value (prog_' st) vd"
  using assms
  by (auto simp: Control_decompose_def Let_def GetSolution_def
      split: Option.bind_splits if_splits prod.splits dest: Control_body_acceleration_frame)

lemma Control_decompose_checked:
  assumes "Control_decompose env rs input vd basis st out = Some r" and "kDrakeAssertIsArmed env"
  shows "list_all (equality_satisfied env (prog_' st)) (linear_equality_constraints (prog_' st))"
    and "list_all (inequality_satisfied env (prog_' st)) (linear_constraints (prog_' st))"
    and "\<exists>net_wrench.
           foldM (Control_add_wrench env rs (outp r)) [0..<num_contact_body_' st]
             (dbl_scaled env (getMass (rs_robot rs)) (a_grav (rs_robot rs))) = Some net_wrench \<and>
           isZero (EPSILON env) (dbl_difference env net_wrench
             (dbl_sum env (dbl_product env (centroidal_momentum_matrix rs) (out_vd (outp r)))
                (centroidal_momentum_matrix_dot_times_v rs)))"
  using assms
  by (auto simp: Control_decompose_def Let_def DRAKE_ASSERT_def split: Option.bind_splits if_splits prod.splits)

subsection \<open>The formulated controller\<close>

lemma formulated_fields:
  "num_contact_body_' (formulated rs input st) = num_contact_body_' st"
  "num_vd_' (formulated rs input st) = num_vd_' st"
  "num_basis_' (formulated rs input st) = num_basis_' st"
  "num_point_force_' (formulated rs input st) = num_point_force_' st"
  "num_torque_' (formulated rs input st) = num_torque_' st"
  "num_variable_' (formulated rs input st) = num_variable_' st"
  "num_body_acceleration_' (formulated rs input st) = num_body_acceleration_' st"
  "torque_constant_' (formulated rs input st) = vec_tail (num_torque_' st) (bias_term rs)"
  "dynamics_constant_' (formulated rs input st) = mat_neg (vec_head 6 (bias_term rs))"
  "JB_' (formulated rs input st) =
     mat_mul (mat_transpose (stacked_contact_jacobians_' (formulated rs input st)))
       (basis_to_force_matrix_' (formulated rs input st))"
  "torque_linear_' (formulated rs input st) =
     mat_set_block (mat_set_block (torque_linear_' st) 0 0 (num_torque_' st) (num_vd_' st)
                      (bottomRows (num_torque_' st) (rs_M rs)))
       0 (num_vd_' st) (num_torque_' st) (num_basis_' st)
       (mat_neg (bottomRows (num_torque_' st) (JB_' (formulated rs input st))))"
  "dynamics_linear_' (formulated rs input st) =
     mat_set_block (mat_set_block (dynamics_linear_' st) 0 0 6 (num_vd_' st) (topRows 6 (rs_M rs)))
       0 (num_vd_' st) 6 (num_basis_' st) (mat_neg (topRows 6 (JB_' (formulated rs input st))))"
  "inequality_linear_' (formulated rs input st) =
     mat_mul (mat_transpose (bottomRows (num_torque_' st) (tree_B (rs_robot rs))))
       (torque_linear_' (formulated rs input st))"
  by (simp_all add: formulated_def Let_def)

lemma formulated_topology:
  "topology_unchanged tree supports accs (formulated rs input st) = topology_unchanged tree supports accs st"
  by (simp add: topology_unchanged_def formulated_fields)

lemma formulated_inv: "QP_inv st \<Longrightarrow> QP_inv (formulated rs input st)"
  by (simp add: QP_inv_def formulated_def Let_def GetVariable_def)

lemma formulated_views:
  "variable_views (prog_' (formulated rs input st)) = variable_views (prog_' st)"
  by (simp add: formulated_def Let_def)

lemma formulated_torque_limit:
  assumes "length (linear_constraints (prog_' st)) = 2"
  shows "constraint (linear_constraints (prog_' (formulated rs input st)) ! 1) =
     UpdateLinear (inequality_linear_' (formulated rs input st))
       (inequality_lower_bound_' (formulated rs input st))
       (inequality_upper_bound_' (formulated rs input st))
       (constraint (linear_constraints (prog_' st) ! 1))"
    and "length (linear_constraints (prog_' (formulated rs input st))) = 2"
    and "linear_constraints (prog_' (formulated rs input st)) ! 0 = linear_constraints (prog_' st) ! 0"
  using assms by (simp_all add: formulated_def Let_def)

lemma coeff_mul_neg: "coeff (mat_mul (mat_neg P) v) i j = - coeff (mat_mul P v) i j"
  by (simp add: mat_mul_def mat_neg_def sum_negf)

lemma formulated_bounds:
  assumes "i < length (actuators (rs_robot rs))"
  shows "coeff (inequality_lower_bound_' (formulated rs input st)) i 0 =
           effort_limit_min_' (actuators (rs_robot rs) ! i) -
           coeff (mat_mul (mat_transpose (bottomRows (num_torque_' st) (tree_B (rs_robot rs))))
                    (torque_constant_' (formulated rs input st))) i 0"
    and "coeff (inequality_upper_bound_' (formulated rs input st)) i 0 =
           effort_limit_max_' (actuators (rs_robot rs) ! i) -
           coeff (mat_mul (mat_transpose (bottomRows (num_torque_' st) (tree_B (rs_robot rs))))
                    (torque_constant_' (formulated rs input st))) i 0"
  using assms by (simp_all add: formulated_def Let_def coeff_add_limits coeff_mul_neg)

lemma formulated_torque_blocks:
  assumes "i < num_torque_' st"
  shows "j < num_vd_' st \<Longrightarrow>
           coeff (mat_block (torque_linear_' (formulated rs input st)) 0 0 (num_torque_' st) (num_vd_' st)) i j =
           coeff (bottomRows (num_torque_' st) (rs_M rs)) i j"
    and "j < num_basis_' st \<Longrightarrow>
           coeff (mat_block (torque_linear_' (formulated rs input st)) 0 (num_vd_' st) (num_torque_' st) (num_basis_' st)) i j =
           - coeff (bottomRows (num_torque_' st) (JB_' (formulated rs input st))) i j"
  using assms by (simp_all add: formulated_fields mat_block_def mat_set_block_def mat_neg_def)

lemma Control_invalid:
  "\<not> QPInput_is_valid input (number_of_velocities (rs_robot rs)) \<Longrightarrow>
   Control env rs input st output =
     Some \<lparr>ret = -1, cerr = [''input is invalid\<newline>''], ctrl = st, outp = output, solve_calls = 0\<rparr>"
  by (simp add: Control_def)

lemma Control_valid:
  assumes "QPInput_is_valid input (number_of_velocities (rs_robot rs))"
    and "ResizeQP (rs_robot rs) (contact_info input) (desired_body_accelerations input) st = Some st1"
    and "QP_inv st1"
    and "topology_unchanged (rs_robot rs) (contact_info input) (desired_body_accelerations input) st1"
  shows "Control env rs input st output =
    (let st3 = formulated rs input (SetTempMatricesToZero st1)
     in if \<not> solver_available env
        then Some \<lparr>ret = -1, cerr = [''Solver not available.\<newline>''], ctrl = st3, outp = output,
                   solve_calls = 0\<rparr>
        else (let (result, x) = solver_Solve env (prog_' st3);
                  st4 = st3\<lparr>prog_' := (prog_' st3)\<lparr>prog_solution := x\<rparr>\<rparr>
              in if result \<noteq> kSolutionFound
                 then Some \<lparr>ret = -1, cerr = [''solution not found\<newline>''], ctrl = st4, outp = output,
                            solve_calls = 1\<rparr>
                 else Control_decompose env rs input \<lparr>dv_index = 0, dv_size = num_vd_' st1\<rparr>
                        \<lparr>dv_index = num_vd_' st1, dv_size = num_basis_' st1\<rparr> st4 output))"
proof -
  let ?z = "SetTempMatricesToZero st1"
  have inv: "QP_inv ?z"
    and top: "topology_unchanged (rs_robot rs) (contact_info input) (desired_body_accelerations input) ?z"
    using assms(3,4) by (simp_all add: SetTempMatricesToZero_inv)
  have vd: "GetVariable (prog_' ?z) ''vd'' = Some \<lparr>dv_index = 0, dv_size = num_vd_' st1\<rparr>"
    and basis: "GetVariable (prog_' ?z) ''basis'' = Some \<lparr>dv_index = num_vd_' st1, dv_size = num_basis_' st1\<rparr>"
    using assms(3) by (simp_all add: QP_inv_def SetTempMatricesToZero_def)
  have nz: "num_vd_' ?z = num_vd_' st1" "num_basis_' ?z = num_basis_' st1"
    by (simp_all add: SetTempMatricesToZero_def)
  have form: "Control_formulate env rs input \<lparr>dv_index = 0, dv_size = num_vd_' st1\<rparr>
           \<lparr>dv_index = num_vd_' st1, dv_size = num_basis_' st1\<rparr> ?z = Some (formulated rs input ?z)"
    using Control_formulate_closed[OF inv top, of env] by (simp add: nz)
  show ?thesis
    using assms(1)
    by (simp add: Control_def assms(2) vd basis form Let_def split: prod.splits)
qed

subsection \<open>The result decomposition in closed form\<close>

lemma Control_add_wrench_total:
  "i < length (out_resolved_contacts out) \<Longrightarrow>
   Control_add_wrench env rs out i w = Some (add_wrench env rs out w i)"
  by (simp add: Control_add_wrench_def add_wrench_def Let_def)

lemma Control_add_wrench_loop:
  "n \<le> length (out_resolved_contacts out) \<Longrightarrow>
   foldM (Control_add_wrench env rs out) [0..<n] w = Some (foldl (add_wrench env rs out) w [0..<n])"
proof (induction n)
  case 0
  then show ?case by simp
next
  case (Suc n)
  then have IH: "foldM (Control_add_wrench env rs out) [0..<n] w = Some (foldl (add_wrench env rs out) w [0..<n])"
    and n: "n < length (out_resolved_contacts out)" by simp_all
  show ?case
    using n
    by (simp only: foldM_upt_Suc IH option.case Control_add_wrench_total) simp
qed

lemma Control_body_acceleration_loop:
  assumes "n \<le> length (desired_body_accelerations input)" "n \<le> length (body_J_' st)"
    "n \<le> length (body_Jdv_' st)"
  shows "foldM (Control_body_acceleration input st) [0..<n] out =
     Some (out\<lparr>out_body_accelerations := out_body_accelerations out @
                  map (body_acceleration_out input (body_J_' st) (body_Jdv_' st) (out_vd out)) [0..<n]\<rparr>)"
  using assms
proof (induction n)
  case 0
  then show ?case by simp
next
  case (Suc n)
  then have IH: "foldM (Control_body_acceleration input st) [0..<n] out =
     Some (out\<lparr>out_body_accelerations := out_body_accelerations out @
                  map (body_acceleration_out input (body_J_' st) (body_Jdv_' st) (out_vd out)) [0..<n]\<rparr>)"
    and n: "n < length (desired_body_accelerations input)" "n < length (body_J_' st)"
    "n < length (body_Jdv_' st)" by simp_all
  show ?case
    using n
    apply (simp only: foldM_upt_Suc IH option.case)
    apply (simp add: Control_body_acceleration_def body_acceleration_out_def)
    done
qed

lemma Control_resolve_contact_length:
  "foldl (Control_resolve_contact env rs bv pf) (out, a, b) cs = (out', a', b') \<Longrightarrow>
   length (out_resolved_contacts out') = length (out_resolved_contacts out) + length cs"
proof (induction cs arbitrary: out a b)
  case Nil
  then show ?case by simp
next
  case (Cons c cs)
  obtain o1 a1 b1 where s: "Control_resolve_contact env rs bv pf (out, a, b) c = (o1, a1, b1)"
    by (cases "Control_resolve_contact env rs bv pf (out, a, b) c") auto
  then have "length (out_resolved_contacts o1) = Suc (length (out_resolved_contacts out))"
    by (auto simp: Control_resolve_contact_def Let_def split: prod.splits)
  with Cons.IH[of o1 a1 b1] Cons.prems s show ?case by simp
qed

lemma Control_resolve_contact_length_fst:
  "length (out_resolved_contacts (fst (foldl (Control_resolve_contact env rs bv pf) (out, a, b) cs))) =
   length (out_resolved_contacts out) + length cs"
  using Control_resolve_contact_length[of env rs bv pf out a b cs]
  by (cases "foldl (Control_resolve_contact env rs bv pf) (out, a, b) cs") auto

lemma decomposed_contacts:
  "length (out_resolved_contacts (decomposed env rs input vd basis st out)) = length (contact_info input)"
  by (simp add: decomposed_def Let_def Control_resolve_contact_length_fst)

lemma Control_decompose_closed:
  assumes "length (body_J_' st) = length (desired_body_accelerations input)"
    and "length (body_Jdv_' st) = length (desired_body_accelerations input)"
    and "num_contact_body_' st = length (contact_info input)"
  shows "Control_decompose env rs input vd basis st out =
    (let out' = decomposed env rs input vd basis st out;
         st' = st\<lparr>point_forces_' := mat_mul (basis_to_force_matrix_' st) (dv_value (prog_' st) basis)\<rparr>
     in if kDrakeAssertIsArmed env \<and>
           \<not> (list_all (equality_satisfied env (prog_' st)) (linear_equality_constraints (prog_' st)) \<and>
              list_all (inequality_satisfied env (prog_' st)) (linear_constraints (prog_' st)) \<and>
              isZero (EPSILON env)
                (dbl_difference env (foldl (add_wrench env rs out')
                            (dbl_scaled env (getMass (rs_robot rs)) (a_grav (rs_robot rs)))
                            [0..<length (contact_info input)])
                   (dbl_sum env (dbl_product env (centroidal_momentum_matrix rs) (out_vd out'))
                      (centroidal_momentum_matrix_dot_times_v rs))))
        then None
        else if \<not> QPOutput_is_valid env out' (number_of_velocities (rs_robot rs))
                  (length (actuators (rs_robot rs)))
        then Some \<lparr>ret = -1, cerr = [''output is invalid\<newline>''], ctrl = st', outp = out', solve_calls = 1\<rparr>
        else Some \<lparr>ret = 0, cerr = [], ctrl = st', outp = out', solve_calls = 1\<rparr>)"
  using assms
  apply (simp add: Control_decompose_def Let_def split_beta Control_body_acceleration_loop DRAKE_ASSERT_def
     Control_add_wrench_loop Control_resolve_contact_length_fst)
  apply (simp add: decomposed_def Let_def split_beta)
  done

subsection \<open>The example cycle\<close>

lemma ex_changed:
  "\<not> topology_unchanged (rs_robot ex_rs) (contact_info ex_input) (desired_body_accelerations ex_input) ex_controller"
  by (simp add: topology_unchanged_def ex_input_def ex_controller_def)

lemma ex_valid: "QPInput_is_valid ex_input (number_of_velocities (rs_robot ex_rs))"
  by (simp add: QPInput_is_valid_def ex_rs_def ex_input_def ex_robot_def MatrixXd_Zero_def)

text \<open>The validation predicates on a solution that is zero everywhere.\<close>

lemma coeff_VariableList_zero:
  assumes "\<And>i j. coeff (prog_solution prog) i j = 0"
  shows "coeff (VariableListToVectorXd prog vars) i j = 0"
proof -
  have "(\<And>i j. coeff acc i j = 0) \<Longrightarrow>
        coeff (foldl (\<lambda>acc v. vconcat acc (dv_value prog v)) acc vars) i j = 0" for acc
  proof (induction vars arbitrary: acc)
    case Nil
    then show ?case by simp
  next
    case (Cons v vars)
    show ?case
      by (simp, rule Cons.IH) (simp add: vconcat_def dv_value_def segment_def mat_block_def assms Cons.prems)
  qed
  then show ?thesis
    by (simp add: VariableListToVectorXd_def VectorXd_Zero_def MatrixXd_Zero_def)
qed

lemma cols_VariableList: "cols (VariableListToVectorXd prog vars) = 1"
proof -
  have "cols acc = 1 \<Longrightarrow> cols (foldl (\<lambda>acc v. vconcat acc (dv_value prog v)) acc vars) = 1" for acc
    by (induction vars arbitrary: acc) (simp_all add: vconcat_def)
  then show ?thesis
    by (simp add: VariableListToVectorXd_def VectorXd_Zero_def MatrixXd_Zero_def)
qed

lemma equality_satisfied_zero:
  assumes "\<And>i j. coeff (prog_solution prog) i j = 0"
  shows "equality_satisfied (ex_env a res) prog eq_b =
     list_all (\<lambda>i. \<bar>coeff (lc_lower_bound (constraint eq_b)) i 0\<bar> \<le> 1 / 100000000)
       [0..<rows (lc_A (constraint eq_b))]"
  by (simp add: equality_satisfied_def Let_def isZero_def mat_sub_def mat_mul_def ex_env_def
      coeff_VariableList_zero[OF assms] cols_VariableList)

lemma inequality_satisfied_zero:
  assumes "\<And>i j. coeff (prog_solution prog) i j = 0"
  shows "inequality_satisfied (ex_env a res) prog b =
     list_all (\<lambda>i. coeff (lc_lower_bound (constraint b)) i 0 - 1 / 100000000 \<le> 0 \<and>
                    0 \<le> coeff (lc_upper_bound (constraint b)) i 0 + 1 / 100000000)
       [0..<rows (lc_A (constraint b))]"
  by (simp add: inequality_satisfied_def Let_def mat_mul_def ex_env_def coeff_VariableList_zero[OF assms])

lemmas ex_defs = ex_rs_def ex_input_def ex_controller_def ex_robot_def ex_cache_def ex_output_def

lemmas mat_defs = MatrixXd_Zero_def VectorXd_Zero_def MatrixXd_Identity_def VectorXd_Constant_def
  MatrixXd_uninit_def mat_resize_def setZero_def mat_block_def mat_set_block_def topRows_def bottomRows_def
  vec_head_def vec_tail_def segment_def set_segment_def mat_transpose_def mat_mul_def mat_add_def mat_sub_def
  mat_neg_def mat_scale_def vec_add_at_def

lemma ex_resize:
  "ResizeQP (rs_robot ex_rs) (contact_info ex_input) (desired_body_accelerations ex_input) ex_controller = Some ex_st1"
  "QP_inv ex_st1"
  "topology_unchanged (rs_robot ex_rs) (contact_info ex_input) (desired_body_accelerations ex_input) ex_st1"
  using ResizeQP_establishes[OF disjI2[OF ex_changed]] by (auto simp: ex_st1_def)

lemma ex_st1_fields:
  "prog_' ex_st1 = declared_program [ex_foot] [ex_pelvis] 7 4 1 11"
  "num_vd_' ex_st1 = 7" "num_basis_' ex_st1 = 4" "num_torque_' ex_st1 = 1"
  "num_body_acceleration_' ex_st1 = 1" "num_contact_body_' ex_st1 = 1"
  "dynamics_linear_' ex_st1 = MatrixXd_uninit 6 11"
  "torque_linear_' ex_st1 = MatrixXd_uninit 1 11"
  "stacked_contact_jacobians_dot_times_v_' ex_st1 = MatrixXd_uninit 3 1"
  "stacked_contact_jacobians_' ex_st1 = MatrixXd_uninit 3 7"
  "basis_to_force_matrix_' ex_st1 = MatrixXd_uninit 3 4"
  unfolding ex_st1_def ResizeQP_changed[OF ex_changed] ResizeQP_rebuild_result
  by (simp_all add: ex_defs ex_foot_def)

lemma ex_zero: "coeff (prog_solution (prog_' ex_st4)) i j = 0"
  by (simp add: ex_st4_def Let_def VectorXd_Zero_def MatrixXd_Zero_def)

lemma ex_eqs:
  "list_all (equality_satisfied (ex_env a res) (prog_' ex_st4)) (linear_equality_constraints (prog_' ex_st4))"
proof -
  have "linear_equality_constraints (prog_' ex_st4) =
        [\<lparr>constraint = \<lparr>lc_A = dynamics_linear_' ex_st4, lc_lower_bound = dynamics_constant_' ex_st4,
                        lc_upper_bound = dynamics_constant_' ex_st4, lc_description = ''dynamics eq''\<rparr>,
          variable_list = [\<lparr>dv_index = 0, dv_size = 7\<rparr>, \<lparr>dv_index = 7, dv_size = 4\<rparr>]\<rparr>,
         \<lparr>constraint = \<lparr>lc_A = mat_block (stacked_contact_jacobians_' ex_st4) 0 0 3 7,
                        lc_lower_bound = mat_neg (segment (stacked_contact_jacobians_dot_times_v_' ex_st4) 0 3),
                        lc_upper_bound = mat_neg (segment (stacked_contact_jacobians_dot_times_v_' ex_st4) 0 3),
                        lc_description = ''foot contact eq''\<rparr>,
          variable_list = [\<lparr>dv_index = 0, dv_size = 7\<rparr>]\<rparr>]"
    by (simp add: ex_st4_def formulated_def Let_def SetTempMatricesToZero_def ex_st1_fields
        declared_program_def ex_input_def UpdateEquality_def contact_eq_decl_def ex_foot_def)
  moreover have "rows (dynamics_linear_' ex_st4) = 6"
    by (simp add: ex_st4_def formulated_def Let_def SetTempMatricesToZero_def ex_st1_fields
        mat_set_block_def setZero_def MatrixXd_uninit_def)
  moreover have "coeff (dynamics_constant_' ex_st4) i 0 = 0" for i
    by (simp add: ex_st4_def formulated_def Let_def ex_rs_def mat_defs)
  moreover have "coeff (stacked_contact_jacobians_dot_times_v_' ex_st4) i 0 = 0" for i
    by (simp add: ex_st4_def formulated_def Let_def SetTempMatricesToZero_def ex_st1_fields
        ex_input_def ex_rs_def ex_cache_def ex_foot_def mat_defs)
  ultimately show ?thesis
    by (simp add: equality_satisfied_zero[OF ex_zero] list_all_iff mat_block_def mat_neg_def segment_def)
qed

lemma ex_ineqs:
  "list_all (inequality_satisfied (ex_env a res) (prog_' ex_st4)) (linear_constraints (prog_' ex_st4))"
proof -
  have l: "linear_constraints (prog_' ex_st4) =
        [\<lparr>constraint = \<lparr>lc_A = MatrixXd_Identity 4 4, lc_lower_bound = VectorXd_Zero 4,
                       lc_upper_bound = VectorXd_Constant 4 1000,
                       lc_description = ''contact force basis ineq''\<rparr>,
          variable_list = [\<lparr>dv_index = 7, dv_size = 4\<rparr>]\<rparr>,
         \<lparr>constraint = \<lparr>lc_A = inequality_linear_' ex_st4, lc_lower_bound = inequality_lower_bound_' ex_st4,
                        lc_upper_bound = inequality_upper_bound_' ex_st4, lc_description = ''torque limit ineq''\<rparr>,
          variable_list = [\<lparr>dv_index = 0, dv_size = 7\<rparr>, \<lparr>dv_index = 7, dv_size = 4\<rparr>]\<rparr>]"
    by (simp add: ex_st4_def formulated_def Let_def SetTempMatricesToZero_def ex_st1_fields
        declared_program_def ex_input_def UpdateLinear_def)
  have r: "rows (inequality_linear_' ex_st4) = 1"
    by (simp add: ex_st4_def formulated_def Let_def SetTempMatricesToZero_def ex_st1_fields
        ex_rs_def ex_robot_def mat_mul_def mat_transpose_def bottomRows_def mat_block_def)
  have b: "coeff (inequality_lower_bound_' ex_st4) 0 0 = -10" "coeff (inequality_upper_bound_' ex_st4) 0 0 = 10"
    by (simp_all add: ex_st4_def formulated_def Let_def SetTempMatricesToZero_def ex_st1_fields
        ex_rs_def ex_robot_def coeff_add_limits coeff_mul_neg mat_mul_def vec_tail_def mat_block_def
        MatrixXd_Zero_def vec_add_at_def)
  show ?thesis
    by (simp add: l inequality_satisfied_zero[OF ex_zero] r b MatrixXd_Identity_def VectorXd_Zero_def
        MatrixXd_Zero_def VectorXd_Constant_def list_all_iff)
qed

lemma store_solution_inv:
  "QP_inv (st\<lparr>prog_' := (prog_' st)\<lparr>prog_solution := x\<rparr>\<rparr>) = QP_inv st"
  "topology_unchanged tree supports accs (st\<lparr>prog_' := (prog_' st)\<lparr>prog_solution := x\<rparr>\<rparr>) =
   topology_unchanged tree supports accs st"
  by (simp_all add: QP_inv_def GetVariable_def topology_unchanged_def)

lemma ex_st4_lens:
  "length (body_J_' ex_st4) = length (desired_body_accelerations ex_input)"
  "length (body_Jdv_' ex_st4) = length (desired_body_accelerations ex_input)"
  "num_contact_body_' ex_st4 = length (contact_info ex_input)"
proof -
  have "QP_inv ex_st4"
    unfolding ex_st4_def Let_def store_solution_inv
    by (rule formulated_inv) (simp add: SetTempMatricesToZero_inv ex_resize)
  moreover have "topology_unchanged (rs_robot ex_rs) (contact_info ex_input) (desired_body_accelerations ex_input) ex_st4"
    unfolding ex_st4_def Let_def store_solution_inv formulated_topology SetTempMatricesToZero_inv
    by (rule ex_resize)
  ultimately show "length (body_J_' ex_st4) = length (desired_body_accelerations ex_input)"
    "length (body_Jdv_' ex_st4) = length (desired_body_accelerations ex_input)"
    "num_contact_body_' ex_st4 = length (contact_info ex_input)"
    by (simp_all add: QP_inv_def topology_unchanged_def)
qed

lemma ex_point_forces: "coeff (mat_mul m (dv_value (prog_' ex_st4) v)) i j = 0"
  by (simp add: mat_mul_def dv_value_def segment_def mat_block_def ex_zero)

lemma Control_copy_point_force_frame:
  "equivalent_wrench (fst (foldl (Control_copy_point_force pf) (rc, k) js)) = equivalent_wrench rc \<and>
   rc_reference_point (fst (foldl (Control_copy_point_force pf) (rc, k) js)) = rc_reference_point rc"
  by (induction js arbitrary: rc k) (simp_all add: Control_copy_point_force_def)

lemma ex_resolved:
  "\<exists>rc. out_resolved_contacts (decomposed env ex_rs ex_input vd basis ex_st4 out) = [rc] \<and>
        (\<forall>i j. coeff (equivalent_wrench rc) i j = 0) \<and> rc_reference_point rc = MatrixXd_Zero 3 1"
  by (simp add: decomposed_def Let_def ex_input_def Control_resolve_contact_def split_beta
      ex_rs_def ex_cache_def mat_mul_def segment_def mat_block_def dv_value_def ex_zero
      Control_copy_point_force_frame)

lemma ex_wrench:
  "isZero (1 / 100000000)
     (mat_sub (foldl (add_wrench (ex_env a res) ex_rs (decomposed env ex_rs ex_input vd basis ex_st4 out))
                 (mat_scale (getMass (rs_robot ex_rs)) (a_grav (rs_robot ex_rs)))
                 [0..<length (contact_info ex_input)])
        (mat_add (mat_mul (centroidal_momentum_matrix ex_rs)
                    (dv_value (prog_' ex_st4) v))
           (centroidal_momentum_matrix_dot_times_v ex_rs)))"
proof -
  from ex_resolved[of env vd basis out] obtain rc where
    rc: "out_resolved_contacts (decomposed env ex_rs ex_input vd basis ex_st4 out) = [rc]"
      "\<And>i j. coeff (equivalent_wrench rc) i j = 0" "rc_reference_point rc = MatrixXd_Zero 3 1"
    by blast
  have n: "length (contact_info ex_input) = Suc 0" by (simp add: ex_input_def)
  have d: "com ex_rs = MatrixXd_Zero 3 1" "getMass (rs_robot ex_rs) = 1"
    "a_grav (rs_robot ex_rs) = MatrixXd_Zero 6 1"
    "centroidal_momentum_matrix ex_rs = MatrixXd_Identity 6 7"
    "centroidal_momentum_matrix_dot_times_v ex_rs = MatrixXd_Zero 6 1"
    by (simp_all add: ex_rs_def ex_robot_def)
  show ?thesis
    unfolding n
    by (simp add: add_wrench_def Let_def rc d isZero_def list_all_iff mat_defs cross_def
        dv_value_def ex_zero ex_env_def)
qed

lemma ex_out_vd:
  "out_vd (decomposed env rs input vd basis st out) = dv_value (prog_' st) vd"
  by (simp add: decomposed_def Let_def)

lemma ex_out_valid:
  "rows (out_vd (decomposed env ex_rs ex_input \<lparr>dv_index = 0, dv_size = 7\<rparr> basis ex_st4 out)) = 7"
  "rows (out_joint_torque (decomposed env ex_rs ex_input vd basis ex_st4 out)) = 1"
  by (simp_all add: decomposed_def Let_def dv_value_def segment_def mat_block_def mat_add_def mat_mul_def
      ex_st4_def formulated_def SetTempMatricesToZero_def ex_st1_fields mat_set_block_def setZero_def
      MatrixXd_uninit_def)

lemma rows_dv_value: "rows (dv_value prog v) = dv_size v"
  by (simp add: dv_value_def segment_def mat_block_def)

lemma ex_run_success:
  "\<exists>r. Control (ex_env True kSolutionFound) ex_rs ex_input ex_controller ex_output = Some r \<and> ret r = 0"
proof -
  note c = Control_valid[OF ex_valid ex_resize, of "ex_env True kSolutionFound" ex_output]
  have e: "kDrakeAssertIsArmed (ex_env True kSolutionFound)" "EPSILON (ex_env True kSolutionFound) = 1 / 100000000"
    "solver_available (ex_env True kSolutionFound)"
    "solver_Solve (ex_env True kSolutionFound) = (\<lambda>prog. (kSolutionFound, VectorXd_Zero (num_vars prog)))"
    "QPOutput_is_valid (ex_env True kSolutionFound) = (\<lambda>out nv nt. rows (out_vd out) = nv \<and> rows (out_joint_torque out) = nt)"
    "dbl_product (ex_env True kSolutionFound) = mat_mul" "dbl_sum (ex_env True kSolutionFound) = mat_add"
    "dbl_difference (ex_env True kSolutionFound) = mat_sub" "dbl_scaled (ex_env True kSolutionFound) = mat_scale"
    by (simp_all add: ex_env_def)
  have n: "number_of_velocities (rs_robot ex_rs) = 7" "length (actuators (rs_robot ex_rs)) = 1"
    by (simp_all add: ex_rs_def ex_robot_def)
  show ?thesis
    unfolding c
    apply (simp add: Let_def e ex_st4_def[symmetric, unfolded Let_def] ex_st1_fields)
    apply (simp add: Control_decompose_closed[OF ex_st4_lens] Let_def e ex_eqs ex_ineqs ex_out_vd ex_wrench
        ex_out_valid n rows_dv_value)
    done
qed

subsection \<open>The order of the declarations\<close>

lemma map_upt_eqI:
  assumes "\<And>i. i < length xs \<Longrightarrow> f i = g (xs ! i)"
  shows "map f [0..<length xs] = map g xs"
  by (rule nth_equalityI) (simp_all add: assms)

lemma declared_program_lists:
  "insertion_order (declared_program supports accs nv nb nt nvar) =
     LinearEqualityDecl 0 # map (\<lambda>i. LinearEqualityDecl (Suc i)) [0..<length supports] @
     [LinearDecl 0, LinearDecl 1, QuadraticCostDecl 0] @
     map (\<lambda>i. QuadraticCostDecl (Suc i)) [0..<length accs] @
     [QuadraticCostDecl (Suc (length accs)), QuadraticCostDecl (Suc (Suc (length accs)))]"
  by (simp add: declared_program_def Let_def)

lemma declared_program_description:
  "decl_description (declared_program supports accs nv nb nt nvar) (LinearEqualityDecl 0) = ''dynamics eq''"
  "i < length supports \<Longrightarrow>
     decl_description (declared_program supports accs nv nb nt nvar) (LinearEqualityDecl (Suc i)) =
       ci_name (supports ! i) @ '' contact eq''"
  "decl_description (declared_program supports accs nv nb nt nvar) (LinearDecl 0) = ''contact force basis ineq''"
  "decl_description (declared_program supports accs nv nb nt nvar) (LinearDecl (Suc 0)) = ''torque limit ineq''"
  "decl_description (declared_program supports accs nv nb nt nvar) (QuadraticCostDecl 0) = ''com cost''"
  "j < length accs \<Longrightarrow>
     decl_description (declared_program supports accs nv nb nt nvar) (QuadraticCostDecl (Suc j)) =
       dba_name (accs ! j) @ '' cost''"
  "decl_description (declared_program supports accs nv nb nt nvar) (QuadraticCostDecl (Suc (length accs))) =
     ''vd reg cost''"
  "decl_description (declared_program supports accs nv nb nt nvar) (QuadraticCostDecl (Suc (Suc (length accs)))) =
     ''basis reg cost''"
  by (simp_all add: declared_program_def Let_def decl_description_def nth_append contact_eq_decl_def
      body_cost_decl_def)

lemma declared_program_descriptions:
  "map (decl_description (declared_program supports accs nv nb nt nvar))
     (insertion_order (declared_program supports accs nv nb nt nvar)) =
   ''dynamics eq'' # map (\<lambda>s. ci_name s @ '' contact eq'') supports @
   [''contact force basis ineq'', ''torque limit ineq'', ''com cost''] @
   map (\<lambda>a. dba_name a @ '' cost'') accs @ [''vd reg cost'', ''basis reg cost'']"
proof -
  let ?P = "declared_program supports accs nv nb nt nvar"
  have a: "map (\<lambda>i. decl_description ?P (LinearEqualityDecl (Suc i))) [0..<length supports] =
           map (\<lambda>s. ci_name s @ '' contact eq'') supports"
    by (rule map_upt_eqI) (rule declared_program_description)
  have b: "map (\<lambda>i. decl_description ?P (QuadraticCostDecl (Suc i))) [0..<length accs] =
           map (\<lambda>a. dba_name a @ '' cost'') accs"
    by (rule map_upt_eqI) (rule declared_program_description)
  show ?thesis
    unfolding declared_program_lists
    by (simp only: list.map map_append map_map o_def a b declared_program_description One_nat_def)
qed

lemma ResizeQP_changed_result:
  assumes "\<not> topology_unchanged tree supports accs st"
  shows "\<exists>st'. ResizeQP tree supports accs st = Some st' \<and>
     prog_' st' = declared_program supports accs (number_of_velocities tree)
        (sum_list (map ci_num_basis supports)) (length (actuators tree))
        (number_of_velocities tree + sum_list (map ci_num_basis supports)) \<and>
     eq_dynamics_' st' = Some 0 \<and>
     eq_contacts_' st' = map (\<lambda>i. Some (Suc i)) [0..<length supports] \<and>
     ineq_contact_wrench_' st' = Some 0 \<and> ineq_torque_limit_' st' = Some 1 \<and>
     cost_comdd_' st' = Some 0 \<and>
     cost_body_accelerations_' st' = map (\<lambda>i. Some (Suc i)) [0..<length accs] \<and>
     cost_vd_reg_' st' = Some (Suc (length accs)) \<and>
     cost_basis_reg_' st' = Some (Suc (Suc (length accs))) \<and>
     topology_unchanged tree supports accs st'"
  unfolding ResizeQP_changed[OF assms] ResizeQP_rebuild_result
  by (simp add: topology_unchanged_def)

subsection \<open>The coefficients after the formulation\<close>

lemma nth_update_contact_eqs:
  "Suc k < length eqs \<Longrightarrow>
   update_contact_eqs cs J Jdv num_vd eqs n ! Suc k =
     (if k < n
      then (eqs ! Suc k)\<lparr>constraint :=
             UpdateEquality (mat_block J (row_offset cs k) 0 (3 * length (contact_points (cs ! k))) num_vd)
               (mat_neg (segment Jdv (row_offset cs k) (3 * length (contact_points (cs ! k)))))
               (constraint (eqs ! Suc k))\<rparr>
      else eqs ! Suc k)"
  by (induction n) (auto simp: Let_def nth_list_update less_Suc_eq)

lemma nth_update_contact_eqs_0:
  "update_contact_eqs cs J Jdv num_vd eqs n ! 0 = eqs ! 0"
  by (induction n) (simp_all add: Let_def)

lemma nth_update_body_costs:
  "Suc k < length costs \<Longrightarrow>
   update_body_costs kc accs costs n ! Suc k =
     (if k < n
      then (costs ! Suc k)\<lparr>constraint :=
             UpdateQuadratic
               (mat_mul (mat_scale (dba_weight (accs ! k))
                           (mat_transpose (GetTaskSpaceJacobian kc (dba_body (accs ! k)) (VectorXd_Zero 3))))
                  (GetTaskSpaceJacobian kc (dba_body (accs ! k)) (VectorXd_Zero 3)))
               (mat_mul (mat_scale (dba_weight (accs ! k))
                           (mat_transpose (GetTaskSpaceJacobian kc (dba_body (accs ! k)) (VectorXd_Zero 3))))
                  (mat_sub (GetTaskSpaceJacobianDotTimesV kc (dba_body (accs ! k)) (VectorXd_Zero 3))
                     (dba_acceleration (accs ! k))))
               (constraint (costs ! Suc k))\<rparr>
      else costs ! Suc k)"
  by (induction n) (auto simp: Let_def nth_list_update less_Suc_eq)

lemma nth_update_body_costs_0:
  "update_body_costs kc accs costs n ! 0 = costs ! 0"
  by (induction n) (simp_all add: Let_def)

lemma nth_update_body_J:
  "k < length Js \<Longrightarrow>
   update_body_J kc accs Js n ! k =
     (if k < n then GetTaskSpaceJacobian kc (dba_body (accs ! k)) (VectorXd_Zero 3) else Js ! k)"
  by (induction n) (auto simp: nth_list_update less_Suc_eq)

lemma nth_update_body_Jdv:
  "k < length Js \<Longrightarrow>
   update_body_Jdv kc accs Js n ! k =
     (if k < n then GetTaskSpaceJacobianDotTimesV kc (dba_body (accs ! k)) (VectorXd_Zero 3) else Js ! k)"
  by (induction n) (auto simp: nth_list_update less_Suc_eq)

lemma formulated_dynamics_eq:
  assumes "0 < length (linear_equality_constraints (prog_' st))"
  shows "constraint (linear_equality_constraints (prog_' (formulated rs input st)) ! 0) =
     UpdateEquality (dynamics_linear_' (formulated rs input st)) (dynamics_constant_' (formulated rs input st))
       (constraint (linear_equality_constraints (prog_' st) ! 0))"
  using assms by (simp add: formulated_def Let_def nth_update_contact_eqs_0)

lemma formulated_contact_eq:
  assumes "Suc k < length (linear_equality_constraints (prog_' st))" "k < length (contact_info input)"
  shows "constraint (linear_equality_constraints (prog_' (formulated rs input st)) ! Suc k) =
     UpdateEquality
       (mat_block (stacked_contact_jacobians_' (formulated rs input st))
          (row_offset (contact_info input) k) 0
          (3 * length (contact_points (contact_info input ! k))) (num_vd_' st))
       (mat_neg (segment (stacked_contact_jacobians_dot_times_v_' (formulated rs input st))
          (row_offset (contact_info input) k) (3 * length (contact_points (contact_info input ! k)))))
       (constraint (linear_equality_constraints (prog_' st) ! Suc k))"
  using assms by (simp add: formulated_def Let_def nth_update_contact_eqs)

lemma formulated_com_cost:
  assumes "length (quadratic_costs (prog_' st)) = num_body_acceleration_' st + 3"
  shows "constraint (quadratic_costs (prog_' (formulated rs input st)) ! 0) =
     UpdateQuadratic
       (mat_mul (mat_scale (w_com input) (mat_transpose (J_com rs))) (J_com rs))
       (mat_mul (mat_scale (w_com input) (mat_transpose (J_com rs)))
          (mat_sub (Jdot_times_v_com rs) (desired_comdd input)))
       (constraint (quadratic_costs (prog_' st) ! 0))"
  using assms by (simp add: formulated_def Let_def nth_update_body_costs_0)

lemma formulated_body_cost:
  assumes "length (quadratic_costs (prog_' st)) = num_body_acceleration_' st + 3"
    and "num_body_acceleration_' st = length (desired_body_accelerations input)"
    and "k < length (desired_body_accelerations input)"
  shows "constraint (quadratic_costs (prog_' (formulated rs input st)) ! Suc k) =
     (let a = desired_body_accelerations input ! k;
          J = GetTaskSpaceJacobian (cache rs) (dba_body a) (VectorXd_Zero 3);
          Jdv = GetTaskSpaceJacobianDotTimesV (cache rs) (dba_body a) (VectorXd_Zero 3)
      in UpdateQuadratic (mat_mul (mat_scale (dba_weight a) (mat_transpose J)) J)
           (mat_mul (mat_scale (dba_weight a) (mat_transpose J)) (mat_sub Jdv (dba_acceleration a)))
           (constraint (quadratic_costs (prog_' st) ! Suc k)))"
  using assms by (simp add: formulated_def Let_def nth_update_body_costs)

lemma formulated_reg_costs:
  assumes "length (quadratic_costs (prog_' st)) = num_body_acceleration_' st + 3"
    and "num_body_acceleration_' st = length (desired_body_accelerations input)"
  shows "constraint (quadratic_costs (prog_' (formulated rs input st)) ! Suc (num_body_acceleration_' st)) =
     UpdateQuadratic (mat_scale (w_vd input) (MatrixXd_Identity (num_vd_' st) (num_vd_' st)))
       (mat_scale (w_vd input) (mat_neg (desired_vd input)))
       (constraint (quadratic_costs (prog_' st) ! Suc (num_body_acceleration_' st)))"
    and "constraint (quadratic_costs (prog_' (formulated rs input st)) ! Suc (Suc (num_body_acceleration_' st))) =
     UpdateQuadratic (mat_scale (w_basis_reg input) (MatrixXd_Identity (num_basis_' st) (num_basis_' st)))
       (VectorXd_Zero (num_basis_' st))
       (constraint (quadratic_costs (prog_' st) ! Suc (Suc (num_body_acceleration_' st))))"
  using assms by (simp_all add: formulated_def Let_def nth_update_body_costs)

lemma formulated_body_J:
  assumes "length (body_J_' st) = length (desired_body_accelerations input)"
    and "length (body_Jdv_' st) = length (desired_body_accelerations input)"
    and "k < length (desired_body_accelerations input)"
  shows "body_J_' (formulated rs input st) ! k =
           GetTaskSpaceJacobian (cache rs) (dba_body (desired_body_accelerations input ! k)) (VectorXd_Zero 3)"
    and "body_Jdv_' (formulated rs input st) ! k =
           GetTaskSpaceJacobianDotTimesV (cache rs) (dba_body (desired_body_accelerations input ! k)) (VectorXd_Zero 3)"
  using assms by (simp_all add: formulated_def Let_def nth_update_body_J nth_update_body_Jdv)

text \<open>
  Whatever \<^verbatim>\<open>Control\<close> returns for a valid input, its controller is the formulated one,
  up to the values the solver stored and the point forces.
\<close>

lemma Control_ctrl:
  assumes "QPInput_is_valid input (number_of_velocities (rs_robot rs))"
    and "QP_inv st \<or> \<not> topology_unchanged (rs_robot rs) (contact_info input) (desired_body_accelerations input) st"
    and "Control env rs input st output = Some r"
  shows "\<exists>st1 x pf.
     ResizeQP (rs_robot rs) (contact_info input) (desired_body_accelerations input) st = Some st1 \<and>
     QP_inv st1 \<and>
     topology_unchanged (rs_robot rs) (contact_info input) (desired_body_accelerations input) st1 \<and>
     ctrl r = (formulated rs input (SetTempMatricesToZero st1))
                \<lparr>prog_' := (prog_' (formulated rs input (SetTempMatricesToZero st1)))\<lparr>prog_solution := x\<rparr>,
                 point_forces_' := pf\<rparr>"
proof -
  from ResizeQP_establishes[OF assms(2)] obtain st1 where
    s: "ResizeQP (rs_robot rs) (contact_info input) (desired_body_accelerations input) st = Some st1"
       "QP_inv st1"
       "topology_unchanged (rs_robot rs) (contact_info input) (desired_body_accelerations input) st1"
    by blast
  let ?st3 = "formulated rs input (SetTempMatricesToZero st1)"
  have id: "?st3 = ?st3\<lparr>prog_' := (prog_' ?st3)\<lparr>prog_solution := prog_solution (prog_' ?st3)\<rparr>,
                        point_forces_' := point_forces_' ?st3\<rparr>"
    by simp
  note c = Control_valid[OF assms(1) s, of env "output"]
  have "\<exists>x pf. ctrl r = ?st3\<lparr>prog_' := (prog_' ?st3)\<lparr>prog_solution := x\<rparr>, point_forces_' := pf\<rparr>"
  proof (cases "solver_available env")
    case False
    with c assms(3) have "ctrl r = ?st3" by (auto simp: Let_def)
    with id show ?thesis by metis
  next
    case True
    obtain res x where sol: "solver_Solve env (prog_' ?st3) = (res, x)" by (cases "solver_Solve env (prog_' ?st3)")
    show ?thesis
    proof (cases "res = kSolutionFound")
      case False
      with c assms(3) True sol
      have "ctrl r = ?st3\<lparr>prog_' := (prog_' ?st3)\<lparr>prog_solution := x\<rparr>\<rparr>" by (auto simp: Let_def)
      then have "ctrl r = ?st3\<lparr>prog_' := (prog_' ?st3)\<lparr>prog_solution := x\<rparr>, point_forces_' := point_forces_' ?st3\<rparr>"
        by simp
      then show ?thesis by blast
    next
      case found: True
      with c assms(3) True sol
      have d: "Control_decompose env rs input \<lparr>dv_index = 0, dv_size = num_vd_' st1\<rparr>
                 \<lparr>dv_index = num_vd_' st1, dv_size = num_basis_' st1\<rparr>
                 (?st3\<lparr>prog_' := (prog_' ?st3)\<lparr>prog_solution := x\<rparr>\<rparr>) output = Some r"
        by (simp add: Let_def)
      from Control_decompose_result(1)[OF d] show ?thesis by auto
    qed
  qed
  with s show ?thesis by blast
qed

lemma row_offset_mono:
  "k < n \<Longrightarrow> n \<le> length cs \<Longrightarrow>
   row_offset cs k + 3 * length (contact_points (cs ! k)) \<le> row_offset cs n"
proof (induction n)
  case 0
  then show ?case by simp
next
  case (Suc n)
  then have n: "n < length cs" by simp
  show ?case
  proof (cases "k = n")
    case True
    then show ?thesis by (simp add: row_offset_Suc[OF n])
  next
    case False
    with Suc have "row_offset cs k + 3 * length (contact_points (cs ! k)) \<le> row_offset cs n" by simp
    then show ?thesis by (simp add: row_offset_Suc[OF n])
  qed
qed

lemma col_offset_mono:
  "k < n \<Longrightarrow> n \<le> length cs \<Longrightarrow> col_offset cs k + ci_num_basis (cs ! k) \<le> col_offset cs n"
proof (induction n)
  case 0
  then show ?case by simp
next
  case (Suc n)
  then have n: "n < length cs" by simp
  show ?case
  proof (cases "k = n")
    case True
    then show ?thesis by (simp add: col_offset_Suc[OF n])
  next
    case False
    with Suc have "col_offset cs k + ci_num_basis (cs ! k) \<le> col_offset cs n" by simp
    then show ?thesis by (simp add: col_offset_Suc[OF n])
  qed
qed

lemma coeff_stack_jacobians:
  assumes "k < n" "n \<le> length cs" "i < 3 * length (contact_points (cs ! k))" "j < num_vd"
  shows "coeff (stack_jacobians kc cs num_vd m n) (row_offset cs k + i) j =
         coeff (ComputeJacobianAtContactPoints kc (cs ! k)) i j"
  using assms
proof (induction n)
  case 0
  then show ?case by simp
next
  case (Suc n)
  show ?case
  proof (cases "k = n")
    case True
    with Suc.prems show ?thesis by (simp add: mat_set_block_def)
  next
    case False
    with Suc.prems have kn: "k < n" "n \<le> length cs" by simp_all
    from row_offset_mono[OF kn] Suc.prems(3)
    have "row_offset cs k + i < row_offset cs n" by simp
    with Suc.IH[OF kn Suc.prems(3,4)] show ?thesis by (simp add: mat_set_block_def)
  qed
qed

lemma coeff_stack_jdv:
  assumes "k < n" "n \<le> length cs" "i < 3 * length (contact_points (cs ! k))"
  shows "coeff (stack_jdv kc cs m n) (row_offset cs k + i) 0 =
         coeff (ComputeJacobianDotTimesVAtContactPoints kc (cs ! k)) i 0"
  using assms
proof (induction n)
  case 0
  then show ?case by simp
next
  case (Suc n)
  show ?case
  proof (cases "k = n")
    case True
    with Suc.prems show ?thesis by (simp add: set_segment_def mat_set_block_def)
  next
    case False
    with Suc.prems have kn: "k < n" "n \<le> length cs" by simp_all
    from row_offset_mono[OF kn] Suc.prems(3)
    have "row_offset cs k + i < row_offset cs n" by simp
    with Suc.IH[OF kn Suc.prems(3)] show ?thesis by (simp add: set_segment_def mat_set_block_def)
  qed
qed

lemma coeff_stack_basis:
  assumes "k < n" "n \<le> length cs" "i < 3 * length (contact_points (cs ! k))" "j < ci_num_basis (cs ! k)"
  shows "coeff (stack_basis kc cs m n) (row_offset cs k + i) (col_offset cs k + j) =
         coeff (ComputeBasisMatrix kc (cs ! k)) i j"
  using assms
proof (induction n)
  case 0
  then show ?case by simp
next
  case (Suc n)
  show ?case
  proof (cases "k = n")
    case True
    with Suc.prems show ?thesis by (simp add: mat_set_block_def)
  next
    case False
    with Suc.prems have kn: "k < n" "n \<le> length cs" by simp_all
    from row_offset_mono[OF kn] Suc.prems(3)
    have "row_offset cs k + i < row_offset cs n" by simp
    with Suc.IH[OF kn Suc.prems(3,4)] show ?thesis by (simp add: mat_set_block_def)
  qed
qed

lemma formulated_stacked:
  "stacked_contact_jacobians_' (formulated rs input st) =
     stack_jacobians (cache rs) (contact_info input) (num_vd_' st) (stacked_contact_jacobians_' st)
       (length (contact_info input))"
  "basis_to_force_matrix_' (formulated rs input st) =
     stack_basis (cache rs) (contact_info input) (basis_to_force_matrix_' st) (length (contact_info input))"
  "stacked_contact_jacobians_dot_times_v_' (formulated rs input st) =
     stack_jdv (cache rs) (contact_info input) (stacked_contact_jacobians_dot_times_v_' st)
       (length (contact_info input))"
  by (simp_all add: formulated_def Let_def)

lemma formulated_lengths:
  "length (linear_equality_constraints (prog_' (formulated rs input st))) =
     length (linear_equality_constraints (prog_' st))"
  "length (linear_constraints (prog_' (formulated rs input st))) = length (linear_constraints (prog_' st))"
  "length (quadratic_costs (prog_' (formulated rs input st))) = length (quadratic_costs (prog_' st))"
  "length (body_J_' (formulated rs input st)) = length (body_J_' st)"
  "length (body_Jdv_' (formulated rs input st)) = length (body_Jdv_' st)"
  by (simp_all add: formulated_def Let_def)

lemma formulated_dynamics_blocks:
  assumes "i < 6"
  shows "j < num_vd_' st \<Longrightarrow>
           coeff (dynamics_linear_' (formulated rs input st)) i j = coeff (topRows 6 (rs_M rs)) i j"
    and "j < num_basis_' st \<Longrightarrow>
           coeff (dynamics_linear_' (formulated rs input st)) i (num_vd_' st + j) =
           - coeff (topRows 6 (JB_' (formulated rs input st))) i j"
  using assms by (simp_all add: formulated_fields mat_set_block_def mat_neg_def)

lemma formulated_torque_coeffs:
  assumes "i < num_torque_' st"
  shows "j < num_vd_' st \<Longrightarrow>
           coeff (torque_linear_' (formulated rs input st)) i j = coeff (bottomRows (num_torque_' st) (rs_M rs)) i j"
    and "j < num_basis_' st \<Longrightarrow>
           coeff (torque_linear_' (formulated rs input st)) i (num_vd_' st + j) =
           - coeff (bottomRows (num_torque_' st) (JB_' (formulated rs input st))) i j"
  using assms by (simp_all add: formulated_fields mat_set_block_def mat_neg_def)

lemma formulated_current:
  assumes inv: "QP_inv st"
    and top: "topology_unchanged (rs_robot rs) (contact_info input) (desired_body_accelerations input) st"
  shows "formulation_current rs input (formulated rs input st)"
proof -
  let ?f = "formulated rs input st"
  let ?cs = "contact_info input"
  let ?accs = "desired_body_accelerations input"
  from top have t: "num_contact_body_' st = length ?cs" "num_vd_' st = number_of_velocities (rs_robot rs)"
    "num_basis_' st = sum_list (map ci_num_basis ?cs)" "num_torque_' st = length (actuators (rs_robot rs))"
    "num_body_acceleration_' st = length ?accs"
    by (simp_all add: topology_unchanged_def)
  from inv t have l: "length (linear_equality_constraints (prog_' st)) = Suc (length ?cs)"
    "length (linear_constraints (prog_' st)) = 2"
    "length (quadratic_costs (prog_' st)) = length ?accs + 3"
    "length (body_J_' st) = length ?accs" "length (body_Jdv_' st) = length ?accs"
    by (simp_all add: QP_inv_def)
  have c1: "topology_unchanged (rs_robot rs) ?cs ?accs ?f"
    using top by (simp add: formulated_topology)
  have c2: "length (linear_equality_constraints (prog_' ?f)) = Suc (length ?cs)"
    "length (linear_constraints (prog_' ?f)) = 2"
    "length (quadratic_costs (prog_' ?f)) = length ?accs + 3"
    by (simp_all add: formulated_lengths l)
  have c3: "\<forall>k<length ?cs. \<forall>i<3 * length (contact_points (?cs ! k)).
           (\<forall>j<number_of_velocities (rs_robot rs). coeff (stacked_contact_jacobians_' ?f) (row_offset ?cs k + i) j =
                     coeff (ComputeJacobianAtContactPoints (cache rs) (?cs ! k)) i j) \<and>
           (\<forall>j<ci_num_basis (?cs ! k).
                     coeff (basis_to_force_matrix_' ?f) (row_offset ?cs k + i) (col_offset ?cs k + j) =
                     coeff (ComputeBasisMatrix (cache rs) (?cs ! k)) i j) \<and>
           coeff (stacked_contact_jacobians_dot_times_v_' ?f) (row_offset ?cs k + i) 0 =
             coeff (ComputeJacobianDotTimesVAtContactPoints (cache rs) (?cs ! k)) i 0"
    by (simp add: formulated_stacked t coeff_stack_jacobians coeff_stack_basis coeff_stack_jdv)
  have c4: "JB_' ?f = mat_mul (mat_transpose (stacked_contact_jacobians_' ?f)) (basis_to_force_matrix_' ?f)"
    "torque_constant_' ?f = vec_tail (length (actuators (rs_robot rs))) (bias_term rs)"
    "dynamics_constant_' ?f = mat_neg (vec_head 6 (bias_term rs))"
    using formulated_fields(8,9,10)[of rs input st] by (simp_all add: t)
  have c5: "\<forall>i<length (actuators (rs_robot rs)).
       (\<forall>j<number_of_velocities (rs_robot rs). coeff (torque_linear_' ?f) i j =
           coeff (bottomRows (length (actuators (rs_robot rs))) (rs_M rs)) i j) \<and>
       (\<forall>j<sum_list (map ci_num_basis ?cs).
           coeff (torque_linear_' ?f) i (number_of_velocities (rs_robot rs) + j) =
           - coeff (bottomRows (length (actuators (rs_robot rs))) (JB_' ?f)) i j)"
    using formulated_torque_coeffs[of _ st _ rs input] by (simp add: t)
  have c6: "\<forall>i<6.
       (\<forall>j<number_of_velocities (rs_robot rs). coeff (dynamics_linear_' ?f) i j = coeff (topRows 6 (rs_M rs)) i j) \<and>
       (\<forall>j<sum_list (map ci_num_basis ?cs).
           coeff (dynamics_linear_' ?f) i (number_of_velocities (rs_robot rs) + j) =
           - coeff (topRows 6 (JB_' ?f)) i j)"
    using formulated_dynamics_blocks[of _ _ st rs input] by (simp add: t)
  have c7: "lc_A (constraint (linear_equality_constraints (prog_' ?f) ! 0)) = dynamics_linear_' ?f"
    "lc_lower_bound (constraint (linear_equality_constraints (prog_' ?f) ! 0)) = dynamics_constant_' ?f"
    "lc_upper_bound (constraint (linear_equality_constraints (prog_' ?f) ! 0)) = dynamics_constant_' ?f"
    by (simp_all add: formulated_dynamics_eq l UpdateEquality_def)
  have c8: "\<forall>k<length ?cs.
           lc_A (constraint (linear_equality_constraints (prog_' ?f) ! Suc k)) =
             mat_block (stacked_contact_jacobians_' ?f) (row_offset ?cs k) 0
               (3 * length (contact_points (?cs ! k))) (number_of_velocities (rs_robot rs)) \<and>
           lc_lower_bound (constraint (linear_equality_constraints (prog_' ?f) ! Suc k)) =
             mat_neg (segment (stacked_contact_jacobians_dot_times_v_' ?f) (row_offset ?cs k)
                        (3 * length (contact_points (?cs ! k)))) \<and>
           lc_upper_bound (constraint (linear_equality_constraints (prog_' ?f) ! Suc k)) =
             lc_lower_bound (constraint (linear_equality_constraints (prog_' ?f) ! Suc k))"
    by (simp add: formulated_contact_eq l UpdateEquality_def t)
  have c9: "lc_A (constraint (linear_constraints (prog_' ?f) ! 1)) =
       mat_mul (mat_transpose (bottomRows (length (actuators (rs_robot rs))) (tree_B (rs_robot rs)))) (torque_linear_' ?f)"
    using formulated_torque_limit(1)[OF l(2), of rs input] formulated_fields(13)[of rs input st]
    by (simp add: UpdateLinear_def t)
  have c10: "\<forall>i<length (actuators (rs_robot rs)).
       coeff (lc_lower_bound (constraint (linear_constraints (prog_' ?f) ! 1))) i 0 =
         effort_limit_min_' (actuators (rs_robot rs) ! i) -
         coeff (mat_mul (mat_transpose (bottomRows (length (actuators (rs_robot rs))) (tree_B (rs_robot rs))))
                  (torque_constant_' ?f)) i 0 \<and>
       coeff (lc_upper_bound (constraint (linear_constraints (prog_' ?f) ! 1))) i 0 =
         effort_limit_max_' (actuators (rs_robot rs) ! i) -
         coeff (mat_mul (mat_transpose (bottomRows (length (actuators (rs_robot rs))) (tree_B (rs_robot rs))))
                  (torque_constant_' ?f)) i 0"
    using formulated_torque_limit(1)[OF l(2), of rs input] formulated_bounds[of _ rs input st]
    by (simp add: UpdateLinear_def t)
  have c11: "qc_Q (constraint (quadratic_costs (prog_' ?f) ! 0)) =
          mat_mul (mat_scale (w_com input) (mat_transpose (J_com rs))) (J_com rs)"
    "qc_b (constraint (quadratic_costs (prog_' ?f) ! 0)) =
          mat_mul (mat_scale (w_com input) (mat_transpose (J_com rs)))
            (mat_sub (Jdot_times_v_com rs) (desired_comdd input))"
    by (simp_all add: formulated_com_cost l t UpdateQuadratic_def)
  have c12: "\<forall>k<length ?accs.
           body_J_' ?f ! k = GetTaskSpaceJacobian (cache rs) (dba_body (?accs ! k)) (VectorXd_Zero 3) \<and>
           body_Jdv_' ?f ! k = GetTaskSpaceJacobianDotTimesV (cache rs) (dba_body (?accs ! k)) (VectorXd_Zero 3) \<and>
           qc_Q (constraint (quadratic_costs (prog_' ?f) ! Suc k)) =
             mat_mul (mat_scale (dba_weight (?accs ! k)) (mat_transpose (body_J_' ?f ! k))) (body_J_' ?f ! k) \<and>
           qc_b (constraint (quadratic_costs (prog_' ?f) ! Suc k)) =
             mat_mul (mat_scale (dba_weight (?accs ! k)) (mat_transpose (body_J_' ?f ! k)))
               (mat_sub (body_Jdv_' ?f ! k) (dba_acceleration (?accs ! k)))"
    by (simp add: formulated_body_J l t formulated_body_cost UpdateQuadratic_def Let_def)
  have c13: "qc_Q (constraint (quadratic_costs (prog_' ?f) ! Suc (length ?accs))) =
        mat_scale (w_vd input) (MatrixXd_Identity (number_of_velocities (rs_robot rs)) (number_of_velocities (rs_robot rs)))"
    "qc_b (constraint (quadratic_costs (prog_' ?f) ! Suc (length ?accs))) =
        mat_scale (w_vd input) (mat_neg (desired_vd input))"
    "qc_Q (constraint (quadratic_costs (prog_' ?f) ! Suc (Suc (length ?accs)))) =
        mat_scale (w_basis_reg input) (MatrixXd_Identity (sum_list (map ci_num_basis ?cs)) (sum_list (map ci_num_basis ?cs)))"
    "qc_b (constraint (quadratic_costs (prog_' ?f) ! Suc (Suc (length ?accs)))) =
        VectorXd_Zero (sum_list (map ci_num_basis ?cs))"
    using formulated_reg_costs[of st input rs] by (simp_all add: l t UpdateQuadratic_def)
  show ?thesis
    unfolding formulation_current_def Let_def
    by (intro conjI) (rule c1 c2 c3 c4 c5 c6 c7 c8 c9 c10 c11 c12 c13)+
qed

lemma formulation_current_stored:
  "formulation_current rs input (st\<lparr>prog_' := (prog_' st)\<lparr>prog_solution := x\<rparr>, point_forces_' := pf\<rparr>) =
   formulation_current rs input st"
  by (simp add: formulation_current_def topology_unchanged_def)

lemma QP_inv_stored:
  "QP_inv (st\<lparr>prog_' := (prog_' st)\<lparr>prog_solution := x\<rparr>, point_forces_' := pf\<rparr>) = QP_inv st"
  by (simp add: QP_inv_def GetVariable_def)

subsection \<open>The outcomes of Control\<close>

lemma formulation_currentD:
  assumes "formulation_current rs input st"
  shows "topology_unchanged (rs_robot rs) (contact_info input) (desired_body_accelerations input) st"
    and "torque_constant_' st = vec_tail (length (actuators (rs_robot rs))) (bias_term rs)"
    and "JB_' st = mat_mul (mat_transpose (stacked_contact_jacobians_' st)) (basis_to_force_matrix_' st)"
    and "\<forall>i<length (actuators (rs_robot rs)).
       (\<forall>j<number_of_velocities (rs_robot rs). coeff (torque_linear_' st) i j =
           coeff (bottomRows (length (actuators (rs_robot rs))) (rs_M rs)) i j) \<and>
       (\<forall>j<sum_list (map ci_num_basis (contact_info input)).
           coeff (torque_linear_' st) i (number_of_velocities (rs_robot rs) + j) =
           - coeff (bottomRows (length (actuators (rs_robot rs))) (JB_' st)) i j)"
    and "length (linear_constraints (prog_' st)) = 2"
    and "lc_A (constraint (linear_constraints (prog_' st) ! 1)) =
       mat_mul (mat_transpose (bottomRows (length (actuators (rs_robot rs))) (tree_B (rs_robot rs)))) (torque_linear_' st)"
    and "\<forall>i<length (actuators (rs_robot rs)).
       coeff (lc_lower_bound (constraint (linear_constraints (prog_' st) ! 1))) i 0 =
         effort_limit_min_' (actuators (rs_robot rs) ! i) -
         coeff (mat_mul (mat_transpose (bottomRows (length (actuators (rs_robot rs))) (tree_B (rs_robot rs))))
                  (torque_constant_' st)) i 0 \<and>
       coeff (lc_upper_bound (constraint (linear_constraints (prog_' st) ! 1))) i 0 =
         effort_limit_max_' (actuators (rs_robot rs) ! i) -
         coeff (mat_mul (mat_transpose (bottomRows (length (actuators (rs_robot rs))) (tree_B (rs_robot rs))))
                  (torque_constant_' st)) i 0"
  using assms unfolding formulation_current_def Let_def by blast+

lemma Control_outcome:
  assumes "QPInput_is_valid input (number_of_velocities (rs_robot rs))"
    and "QP_inv st \<or> \<not> topology_unchanged (rs_robot rs) (contact_info input) (desired_body_accelerations input) st"
    and "Control env rs input st output = Some r"
  shows "(\<not> solver_available env \<and> ret r = -1 \<and> cerr r = [''Solver not available.\<newline>''] \<and>
          outp r = output \<and> solve_calls r = 0) \<or>
         (solver_available env \<and> ret r = -1 \<and> cerr r = [''solution not found\<newline>''] \<and>
          outp r = output \<and> solve_calls r = 1) \<or>
         (solver_available env \<and>
          (\<exists>st3 x. QP_inv st3 \<and>
             topology_unchanged (rs_robot rs) (contact_info input) (desired_body_accelerations input) st3 \<and>
             formulation_current rs input st3 \<and>
             solver_Solve env (prog_' st3) = (kSolutionFound, x) \<and>
             Control_decompose env rs input
               \<lparr>dv_index = 0, dv_size = number_of_velocities (rs_robot rs)\<rparr>
               \<lparr>dv_index = number_of_velocities (rs_robot rs),
                dv_size = sum_list (map ci_num_basis (contact_info input))\<rparr>
               (st3\<lparr>prog_' := (prog_' st3)\<lparr>prog_solution := x\<rparr>\<rparr>) output = Some r))"
proof -
  from ResizeQP_establishes[OF assms(2)] obtain st1 where
    s: "ResizeQP (rs_robot rs) (contact_info input) (desired_body_accelerations input) st = Some st1"
       "QP_inv st1"
       "topology_unchanged (rs_robot rs) (contact_info input) (desired_body_accelerations input) st1"
    by blast
  let ?st3 = "formulated rs input (SetTempMatricesToZero st1)"
  have n: "num_vd_' st1 = number_of_velocities (rs_robot rs)"
    "num_basis_' st1 = sum_list (map ci_num_basis (contact_info input))"
    using s(3) by (simp_all add: topology_unchanged_def)
  have i3: "QP_inv ?st3"
    by (rule formulated_inv) (simp add: SetTempMatricesToZero_inv s)
  have t3: "topology_unchanged (rs_robot rs) (contact_info input) (desired_body_accelerations input) ?st3"
    by (simp add: formulated_topology SetTempMatricesToZero_inv s)
  have f3: "formulation_current rs input ?st3"
    by (rule formulated_current) (simp_all add: SetTempMatricesToZero_inv s)
  note c = Control_valid[OF assms(1) s, of env "output", unfolded n]
  show ?thesis
  proof (cases "solver_available env")
    case False
    with c assms(3) show ?thesis by (auto simp: Let_def)
  next
    case True
    obtain res x where sol: "solver_Solve env (prog_' ?st3) = (res, x)"
      by (cases "solver_Solve env (prog_' ?st3)")
    show ?thesis
    proof (cases "res = kSolutionFound")
      case False
      with c assms(3) True sol show ?thesis by (auto simp: Let_def)
    next
      case found: True
      with c assms(3) True sol
      have d: "Control_decompose env rs input
               \<lparr>dv_index = 0, dv_size = number_of_velocities (rs_robot rs)\<rparr>
               \<lparr>dv_index = number_of_velocities (rs_robot rs),
                dv_size = sum_list (map ci_num_basis (contact_info input))\<rparr>
                 (?st3\<lparr>prog_' := (prog_' ?st3)\<lparr>prog_solution := x\<rparr>\<rparr>) output = Some r"
        by (simp add: Let_def)
      from True i3 t3 f3 sol found d show ?thesis by blast
    qed
  qed
qed

lemma Control_unavailable_run:
  assumes "QPInput_is_valid input (number_of_velocities (rs_robot rs))"
    and "QP_inv st \<or> \<not> topology_unchanged (rs_robot rs) (contact_info input) (desired_body_accelerations input) st"
    and "\<not> solver_available env"
  shows "\<exists>st'. Control env rs input st output =
           Some \<lparr>ret = -1, cerr = [''Solver not available.\<newline>''], ctrl = st', outp = output, solve_calls = 0\<rparr>"
proof -
  from ResizeQP_establishes[OF assms(2)] obtain st1 where
    s: "ResizeQP (rs_robot rs) (contact_info input) (desired_body_accelerations input) st = Some st1"
       "QP_inv st1"
       "topology_unchanged (rs_robot rs) (contact_info input) (desired_body_accelerations input) st1"
    by blast
  from Control_valid[OF assms(1) s, of env "output"] assms(3) show ?thesis
    by (simp add: Let_def)
qed

lemma ex_run_unavailable:
  "\<exists>st'. Control (ex_env False kSolutionFound) ex_rs ex_input ex_controller ex_output =
     Some \<lparr>ret = -1, cerr = [''Solver not available.\<newline>''], ctrl = st', outp = ex_output, solve_calls = 0\<rparr>"
  by (rule Control_unavailable_run[OF ex_valid disjI2[OF ex_changed]]) (simp add: ex_env_def)

lemma ex_bad_invalid: "\<not> QPInput_is_valid ex_bad_input (number_of_velocities (rs_robot ex_rs))"
  by (simp add: QPInput_is_valid_def ex_bad_input_def ex_rs_def ex_robot_def MatrixXd_Zero_def)

lemma Control_success_decomposed:
  assumes "Control env rs input st output = Some r" and "ret r = 0"
  shows "\<exists>vd basis st4. Control_decompose env rs input vd basis st4 output = Some r"
proof (cases "QPInput_is_valid input (number_of_velocities (rs_robot rs))")
  case False
  with assms show ?thesis by (auto simp: Control_def)
next
  case True
  with assms show ?thesis
    by (auto simp: Control_def Let_def split: Option.bind_splits if_splits prod.splits)
qed

lemma Control_success_valid:
  assumes "Control env rs input st output = Some r" and "ret r = 0"
  shows "QPInput_is_valid input (number_of_velocities (rs_robot rs))"
proof (rule ccontr)
  assume "\<not> QPInput_is_valid input (number_of_velocities (rs_robot rs))"
  from Control_invalid[OF this, of env st "output"] assms show False by auto
qed

lemma Control_success_run:
  assumes "QP_inv st \<or> \<not> topology_unchanged (rs_robot rs) (contact_info input) (desired_body_accelerations input) st"
    and "Control env rs input st output = Some r" and "ret r = 0"
  shows "\<exists>st3 x. QP_inv st3 \<and>
             topology_unchanged (rs_robot rs) (contact_info input) (desired_body_accelerations input) st3 \<and>
             formulation_current rs input st3 \<and>
             solver_Solve env (prog_' st3) = (kSolutionFound, x) \<and>
             Control_decompose env rs input
               \<lparr>dv_index = 0, dv_size = number_of_velocities (rs_robot rs)\<rparr>
               \<lparr>dv_index = number_of_velocities (rs_robot rs),
                dv_size = sum_list (map ci_num_basis (contact_info input))\<rparr>
               (st3\<lparr>prog_' := (prog_' st3)\<lparr>prog_solution := x\<rparr>\<rparr>) output = Some r"
  using Control_outcome[OF Control_success_valid[OF assms(2,3)] assms(1,2)] assms(3) by auto

text \<open>
  The layout invariant is kept by every cycle that returns: the next cycle may start from the
  controller this one leaves.
\<close>

lemma Control_keeps_layout:
  assumes "QP_inv st" and "Control env rs input st output = Some r"
  shows "QP_inv (ctrl r)"
proof (cases "QPInput_is_valid input (number_of_velocities (rs_robot rs))")
  case False
  from Control_invalid[OF False, of env st "output"] assms show ?thesis by auto
next
  case True
  from Control_ctrl[OF True disjI1[OF assms(1)] assms(2)] obtain st1 x pf where
    s: "QP_inv st1"
       "ctrl r = (formulated rs input (SetTempMatricesToZero st1))
                \<lparr>prog_' := (prog_' (formulated rs input (SetTempMatricesToZero st1)))\<lparr>prog_solution := x\<rparr>,
                 point_forces_' := pf\<rparr>"
    by blast
  show ?thesis
    unfolding s(2) QP_inv_stored
    by (rule formulated_inv) (simp add: SetTempMatricesToZero_inv s(1))
qed

subsection \<open>The example cycle with assertions disarmed\<close>

lemma ex_st5_lens:
  "length (body_J_' ex_st5) = length (desired_body_accelerations ex_input)"
  "length (body_Jdv_' ex_st5) = length (desired_body_accelerations ex_input)"
  "num_contact_body_' ex_st5 = length (contact_info ex_input)"
proof -
  have "QP_inv ex_st5"
    unfolding ex_st5_def Let_def store_solution_inv
    by (rule formulated_inv) (simp add: SetTempMatricesToZero_inv ex_resize)
  moreover have "topology_unchanged (rs_robot ex_rs) (contact_info ex_input) (desired_body_accelerations ex_input) ex_st5"
    unfolding ex_st5_def Let_def store_solution_inv formulated_topology SetTempMatricesToZero_inv
    by (rule ex_resize)
  ultimately show "length (body_J_' ex_st5) = length (desired_body_accelerations ex_input)"
    "length (body_Jdv_' ex_st5) = length (desired_body_accelerations ex_input)"
    "num_contact_body_' ex_st5 = length (contact_info ex_input)"
    by (simp_all add: QP_inv_def topology_unchanged_def)
qed

lemma ex_st5_out_valid:
  "rows (out_joint_torque (decomposed env ex_rs ex_input vd basis ex_st5 out)) = 1"
  by (simp add: decomposed_def Let_def dv_value_def segment_def mat_block_def mat_add_def mat_mul_def
      ex_st5_def formulated_def SetTempMatricesToZero_def ex_st1_fields mat_set_block_def setZero_def
      MatrixXd_uninit_def)

lemma ex_run_disarmed:
  "Control ex_env_disarmed ex_rs ex_input ex_controller ex_output =
     Some \<lparr>ret = 0, cerr = [],
           ctrl = ex_st5\<lparr>point_forces_' := mat_mul (basis_to_force_matrix_' ex_st5)
                                               (dv_value (prog_' ex_st5) \<lparr>dv_index = 7, dv_size = 4\<rparr>)\<rparr>,
           outp = decomposed ex_env_disarmed ex_rs ex_input \<lparr>dv_index = 0, dv_size = 7\<rparr>
                    \<lparr>dv_index = 7, dv_size = 4\<rparr> ex_st5 ex_output,
           solve_calls = 1\<rparr>"
proof -
  note c = Control_valid[OF ex_valid ex_resize, of ex_env_disarmed ex_output]
  have e: "\<not> kDrakeAssertIsArmed ex_env_disarmed" "solver_available ex_env_disarmed"
    "solver_Solve ex_env_disarmed = (\<lambda>prog. (kSolutionFound, ex_e0 (num_vars prog)))"
    "QPOutput_is_valid ex_env_disarmed = (\<lambda>out nv nt. rows (out_vd out) = nv \<and> rows (out_joint_torque out) = nt)"
    by (simp_all add: ex_env_disarmed_def ex_env_def)
  have n: "number_of_velocities (rs_robot ex_rs) = 7" "length (actuators (rs_robot ex_rs)) = 1"
    by (simp_all add: ex_rs_def ex_robot_def)
  show ?thesis
    unfolding c
    apply (simp add: Let_def e ex_st5_def[symmetric, unfolded Let_def] ex_st1_fields)
    apply (simp add: Control_decompose_closed[OF ex_st5_lens] Let_def e ex_out_vd
        ex_st5_out_valid n rows_dv_value)
    done
qed

lemma sum_unit:
  "0 < n \<Longrightarrow> (\<Sum>k<n. g k * (if k = 0 then 1 else 0)) = g 0" for g :: "nat \<Rightarrow> real"
proof -
  assume n: "0 < n"
  have "(\<Sum>k<n. g k * (if k = 0 then 1 else 0)) = (\<Sum>k\<in>{..<n}. if k = 0 then g k else 0)"
    by (rule sum.cong) auto
  with n show ?thesis by (simp add: sum.delta)
qed

lemma not_isZeroI:
  "0 < rows m \<Longrightarrow> 0 < cols m \<Longrightarrow> \<not> \<bar>coeff m 0 0\<bar> \<le> prec \<Longrightarrow> \<not> isZero prec m"
  by (auto simp: isZero_def list_all_iff intro!: bexI[of _ 0])

lemma ex_e0_solution:
  "prog_solution (prog_' ex_st5) = ex_e0 11"
  by (simp add: ex_st5_def Let_def formulated_def SetTempMatricesToZero_def ex_st1_fields
      declared_program_def)

lemma ex_st5_dynamics_eq:
  "\<not> equality_satisfied ex_env_disarmed (prog_' ex_st5) (linear_equality_constraints (prog_' ex_st5) ! 0)"
proof -
  have q: "linear_equality_constraints (prog_' ex_st5) ! 0 =
        \<lparr>constraint = \<lparr>lc_A = dynamics_linear_' ex_st5, lc_lower_bound = dynamics_constant_' ex_st5,
                        lc_upper_bound = dynamics_constant_' ex_st5, lc_description = ''dynamics eq''\<rparr>,
          variable_list = [\<lparr>dv_index = 0, dv_size = 7\<rparr>, \<lparr>dv_index = 7, dv_size = 4\<rparr>]\<rparr>"
    by (simp add: ex_st5_def formulated_def Let_def SetTempMatricesToZero_def ex_st1_fields
        declared_program_def ex_input_def UpdateEquality_def contact_eq_decl_def ex_foot_def)
  have x: "coeff (VariableListToVectorXd (prog_' ex_st5) [\<lparr>dv_index = 0, dv_size = 7\<rparr>, \<lparr>dv_index = 7, dv_size = 4\<rparr>]) k 0
           = (if k = 0 then 1 else 0)" for k
    by (simp add: VariableListToVectorXd_def vconcat_def dv_value_def segment_def mat_block_def
        ex_e0_solution ex_e0_def VectorXd_Zero_def MatrixXd_Zero_def)
  have r: "rows (dynamics_linear_' ex_st5) = 6" "cols (dynamics_linear_' ex_st5) = 11"
    by (simp_all add: ex_st5_def formulated_def Let_def SetTempMatricesToZero_def ex_st1_fields
        mat_set_block_def setZero_def MatrixXd_uninit_def)
  have a: "coeff (dynamics_linear_' ex_st5) 0 0 = 1"
    by (simp add: ex_st5_def formulated_def Let_def SetTempMatricesToZero_def ex_st1_fields
        ex_rs_def mat_defs)
  have b: "coeff (dynamics_constant_' ex_st5) 0 0 = 0"
    by (simp add: ex_st5_def formulated_def Let_def ex_rs_def mat_defs)
  have s: "(\<Sum>k<11. coeff (dynamics_linear_' ex_st5) 0 k * (if k = 0 then 1 else 0)) = (1::real)"
    by (simp add: sum_unit a)
  have m: "coeff (mat_sub (mat_mul (dynamics_linear_' ex_st5)
              (VariableListToVectorXd (prog_' ex_st5) [\<lparr>dv_index = 0, dv_size = 7\<rparr>, \<lparr>dv_index = 7, dv_size = 4\<rparr>]))
              (dynamics_constant_' ex_st5)) 0 0 = 1"
    by (simp add: mat_sub_def mat_mul_def r x s b)
  have d: "dbl_product ex_env_disarmed = mat_mul" "dbl_difference ex_env_disarmed = mat_sub"
    "EPSILON ex_env_disarmed = 1 / 100000000"
    by (simp_all add: ex_env_disarmed_def ex_env_def)
  have z: "rows (mat_sub (mat_mul (dynamics_linear_' ex_st5) X) (dynamics_constant_' ex_st5)) = 6 \<and>
           cols (mat_sub (mat_mul (dynamics_linear_' ex_st5) X) (dynamics_constant_' ex_st5)) = cols X" for X
    by (simp add: mat_sub_def mat_mul_def r)
  show ?thesis
    unfolding q equality_satisfied_def
    by (simp add: Let_def d, rule not_isZeroI) (simp_all add: z cols_VariableList m)
qed

lemma ex_st5_resolved:
  "\<exists>rc. out_resolved_contacts (decomposed env ex_rs ex_input vd \<lparr>dv_index = 7, dv_size = 4\<rparr> ex_st5 out) = [rc] \<and>
        (\<forall>i j. coeff (equivalent_wrench rc) i j = 0) \<and> rc_reference_point rc = MatrixXd_Zero 3 1"
  by (simp add: decomposed_def Let_def ex_input_def Control_resolve_contact_def split_beta
      ex_rs_def ex_cache_def mat_mul_def segment_def mat_block_def dv_value_def ex_e0_solution ex_e0_def
      Control_copy_point_force_frame)

lemma ex_st5_wrench:
  "\<not> wrench_balanced ex_env_disarmed ex_rs
       (decomposed env ex_rs ex_input \<lparr>dv_index = 0, dv_size = 7\<rparr> \<lparr>dv_index = 7, dv_size = 4\<rparr> ex_st5 out)"
proof -
  let ?out = "decomposed env ex_rs ex_input \<lparr>dv_index = 0, dv_size = 7\<rparr> \<lparr>dv_index = 7, dv_size = 4\<rparr> ex_st5 out"
  from ex_st5_resolved[of env "\<lparr>dv_index = 0, dv_size = 7\<rparr>" out] obtain rc where
    rc: "out_resolved_contacts ?out = [rc]"
      "\<And>i j. coeff (equivalent_wrench rc) i j = 0" "rc_reference_point rc = MatrixXd_Zero 3 1"
    by blast
  have l: "length (out_resolved_contacts ?out) = Suc 0" by (simp add: rc(1))
  have loop: "foldM (Control_add_wrench ex_env_disarmed ex_rs ?out) [0..<Suc 0] w =
              Some (add_wrench ex_env_disarmed ex_rs ?out w 0)" for w
    using Control_add_wrench_loop[of "Suc 0" ?out ex_env_disarmed ex_rs w] by (simp add: l)
  have d: "com ex_rs = MatrixXd_Zero 3 1" "getMass (rs_robot ex_rs) = 1"
    "a_grav (rs_robot ex_rs) = MatrixXd_Zero 6 1"
    "centroidal_momentum_matrix ex_rs = MatrixXd_Identity 6 7"
    "centroidal_momentum_matrix_dot_times_v ex_rs = MatrixXd_Zero 6 1"
    by (simp_all add: ex_rs_def ex_robot_def)
  have e: "dbl_product ex_env_disarmed = mat_mul" "dbl_sum ex_env_disarmed = mat_add"
    "dbl_difference ex_env_disarmed = mat_sub" "dbl_scaled ex_env_disarmed = mat_scale"
    "dbl_cross ex_env_disarmed = cross" "EPSILON ex_env_disarmed = 1 / 100000000"
    by (simp_all add: ex_env_disarmed_def ex_env_def)
  have v: "coeff (dv_value (prog_' ex_st5) \<lparr>dv_index = 0, dv_size = 7\<rparr>) k 0 = (if k = 0 then 1 else 0)" for k
    by (simp add: dv_value_def segment_def mat_block_def ex_e0_solution ex_e0_def)
  have Ld: "coeff (mat_mul (MatrixXd_Identity 6 7) (dv_value (prog_' ex_st5) \<lparr>dv_index = 0, dv_size = 7\<rparr>)) 0 0 = 1"
    by (simp add: mat_mul_def v MatrixXd_Identity_def sum_unit)
  have nw: "coeff (add_wrench ex_env_disarmed ex_rs ?out w 0) 0 0 = coeff w 0 0"
    "rows (add_wrench ex_env_disarmed ex_rs ?out w 0) = rows w"
    "cols (add_wrench ex_env_disarmed ex_rs ?out w 0) = cols w" for w
    by (simp_all add: add_wrench_def Let_def rc d e mat_add_def mat_sub_def set_segment_def
        segment_def mat_block_def mat_set_block_def cross_def MatrixXd_Zero_def)
  show ?thesis
    unfolding wrench_balanced_def l loop option.case e d ex_out_vd
    by (rule not_isZeroI) (simp_all add: mat_sub_def mat_add_def nw Ld mat_scale_def MatrixXd_Zero_def)
qed

lemma ex_st5_constraints:
  "\<not> constraints_validated ex_env_disarmed (prog_' ex_st5)"
proof
  assume "constraints_validated ex_env_disarmed (prog_' ex_st5)"
  then have a: "list_all (equality_satisfied ex_env_disarmed (prog_' ex_st5))
                  (linear_equality_constraints (prog_' ex_st5))"
    by (simp add: constraints_validated_def)
  have "QP_inv ex_st5"
    unfolding ex_st5_def Let_def store_solution_inv
    by (rule formulated_inv) (simp add: SetTempMatricesToZero_inv ex_resize)
  then have "0 < length (linear_equality_constraints (prog_' ex_st5))"
    by (simp add: QP_inv_def)
  with a have "equality_satisfied ex_env_disarmed (prog_' ex_st5) (linear_equality_constraints (prog_' ex_st5) ! 0)"
    by (simp add: list_all_length)
  with ex_st5_dynamics_eq show False by simp
qed

section \<open>The claims\<close>

text \<open>
  Claim C2.  \<^verbatim>\<open>ResizeQP\<close> computes the topology counts from the current contact and
  tracked-body-motion descriptors.  When every count equals the stored snapshot it returns
  the controller as it was: no field is modified.  Only when some count differs does it
  rebuild the problem structure: the result then differs from the controller it was given,
  its stored snapshot equals the current counts and its program is the newly declared one.
\<close>
theorem ResizeQP_rebuilds_only_on_change:
  "(topology_unchanged tree supports accs st \<longrightarrow> ResizeQP tree supports accs st = Some st) \<and>
   (\<not> topology_unchanged tree supports accs st \<longrightarrow>
      (\<exists>st'. ResizeQP tree supports accs st = Some st' \<and> st' \<noteq> st \<and>
             topology_unchanged tree supports accs st' \<and>
             prog_' st' = declared_program supports accs (number_of_velocities tree)
               (sum_list (map ci_num_basis supports)) (length (actuators tree))
               (number_of_velocities tree + sum_list (map ci_num_basis supports))))"
proof (intro conjI impI)
  assume "topology_unchanged tree supports accs st"
  then show "ResizeQP tree supports accs st = Some st" by (rule ResizeQP_unchanged)
next
  assume c: "\<not> topology_unchanged tree supports accs st"
  from ResizeQP_changed_result[OF c] obtain st' where
    s: "ResizeQP tree supports accs st = Some st'" "topology_unchanged tree supports accs st'"
      "prog_' st' = declared_program supports accs (number_of_velocities tree)
               (sum_list (map ci_num_basis supports)) (length (actuators tree))
               (number_of_velocities tree + sum_list (map ci_num_basis supports))"
    by blast
  from c s(2) have "st' \<noteq> st" by auto
  with s show "\<exists>st'. ResizeQP tree supports accs st = Some st' \<and> st' \<noteq> st \<and>
             topology_unchanged tree supports accs st' \<and>
             prog_' st' = declared_program supports accs (number_of_velocities tree)
               (sum_list (map ci_num_basis supports)) (length (actuators tree))
               (number_of_velocities tree + sum_list (map ci_num_basis supports))"
    by blast
qed

theorem ResizeQP_rebuilds_only_on_change_witness:
  "topology_unchanged (rs_robot ex_rs) (contact_info ex_input) (desired_body_accelerations ex_input) ex_st1 \<and>
   ResizeQP (rs_robot ex_rs) (contact_info ex_input) (desired_body_accelerations ex_input) ex_st1 = Some ex_st1 \<and>
   \<not> topology_unchanged (rs_robot ex_rs) (contact_info ex_input) (desired_body_accelerations ex_input) ex_controller \<and>
   (\<exists>st'. ResizeQP (rs_robot ex_rs) (contact_info ex_input) (desired_body_accelerations ex_input) ex_controller = Some st' \<and>
          st' \<noteq> ex_controller)"
  using ResizeQP_rebuilds_only_on_change[of "rs_robot ex_rs" "contact_info ex_input" "desired_body_accelerations ex_input" ex_st1]
    ResizeQP_rebuilds_only_on_change[of "rs_robot ex_rs" "contact_info ex_input" "desired_body_accelerations ex_input" ex_controller]
    ex_resize(3) ex_changed
  by blast

text \<open>
  Claim C6.  When \<^verbatim>\<open>ResizeQP\<close> rebuilds the problem structure, the constraints and costs
  are declared in this order: the dynamics equality, one contact equality per contact body in
  descriptor order, the inequality on the basis coefficients, the torque-limit inequality, the
  CoM-tracking cost, one tracking cost per tracked body motion in descriptor order, the
  regularization cost of the generalized acceleration, the regularization cost of the basis.
  The handles the controller stores name these declarations.
\<close>
theorem ResizeQP_declaration_order:
  assumes "\<not> topology_unchanged tree supports accs st"
  shows "\<exists>st'. ResizeQP tree supports accs st = Some st' \<and>
     insertion_order (prog_' st') =
       LinearEqualityDecl 0 # map (\<lambda>i. LinearEqualityDecl (Suc i)) [0..<length supports] @
       [LinearDecl 0, LinearDecl 1, QuadraticCostDecl 0] @
       map (\<lambda>i. QuadraticCostDecl (Suc i)) [0..<length accs] @
       [QuadraticCostDecl (Suc (length accs)), QuadraticCostDecl (Suc (Suc (length accs)))] \<and>
     map (decl_description (prog_' st')) (insertion_order (prog_' st')) =
       ''dynamics eq'' # map (\<lambda>s. ci_name s @ '' contact eq'') supports @
       [''contact force basis ineq'', ''torque limit ineq'', ''com cost''] @
       map (\<lambda>a. dba_name a @ '' cost'') accs @ [''vd reg cost'', ''basis reg cost''] \<and>
     eq_dynamics_' st' = Some 0 \<and>
     eq_contacts_' st' = map (\<lambda>i. Some (Suc i)) [0..<length supports] \<and>
     ineq_contact_wrench_' st' = Some 0 \<and> ineq_torque_limit_' st' = Some 1 \<and>
     cost_comdd_' st' = Some 0 \<and>
     cost_body_accelerations_' st' = map (\<lambda>i. Some (Suc i)) [0..<length accs] \<and>
     cost_vd_reg_' st' = Some (Suc (length accs)) \<and>
     cost_basis_reg_' st' = Some (Suc (Suc (length accs)))"
proof -
  from ResizeQP_changed_result[OF assms] obtain st' where
    s: "ResizeQP tree supports accs st = Some st'"
     "prog_' st' = declared_program supports accs (number_of_velocities tree)
        (sum_list (map ci_num_basis supports)) (length (actuators tree))
        (number_of_velocities tree + sum_list (map ci_num_basis supports))"
     "eq_dynamics_' st' = Some 0"
     "eq_contacts_' st' = map (\<lambda>i. Some (Suc i)) [0..<length supports]"
     "ineq_contact_wrench_' st' = Some 0" "ineq_torque_limit_' st' = Some 1"
     "cost_comdd_' st' = Some 0"
     "cost_body_accelerations_' st' = map (\<lambda>i. Some (Suc i)) [0..<length accs]"
     "cost_vd_reg_' st' = Some (Suc (length accs))"
     "cost_basis_reg_' st' = Some (Suc (Suc (length accs)))"
    by blast
  have io: "insertion_order (prog_' st') =
       LinearEqualityDecl 0 # map (\<lambda>i. LinearEqualityDecl (Suc i)) [0..<length supports] @
       [LinearDecl 0, LinearDecl 1, QuadraticCostDecl 0] @
       map (\<lambda>i. QuadraticCostDecl (Suc i)) [0..<length accs] @
       [QuadraticCostDecl (Suc (length accs)), QuadraticCostDecl (Suc (Suc (length accs)))]"
    unfolding s(2) by (rule declared_program_lists)
  have ds: "map (decl_description (prog_' st')) (insertion_order (prog_' st')) =
       ''dynamics eq'' # map (\<lambda>s. ci_name s @ '' contact eq'') supports @
       [''contact force basis ineq'', ''torque limit ineq'', ''com cost''] @
       map (\<lambda>a. dba_name a @ '' cost'') accs @ [''vd reg cost'', ''basis reg cost'']"
    unfolding s(2) by (rule declared_program_descriptions)
  show ?thesis
    by (rule exI[of _ st'], intro conjI) (rule s(1) io ds s(3-))+
qed

theorem ResizeQP_declaration_order_witness:
  "\<not> topology_unchanged ex_robot [ex_foot] [ex_pelvis] ex_controller \<and>
   (\<exists>st'. ResizeQP ex_robot [ex_foot] [ex_pelvis] ex_controller = Some st' \<and>
      map (decl_description (prog_' st')) (insertion_order (prog_' st')) =
        [''dynamics eq'', ''foot contact eq'', ''contact force basis ineq'', ''torque limit ineq'',
         ''com cost'', ''pelvis cost'', ''vd reg cost'', ''basis reg cost''])"
proof -
  have c: "\<not> topology_unchanged ex_robot [ex_foot] [ex_pelvis] ex_controller"
    by (simp add: topology_unchanged_def ex_controller_def)
  from ResizeQP_declaration_order[OF c] c show ?thesis
    by (auto simp: ex_foot_def ex_pelvis_def)
qed

text \<open>
  Claim C4.  A \<^verbatim>\<open>QPInput\<close> whose desired generalized-acceleration regularization target
  has a dimension other than the model's number of velocities is rejected: \<^verbatim>\<open>Control\<close>
  returns \<open>-1\<close> with the line "input is invalid", the solver is never asked to solve, and
  the controller and the output object are returned exactly as they were given.
\<close>

theorem Control_rejects_invalid_input:
  assumes "rows (desired_vd input) \<noteq> number_of_velocities (rs_robot rs)"
  shows "Control env rs input st output =
           Some \<lparr>ret = -1, cerr = [''input is invalid\<newline>''], ctrl = st, outp = output, solve_calls = 0\<rparr>"
  using assms by (simp add: Control_def QPInput_is_valid_def)

theorem Control_rejects_invalid_input_witness:
  "rows (desired_vd ex_bad_input) \<noteq> number_of_velocities (rs_robot ex_rs) \<and>
   Control (ex_env True kSolutionFound) ex_rs ex_bad_input ex_controller ex_output =
     Some \<lparr>ret = -1, cerr = [''input is invalid\<newline>''], ctrl = ex_controller, outp = ex_output,
           solve_calls = 0\<rparr>"
proof -
  have h: "rows (desired_vd ex_bad_input) \<noteq> number_of_velocities (rs_robot ex_rs)"
    by (simp add: ex_bad_input_def ex_rs_def ex_robot_def MatrixXd_Zero_def)
  from h Control_rejects_invalid_input[OF h] show ?thesis by simp
qed

text \<open>
  Claim C3, as stated, fails: the returned code does not tell the failures apart.  On the
  example robot an invalid input and an unavailable solver both make \<^verbatim>\<open>Control\<close> return
  \<open>-1\<close>; only the lines written to \<^verbatim>\<open>std::cerr\<close> differ.
\<close>

theorem Control_failures_share_code:
  "map_option ret (Control (ex_env False kSolutionFound) ex_rs ex_bad_input ex_controller ex_output) = Some (-1) \<and>
   map_option cerr (Control (ex_env False kSolutionFound) ex_rs ex_bad_input ex_controller ex_output) =
     Some [''input is invalid\<newline>''] \<and>
   map_option ret (Control (ex_env False kSolutionFound) ex_rs ex_input ex_controller ex_output) = Some (-1) \<and>
   map_option cerr (Control (ex_env False kSolutionFound) ex_rs ex_input ex_controller ex_output) =
     Some [''Solver not available.\<newline>'']"
proof -
  from ex_run_unavailable obtain st' where
    "Control (ex_env False kSolutionFound) ex_rs ex_input ex_controller ex_output =
     Some \<lparr>ret = -1, cerr = [''Solver not available.\<newline>''], ctrl = st', outp = ex_output, solve_calls = 0\<rparr>"
    by blast
  then show ?thesis
    by (simp add: Control_invalid[OF ex_bad_invalid])
qed

text \<open>
  Claim C3, amended.  \<^verbatim>\<open>Control\<close> returns one of two codes: \<open>0\<close> on success, with nothing
  written to \<^verbatim>\<open>std::cerr\<close>, and \<open>-1\<close> on every failure.  Which of the four failures
  occurred (input invalid, solver unavailable, no solution found, output invalid) is told
  only by the line written to \<^verbatim>\<open>std::cerr\<close>.
\<close>

theorem Control_result_code:
  assumes "Control env rs input st output = Some r"
  shows "(ret r = 0 \<and> cerr r = []) \<or>
         (ret r = -1 \<and>
          (cerr r = [''input is invalid\<newline>''] \<or> cerr r = [''Solver not available.\<newline>''] \<or>
           cerr r = [''solution not found\<newline>''] \<or> cerr r = [''output is invalid\<newline>'']))"
proof (cases "QPInput_is_valid input (number_of_velocities (rs_robot rs))")
  case False
  with assms show ?thesis by (auto simp: Control_def)
next
  case True
  with assms show ?thesis
    by (auto simp: Control_def Let_def split: Option.bind_splits if_splits prod.splits
        dest: Control_decompose_result(3))
qed

theorem Control_result_code_witness:
  "\<exists>r. Control (ex_env True kSolutionFound) ex_rs ex_input ex_controller ex_output = Some r \<and>
       ret r = 0 \<and> cerr r = []"
proof -
  from ex_run_success obtain r where
    r: "Control (ex_env True kSolutionFound) ex_rs ex_input ex_controller ex_output = Some r" "ret r = 0"
    by blast
  from Control_result_code[OF r(1)] r show ?thesis by auto
qed

text \<open>
  Claim C9.  When the solver backend reports itself unavailable, \<^verbatim>\<open>Control\<close> returns the
  failure code, never asks the solver to solve, and returns the output object exactly as
  it was given; for a valid input the line written is "Solver not available".
\<close>

theorem Control_solver_unavailable_keeps_output:
  assumes "\<not> solver_available env"
    and "QP_inv st \<or> \<not> topology_unchanged (rs_robot rs) (contact_info input) (desired_body_accelerations input) st"
  shows "\<exists>r. Control env rs input st output = Some r \<and> ret r = -1 \<and> outp r = output \<and>
              solve_calls r = 0 \<and>
              (QPInput_is_valid input (number_of_velocities (rs_robot rs)) \<longrightarrow>
                 cerr r = [''Solver not available.\<newline>''])"
proof (cases "QPInput_is_valid input (number_of_velocities (rs_robot rs))")
  case False
  then show ?thesis by (simp add: Control_invalid)
next
  case True
  from Control_unavailable_run[OF True assms(2,1), of "output"] True show ?thesis by auto
qed

theorem Control_solver_unavailable_keeps_output_witness:
  "\<not> solver_available (ex_env False kSolutionFound) \<and>
   \<not> topology_unchanged (rs_robot ex_rs) (contact_info ex_input) (desired_body_accelerations ex_input) ex_controller \<and>
   QPInput_is_valid ex_input (number_of_velocities (rs_robot ex_rs)) \<and>
   (\<exists>r. Control (ex_env False kSolutionFound) ex_rs ex_input ex_controller ex_output = Some r \<and>
        ret r = -1 \<and> outp r = ex_output \<and> cerr r = [''Solver not available.\<newline>''])"
proof -
  have h: "\<not> solver_available (ex_env False kSolutionFound)" by (simp add: ex_env_def)
  from Control_solver_unavailable_keeps_output[OF h disjI2[OF ex_changed], of ex_output] h ex_changed ex_valid
  show ?thesis by auto
qed

text \<open>
  Claim C10.  When \<^verbatim>\<open>Control\<close> fails with "Solver not available" or "solution not found",
  the output object is returned as it was given, but the controller is not: it holds the
  formulation of the current cycle.  Its stored topology is that of the current descriptors,
  its scratch buffers hold the current stacked contact quantities and the current torque and
  dynamics maps, and every declared constraint and cost carries the current coefficients.
\<close>

theorem Control_solver_failure_keeps_formulation:
  assumes "QP_inv st \<or> \<not> topology_unchanged (rs_robot rs) (contact_info input) (desired_body_accelerations input) st"
    and "Control env rs input st output = Some r"
    and "cerr r = [''Solver not available.\<newline>''] \<or> cerr r = [''solution not found\<newline>'']"
  shows "ret r = -1 \<and> outp r = output \<and> formulation_current rs input (ctrl r)"
proof -
  have valid: "QPInput_is_valid input (number_of_velocities (rs_robot rs))"
  proof (rule ccontr)
    assume "\<not> QPInput_is_valid input (number_of_velocities (rs_robot rs))"
    from Control_invalid[OF this, of env st "output"] assms(2,3) show False by auto
  qed
  from Control_ctrl[OF valid assms(1,2)] obtain st1 x pf where
    s: "QP_inv st1"
       "topology_unchanged (rs_robot rs) (contact_info input) (desired_body_accelerations input) st1"
       "ctrl r = (formulated rs input (SetTempMatricesToZero st1))
                \<lparr>prog_' := (prog_' (formulated rs input (SetTempMatricesToZero st1)))\<lparr>prog_solution := x\<rparr>,
                 point_forces_' := pf\<rparr>"
    by blast
  have f: "formulation_current rs input (ctrl r)"
    unfolding s(3) formulation_current_stored
    by (rule formulated_current) (simp_all add: SetTempMatricesToZero_inv s)
  from Control_outcome[OF valid assms(1,2)] assms(3)
  have "ret r = -1 \<and> outp r = output"
    by (auto dest: Control_decompose_result(3))
  with f show ?thesis by simp
qed

theorem Control_solver_failure_keeps_formulation_witness:
  "\<exists>r. Control (ex_env False kSolutionFound) ex_rs ex_input ex_controller ex_output = Some r \<and>
       cerr r = [''Solver not available.\<newline>''] \<and> ret r = -1 \<and> outp r = ex_output \<and>
       formulation_current ex_rs ex_input (ctrl r)"
proof -
  from ex_run_unavailable obtain st' where
    r: "Control (ex_env False kSolutionFound) ex_rs ex_input ex_controller ex_output =
     Some \<lparr>ret = -1, cerr = [''Solver not available.\<newline>''], ctrl = st', outp = ex_output, solve_calls = 0\<rparr>"
    by blast
  from Control_solver_failure_keeps_formulation[OF disjI2[OF ex_changed] r] r show ?thesis by simp
qed

text \<open>
  Claim C5.  In every cycle that passes the input check, the torque-limit inequality is
  populated as follows: its coefficient matrix is the transpose of the actuated rows of the
  actuator selection map times \<open>torque_linear\<close>, and for each actuator its lower bound is
  \<open>effort_min\<close> minus the projected \<open>torque_constant\<close> and its upper bound is
  \<open>effort_max\<close> minus the projected \<open>torque_constant\<close>.
\<close>

theorem Control_torque_limit_constraint:
  assumes "QP_inv st \<or> \<not> topology_unchanged (rs_robot rs) (contact_info input) (desired_body_accelerations input) st"
    and "QPInput_is_valid input (number_of_velocities (rs_robot rs))"
    and "Control env rs input st output = Some r"
  shows "ineq_torque_limit_' (ctrl r) = Some 1 \<and>
         length (linear_constraints (prog_' (ctrl r))) = 2 \<and>
         lc_A (constraint (linear_constraints (prog_' (ctrl r)) ! 1)) =
           mat_mul (mat_transpose (bottomRows (length (actuators (rs_robot rs))) (tree_B (rs_robot rs))))
             (torque_linear_' (ctrl r)) \<and>
         (\<forall>i<length (actuators (rs_robot rs)).
            coeff (lc_lower_bound (constraint (linear_constraints (prog_' (ctrl r)) ! 1))) i 0 =
              effort_limit_min_' (actuators (rs_robot rs) ! i) -
              coeff (mat_mul (mat_transpose (bottomRows (length (actuators (rs_robot rs))) (tree_B (rs_robot rs))))
                       (torque_constant_' (ctrl r))) i 0 \<and>
            coeff (lc_upper_bound (constraint (linear_constraints (prog_' (ctrl r)) ! 1))) i 0 =
              effort_limit_max_' (actuators (rs_robot rs) ! i) -
              coeff (mat_mul (mat_transpose (bottomRows (length (actuators (rs_robot rs))) (tree_B (rs_robot rs))))
                       (torque_constant_' (ctrl r))) i 0)"
proof -
  from Control_ctrl[OF assms(2,1,3)] obtain st1 x pf where
    s: "QP_inv st1"
       "topology_unchanged (rs_robot rs) (contact_info input) (desired_body_accelerations input) st1"
       "ctrl r = (formulated rs input (SetTempMatricesToZero st1))
                \<lparr>prog_' := (prog_' (formulated rs input (SetTempMatricesToZero st1)))\<lparr>prog_solution := x\<rparr>,
                 point_forces_' := pf\<rparr>"
    by blast
  have i: "QP_inv (ctrl r)"
    unfolding s(3) QP_inv_stored
    by (rule formulated_inv) (simp add: SetTempMatricesToZero_inv s)
  have f: "formulation_current rs input (ctrl r)"
    unfolding s(3) formulation_current_stored
    by (rule formulated_current) (simp_all add: SetTempMatricesToZero_inv s)
  from i have "ineq_torque_limit_' (ctrl r) = Some 1" by (simp add: QP_inv_def)
  with formulation_currentD(5,6,7)[OF f] show ?thesis by blast
qed

theorem Control_torque_limit_constraint_witness:
  "\<exists>r. Control (ex_env False kSolutionFound) ex_rs ex_input ex_controller ex_output = Some r \<and>
       coeff (lc_lower_bound (constraint (linear_constraints (prog_' (ctrl r)) ! 1))) 0 0 =
         - 10 - coeff (mat_mul (mat_transpose (bottomRows 1 (tree_B (rs_robot ex_rs))))
                        (torque_constant_' (ctrl r))) 0 0"
proof -
  from ex_run_unavailable obtain r where
    r: "Control (ex_env False kSolutionFound) ex_rs ex_input ex_controller ex_output = Some r"
    by blast
  have a: "length (actuators (rs_robot ex_rs)) = 1" "effort_limit_min_' (actuators (rs_robot ex_rs) ! 0) = - 10"
    by (simp_all add: ex_rs_def ex_robot_def)
  from Control_torque_limit_constraint[OF disjI2[OF ex_changed] ex_valid r] r show ?thesis
    by (auto simp: a)
qed

text \<open>
  Claim C1.  In every successful control cycle the joint-torque vector written to the
  output equals \<open>torque_linear\<close> times the vector the solver returned plus
  \<open>torque_constant\<close>.  The block of \<open>torque_linear\<close> at the \<open>vd\<close> columns is the lower
  (actuated) rows of the mass matrix, its block at the \<open>basis\<close> columns is the negated
  lower rows of the transposed stacked contact Jacobian times the basis matrix, and
  \<open>torque_constant\<close> is the lower rows of the bias term.  The solver is an arbitrary
  function here, so the identity holds for whatever vector it returns.
\<close>

theorem Control_torque_affine_map:
  assumes "QP_inv st \<or> \<not> topology_unchanged (rs_robot rs) (contact_info input) (desired_body_accelerations input) st"
    and "Control env rs input st output = Some r"
    and "ret r = 0"
  shows "\<exists>p x. solver_Solve env p = (kSolutionFound, x) \<and> prog_' (ctrl r) = p\<lparr>prog_solution := x\<rparr> \<and>
           out_joint_torque (outp r) =
             mat_add (mat_mul (torque_linear_' (ctrl r)) x) (torque_constant_' (ctrl r)) \<and>
           torque_constant_' (ctrl r) = vec_tail (length (actuators (rs_robot rs))) (bias_term rs) \<and>
           (\<forall>i<length (actuators (rs_robot rs)).
              (\<forall>j<number_of_velocities (rs_robot rs).
                 coeff (mat_block (torque_linear_' (ctrl r)) 0 0 (length (actuators (rs_robot rs)))
                          (number_of_velocities (rs_robot rs))) i j =
                 coeff (bottomRows (length (actuators (rs_robot rs))) (rs_M rs)) i j) \<and>
              (\<forall>j<sum_list (map ci_num_basis (contact_info input)).
                 coeff (mat_block (torque_linear_' (ctrl r)) 0 (number_of_velocities (rs_robot rs))
                          (length (actuators (rs_robot rs)))
                          (sum_list (map ci_num_basis (contact_info input)))) i j =
                 - coeff (bottomRows (length (actuators (rs_robot rs)))
                            (mat_mul (mat_transpose (stacked_contact_jacobians_' (ctrl r)))
                               (basis_to_force_matrix_' (ctrl r)))) i j))"
proof -
  from Control_success_run[OF assms] obtain st3 x where
    s: "formulation_current rs input st3"
       "solver_Solve env (prog_' st3) = (kSolutionFound, x)"
       "Control_decompose env rs input
               \<lparr>dv_index = 0, dv_size = number_of_velocities (rs_robot rs)\<rparr>
               \<lparr>dv_index = number_of_velocities (rs_robot rs),
                dv_size = sum_list (map ci_num_basis (contact_info input))\<rparr>
               (st3\<lparr>prog_' := (prog_' st3)\<lparr>prog_solution := x\<rparr>\<rparr>) output = Some r"
    by blast
  note c = Control_decompose_result(1)[OF s(3)]
  have f: "formulation_current rs input (ctrl r)"
    unfolding c by (simp add: formulation_current_stored s(1))
  have p: "prog_' (ctrl r) = (prog_' st3)\<lparr>prog_solution := x\<rparr>"
    by (simp add: c)
  have t: "out_joint_torque (outp r) =
             mat_add (mat_mul (torque_linear_' (ctrl r)) x) (torque_constant_' (ctrl r))"
    using Control_decompose_result(4)[OF s(3)] by (simp add: c)
  note d = formulation_currentD(2,3,4)[OF f]
  have b: "\<forall>i<length (actuators (rs_robot rs)).
              (\<forall>j<number_of_velocities (rs_robot rs).
                 coeff (mat_block (torque_linear_' (ctrl r)) 0 0 (length (actuators (rs_robot rs)))
                          (number_of_velocities (rs_robot rs))) i j =
                 coeff (bottomRows (length (actuators (rs_robot rs))) (rs_M rs)) i j) \<and>
              (\<forall>j<sum_list (map ci_num_basis (contact_info input)).
                 coeff (mat_block (torque_linear_' (ctrl r)) 0 (number_of_velocities (rs_robot rs))
                          (length (actuators (rs_robot rs)))
                          (sum_list (map ci_num_basis (contact_info input)))) i j =
                 - coeff (bottomRows (length (actuators (rs_robot rs)))
                            (mat_mul (mat_transpose (stacked_contact_jacobians_' (ctrl r)))
                               (basis_to_force_matrix_' (ctrl r)))) i j)"
    using d(3) unfolding d(2) by (simp add: mat_block_def)
  from s(2) p t d(1) b show ?thesis by blast
qed

theorem Control_torque_affine_map_witness:
  "\<exists>r. Control (ex_env True kSolutionFound) ex_rs ex_input ex_controller ex_output = Some r \<and> ret r = 0 \<and>
       out_joint_torque (outp r) =
         mat_add (mat_mul (torque_linear_' (ctrl r)) (prog_solution (prog_' (ctrl r)))) (torque_constant_' (ctrl r)) \<and>
       coeff (mat_block (torque_linear_' (ctrl r)) 0 0 1 7) 0 6 = coeff (bottomRows 1 (rs_M ex_rs)) 0 6 \<and>
       coeff (mat_block (torque_linear_' (ctrl r)) 0 7 1 4) 0 2 =
         - coeff (bottomRows 1 (mat_mul (mat_transpose (stacked_contact_jacobians_' (ctrl r)))
                                  (basis_to_force_matrix_' (ctrl r)))) 0 2"
proof -
  from ex_run_success obtain r where
    r: "Control (ex_env True kSolutionFound) ex_rs ex_input ex_controller ex_output = Some r" "ret r = 0"
    by blast
  have a: "length (actuators (rs_robot ex_rs)) = 1" "number_of_velocities (rs_robot ex_rs) = 7"
    "sum_list (map ci_num_basis (contact_info ex_input)) = 4"
    by (simp_all add: ex_rs_def ex_robot_def ex_input_def ex_foot_def)
  from Control_torque_affine_map[OF disjI2[OF ex_changed] r] r show ?thesis
    by (auto simp: a)
qed

text \<open>
  Claim C8, as stated, fails: the validation consists of assertions, which a release build
  does not compile in.  On the example robot, with the assertions disarmed and a solver that
  reports a solution found and answers with the first unit vector, \<^verbatim>\<open>Control\<close> returns
  \<open>0\<close> although the dynamics equality has residual \<open>1\<close> on that vector.
\<close>

theorem Control_disarmed_constraint_violated:
  "map_option ret (Control ex_env_disarmed ex_rs ex_input ex_controller ex_output) = Some 0 \<and>
   map_option (constraints_validated ex_env_disarmed \<circ> prog_' \<circ> ctrl)
     (Control ex_env_disarmed ex_rs ex_input ex_controller ex_output) = Some False"
  by (simp add: ex_run_disarmed ex_st5_constraints)

text \<open>
  Claim C8, amended.  With the assertions of the result validator armed, in every successful
  cycle each declared linear equality constraint has, on the returned solution, a residual
  within \<open>EPSILON\<close> of zero, and each declared linear inequality constraint evaluates
  within its lower and upper bound extended by \<open>EPSILON\<close>, the residual, the value and
  the extended bounds being those the validator computes.
\<close>

theorem Control_constraints_validated:
  assumes "kDrakeAssertIsArmed env"
    and "Control env rs input st output = Some r"
    and "ret r = 0"
  shows "constraints_validated env (prog_' (ctrl r))"
proof -
  from Control_success_decomposed[OF assms(2,3)] obtain vd basis st4 where
    d: "Control_decompose env rs input vd basis st4 output = Some r" by blast
  have p: "prog_' (ctrl r) = prog_' st4"
    by (simp add: Control_decompose_result(1)[OF d])
  from Control_decompose_checked(1,2)[OF d assms(1)] show ?thesis
    by (simp add: p constraints_validated_def)
qed

theorem Control_constraints_validated_witness:
  "kDrakeAssertIsArmed (ex_env True kSolutionFound) \<and>
   (\<exists>r. Control (ex_env True kSolutionFound) ex_rs ex_input ex_controller ex_output = Some r \<and> ret r = 0 \<and>
        list_all (equality_satisfied (ex_env True kSolutionFound) (prog_' (ctrl r)))
           (linear_equality_constraints (prog_' (ctrl r))) \<and>
        list_all (inequality_satisfied (ex_env True kSolutionFound) (prog_' (ctrl r)))
           (linear_constraints (prog_' (ctrl r))))"
proof -
  have a: "kDrakeAssertIsArmed (ex_env True kSolutionFound)" by (simp add: ex_env_def)
  from ex_run_success obtain r where
    r: "Control (ex_env True kSolutionFound) ex_rs ex_input ex_controller ex_output = Some r" "ret r = 0"
    by blast
  from Control_constraints_validated[OF a r] a r show ?thesis
    unfolding constraints_validated_def by blast
qed

text \<open>
  Claim C7, as stated, fails for the same reason: the wrench balance is an assertion.  On the
  example robot, with the assertions disarmed and the solver answering with the first unit
  vector, \<^verbatim>\<open>Control\<close> returns \<open>0\<close>; the net wrench is zero (no gravity wrench, no contact
  force) while the centroidal momentum matrix times the output acceleration is \<open>1\<close> in its
  first coordinate.
\<close>

theorem Control_disarmed_wrench_unbalanced:
  "map_option ret (Control ex_env_disarmed ex_rs ex_input ex_controller ex_output) = Some 0 \<and>
   map_option (wrench_balanced ex_env_disarmed ex_rs \<circ> outp)
     (Control ex_env_disarmed ex_rs ex_input ex_controller ex_output) = Some False"
  by (simp add: ex_run_disarmed ex_st5_wrench)

text \<open>
  Claim C7, amended.  With the assertions of the result validator armed, in every successful
  cycle the net wrench, which is the gravity wrench plus the equivalent wrench of every
  resolved contact with its force's moment about the center of mass added, equals the
  centroidal momentum matrix times the output generalized acceleration plus the centroidal
  momentum matrix's time derivative times the velocity, within \<open>EPSILON\<close>, all of them as
  the validator computes them.  There is one resolved contact per contact descriptor.
\<close>

theorem Control_wrench_balance_validated:
  assumes "kDrakeAssertIsArmed env"
    and "QP_inv st \<or> \<not> topology_unchanged (rs_robot rs) (contact_info input) (desired_body_accelerations input) st"
    and "Control env rs input st output = Some r"
    and "ret r = 0"
  shows "length (out_resolved_contacts (outp r)) = length (contact_info input) \<and>
         wrench_balanced env rs (outp r)"
proof -
  from Control_success_run[OF assms(2,3,4)] obtain st3 x where
    s: "QP_inv st3"
       "topology_unchanged (rs_robot rs) (contact_info input) (desired_body_accelerations input) st3"
       "Control_decompose env rs input
               \<lparr>dv_index = 0, dv_size = number_of_velocities (rs_robot rs)\<rparr>
               \<lparr>dv_index = number_of_velocities (rs_robot rs),
                dv_size = sum_list (map ci_num_basis (contact_info input))\<rparr>
               (st3\<lparr>prog_' := (prog_' st3)\<lparr>prog_solution := x\<rparr>\<rparr>) output = Some r"
    by blast
  let ?st4 = "st3\<lparr>prog_' := (prog_' st3)\<lparr>prog_solution := x\<rparr>\<rparr>"
  from s(1,2) have l: "length (body_J_' ?st4) = length (desired_body_accelerations input)"
    "length (body_Jdv_' ?st4) = length (desired_body_accelerations input)"
    "num_contact_body_' ?st4 = length (contact_info input)"
    by (simp_all add: QP_inv_def topology_unchanged_def)
  from s(3) have o: "outp r = decomposed env rs input
               \<lparr>dv_index = 0, dv_size = number_of_velocities (rs_robot rs)\<rparr>
               \<lparr>dv_index = number_of_velocities (rs_robot rs),
                dv_size = sum_list (map ci_num_basis (contact_info input))\<rparr> ?st4 output"
    unfolding Control_decompose_closed[OF l] by (auto simp: Let_def split: if_splits)
  have n: "length (out_resolved_contacts (outp r)) = length (contact_info input)"
    unfolding o by (rule decomposed_contacts)
  from Control_decompose_checked(3)[OF s(3) assms(1)] obtain net_wrench where
    w: "foldM (Control_add_wrench env rs (outp r)) [0..<length (contact_info input)]
          (dbl_scaled env (getMass (rs_robot rs)) (a_grav (rs_robot rs))) = Some net_wrench"
       "isZero (EPSILON env) (dbl_difference env net_wrench
          (dbl_sum env (dbl_product env (centroidal_momentum_matrix rs) (out_vd (outp r)))
             (centroidal_momentum_matrix_dot_times_v rs)))"
    by (auto simp: l(3))
  from w have "wrench_balanced env rs (outp r)"
    by (simp add: wrench_balanced_def n)
  with n show ?thesis by simp
qed

theorem Control_wrench_balance_validated_witness:
  "kDrakeAssertIsArmed (ex_env True kSolutionFound) \<and>
   (\<exists>r. Control (ex_env True kSolutionFound) ex_rs ex_input ex_controller ex_output = Some r \<and> ret r = 0 \<and>
        length (out_resolved_contacts (outp r)) = 1 \<and>
        wrench_balanced (ex_env True kSolutionFound) ex_rs (outp r))"
proof -
  have a: "kDrakeAssertIsArmed (ex_env True kSolutionFound)" by (simp add: ex_env_def)
  have n: "length (contact_info ex_input) = 1" by (simp add: ex_input_def)
  from ex_run_success obtain r where
    r: "Control (ex_env True kSolutionFound) ex_rs ex_input ex_controller ex_output = Some r" "ret r = 0"
    by blast
  from Control_wrench_balance_validated[OF a disjI2[OF ex_changed] r] a r n show ?thesis by auto
qed

end
